theory Spec2Isabelle
  imports Main
begin

section \<open>Python values shared by the demo scripts\<close>

text \<open>
  A Python \<open>str\<close> is a sequence of Unicode code points, so it is modelled as a list of
  natural numbers; \<open>str\<close> turns an ASCII literal into such a list. The pictographs the
  scripts print are given by their code points.
\<close>

type_synonym pystr = "nat list"

definition str :: "string \<Rightarrow> pystr" where
  "str s = map of_char s"

definition nl :: pystr where "nl = [10]"

definition apos :: pystr where "apos = [39]"

definition rep :: "nat \<Rightarrow> pystr \<Rightarrow> pystr" where
  \<comment> \<open>Python's \<open>s * n\<close>\<close>
  "rep n s = concat (replicate n s)"

definition CHECK_MARK :: pystr where "CHECK_MARK = [0x2705]"
definition CROSS_MARK :: pystr where "CROSS_MARK = [0x274C]"
definition WARNING_SIGN :: pystr where "WARNING_SIGN = [0x26A0, 0xFE0F]"
definition ROBOT_FACE :: pystr where "ROBOT_FACE = [0x1F916]"
definition MEMO :: pystr where "MEMO = [0x1F4DD]"
definition PUSHPIN :: pystr where "PUSHPIN = [0x1F4CC]"
definition SPEECH_BALLOON :: pystr where "SPEECH_BALLOON = [0x1F4AC]"
definition TEST_TUBE :: pystr where "TEST_TUBE = [0x1F9EA]"
definition CLIPBOARD :: pystr where "CLIPBOARD = [0x1F4CB]"
definition BUST :: pystr where "BUST = [0x1F464]"
definition BUSTS :: pystr where "BUSTS = [0x1F465]"
definition WRENCH :: pystr where "WRENCH = [0x1F527]"
definition THOUGHT_BALLOON :: pystr where "THOUGHT_BALLOON = [0x1F4AD]"
definition LIGHT_BULB :: pystr where "LIGHT_BULB = [0x1F4A1]"
definition ARROWS :: pystr where "ARROWS = [0x1F504]"
definition BAR_CHART :: pystr where "BAR_CHART = [0x1F4CA]"
definition CHART_UP :: pystr where "CHART_UP = [0x1F4C8]"

text \<open>
  \<open>str.isspace\<close>, \<open>str.strip()\<close> and \<open>str.lower()\<close>. The white-space code points are
  those of CPython. \<open>py_lower\<close> is exact on code points below 256 and leaves the others
  unchanged; the scripts only compare a lowered line with three ASCII keywords.
\<close>

definition isspace :: "nat \<Rightarrow> bool" where
  "isspace c \<longleftrightarrow>
     (9 \<le> c \<and> c \<le> 13) \<or> (28 \<le> c \<and> c \<le> 32) \<or> c = 133 \<or> c = 160 \<or> c = 5760 \<or>
     (8192 \<le> c \<and> c \<le> 8202) \<or> c = 8232 \<or> c = 8233 \<or> c = 8239 \<or> c = 8287 \<or> c = 12288"

definition py_strip :: "pystr \<Rightarrow> pystr" where
  "py_strip s = rev (dropWhile isspace (rev (dropWhile isspace s)))"

definition lower_cp :: "nat \<Rightarrow> nat" where
  "lower_cp c =
     (if (65 \<le> c \<and> c \<le> 90) \<or> (192 \<le> c \<and> c \<le> 222 \<and> c \<noteq> 215) then c + 32 else c)"

definition py_lower :: "pystr \<Rightarrow> pystr" where
  "py_lower s = map lower_cp s"


text \<open>
  Exceptions. \<open>Exc (Error cls msg)\<close> is an instance of a subclass of \<open>Exception\<close> with class
  name \<open>cls\<close> and \<open>str(e) = msg\<close>: what \<open>except Exception\<close> catches. \<open>KeyboardInterrupt\<close>
  and \<open>asyncio.CancelledError\<close> derive from \<open>BaseException\<close> only; \<open>except Exception\<close> lets
  them pass, and \<open>KeyboardInterrupt\<close> is caught where a handler names it.
\<close>

datatype error = Error (cls: pystr) (msg: pystr)

datatype exn = Exc error | KeyboardInterrupt | CancelledError

text \<open>The outcome of a call that returns nothing: it completes, or it raises.\<close>

fun raising :: "exn option \<Rightarrow> exn + unit" where
  "raising None = Inr ()"
| "raising (Some x) = Inl x"

text \<open>Truthiness of an optional string: \<open>None\<close> and \<open>""\<close> are false.\<close>

fun truthy :: "pystr option \<Rightarrow> bool" where
  "truthy None = False"
| "truthy (Some s) = (s \<noteq> [])"

subsection \<open>Tool-provider parameters\<close>

text \<open>
  The arguments of the subprocess that serves the tools, as the scripts write them:
  the keyword arguments of \<open>StdioServerParameters\<close> in google-adk, the \<open>params\<close> dictionary
  of \<open>MCPServerStdio\<close> in openai, and the server entry of \<open>MultiServerMCPClient\<close> in
  langchain. The credential mapping is given under the key \<open>env\<close> in langchain and openai
  and under the keyword \<open>env_vars\<close> in the two google-adk files; a key that is not given
  is \<open>None\<close>. The values of the mapping are optional because \<open>os.getenv\<close> returns \<open>None\<close>
  for an unset variable.
\<close>

record stdio_params =
  command :: pystr
  args :: "pystr list"
  env :: "(pystr \<times> pystr option) list option"
  env_vars :: "(pystr \<times> pystr option) list option"

text \<open>\<open>MCPToolset(connection_params=..., tool_filter=[...])\<close> of google-adk.\<close>

record toolset_args =
  connection_params :: stdio_params
  tool_filter :: "pystr list"

text \<open>The entry of the dictionary given to \<open>MultiServerMCPClient\<close>.\<close>

record connection = stdio_params +
  transport :: pystr

text \<open>\<open>MCPServerStdio(name=..., params={...})\<close> of the OpenAI Agents SDK.\<close>

record mcp_server_stdio =
  server_name :: pystr
  params :: stdio_params

text \<open>
  An agent object as the scripts build it. The instruction and description literals are
  only handed to the SDK and never read back, so the model keeps the name, the model
  identifier and the tool source.
\<close>

datatype tool_source =
    Toolset toolset_args
  | Servers "mcp_server_stdio list"
  | Tools "pystr list"

record agent_args =
  agent_name :: pystr
  model :: "pystr option"
  tools :: tool_source

subsection \<open>The world a script runs in\<close>

text \<open>
  What a script can observe and change: the process environment, the executables found
  by \<open>shutil.which\<close>, the terminal (the events \<open>input()\<close> will meet, and how many have
  been consumed), everything the script has done so far (\<open>out\<close>), the number of SDK
  calls made (\<open>clock\<close>), the state of the interrupt handling (\<open>sigint\<close>), and the
  behaviour of the vendor SDK, which is not part of this repository and is universally
  quantified in the theorems.

  \<open>sigint\<close> follows CPython 3.11 and later. Outside \<open>asyncio.run\<close> the default handler is
  installed and Ctrl-C raises \<open>KeyboardInterrupt\<close> in the main thread
  (\<open>Default_handler\<close>). \<open>asyncio.run\<close> installs its own handler while it runs (\<open>Armed\<close>):
  the first Ctrl-C only requests the cancellation of the main task and the interrupted
  call goes on (\<open>Cancel_pending\<close>); the task then receives \<open>CancelledError\<close> at its next
  suspension (\<open>Disarmed\<close>); every further Ctrl-C raises \<open>KeyboardInterrupt\<close>.
\<close>

datatype tty = Line pystr | CtrlC | EOF

datatype sigint = Default_handler | Armed | Cancel_pending | Disarmed

datatype event =
    Print pystr
  | Prompt pystr
  | New_tool_provider stdio_params "pystr list option"
  | New_agent agent_args
  | Invoke pystr pystr
  | Close_tool_provider

record 'sdk world =
  environ :: "pystr \<Rightarrow> pystr option"
  which :: "pystr \<Rightarrow> pystr option"
  stdin :: "nat \<Rightarrow> tty"
  cursor :: nat
  out :: "event list"
  clock :: nat
  sigint :: sigint
  sdk :: 'sdk

definition emit :: "event \<Rightarrow> 'sdk world \<Rightarrow> 'sdk world" where
  "emit e w = w\<lparr>out := out w @ [e]\<rparr>"

definition print :: "pystr \<Rightarrow> 'sdk world \<Rightarrow> 'sdk world" where
  "print t w = emit (Print t) w"

definition prints :: "pystr list \<Rightarrow> 'sdk world \<Rightarrow> 'sdk world" where
  \<comment> \<open>consecutive \<open>print\<close> statements\<close>
  "prints ts w = fold print ts w"

definition tick :: "'sdk world \<Rightarrow> 'sdk world" where
  "tick w = w\<lparr>clock := Suc (clock w)\<rparr>"

definition getenv :: "'sdk world \<Rightarrow> pystr \<Rightarrow> pystr option" where
  \<comment> \<open>\<open>os.getenv(k)\<close>\<close>
  "getenv w k = environ w k"

definition getenv_default :: "'sdk world \<Rightarrow> pystr \<Rightarrow> pystr \<Rightarrow> pystr" where
  \<comment> \<open>\<open>os.getenv(k, d)\<close>\<close>
  "getenv_default w k d = (case environ w k of None \<Rightarrow> d | Some v \<Rightarrow> v)"

definition environ_item :: "'sdk world \<Rightarrow> pystr \<Rightarrow> error + pystr" where
  \<comment> \<open>\<open>os.environ[k]\<close>, a \<open>KeyError\<close> when the variable is unset\<close>
  "environ_item w k =
     (case environ w k of
        None \<Rightarrow> Inl (Error (str ''KeyError'') (apos @ k @ apos))
      | Some v \<Rightarrow> Inr v)"

text \<open>
  \<open>input(prompt)\<close> writes the prompt and waits for the terminal. \<open>read_line\<close> is the wait
  when an interrupt raises. Under the handler of \<open>asyncio.run\<close> the first Ctrl-C of the
  run raises nothing: the handler asks for the cancellation of the main task and returns,
  and \<open>input()\<close> goes on waiting for the next event.
\<close>

definition read_line :: "'sdk world \<Rightarrow> (exn + pystr) \<times> 'sdk world" where
  "read_line w =
     (let w' = w\<lparr>cursor := Suc (cursor w)\<rparr> in
      case stdin w (cursor w) of
        Line s \<Rightarrow> (Inr s, w')
      | CtrlC \<Rightarrow> (Inl KeyboardInterrupt, w')
      | EOF \<Rightarrow> (Inl (Exc (Error (str ''EOFError'') (str ''EOF when reading a line''))), w'))"

definition input :: "pystr \<Rightarrow> 'sdk world \<Rightarrow> (exn + pystr) \<times> 'sdk world" where
  "input prompt w =
     (let w1 = emit (Prompt prompt) w in
      if stdin w1 (cursor w1) = CtrlC \<and> sigint w1 = Armed
      then read_line (w1\<lparr>cursor := Suc (cursor w1), sigint := Cancel_pending\<rparr>)
      else read_line w1)"

text \<open>
  \<open>await\<close> of a call into a vendor SDK whose outcome is \<open>r\<close>. Every such \<open>await\<close> is taken
  to suspend the task, so a cancellation that is pending is delivered there: the call
  raises \<open>CancelledError\<close> instead.
\<close>

definition await :: "exn + 'a \<Rightarrow> 'sdk world \<Rightarrow> (exn + 'a) \<times> 'sdk world" where
  "await r w =
     (if sigint w = Cancel_pending then (Inl CancelledError, w\<lparr>sigint := Disarmed\<rparr>)
      else (r, w))"

definition quit_words :: "pystr list" where
  "quit_words = [str ''quit'', str ''exit'', str ''q'']"

text \<open>
  \<open>for x in xs: body\<close> where the body may raise: the first exception that leaves the body
  leaves the loop.
\<close>

fun for_each :: "('a \<Rightarrow> 'w \<Rightarrow> (exn + unit) \<times> 'w) \<Rightarrow> 'a list \<Rightarrow> 'w \<Rightarrow> (exn + unit) \<times> 'w" where
  "for_each body [] w = (Inr (), w)"
| "for_each body (x # xs) w =
     (case body x w of
        (Inl e, w1) \<Rightarrow> (Inl e, w1)
      | (Inr u, w1) \<Rightarrow> for_each body xs w1)"

text \<open>
  How one turn of a \<open>while True\<close> loop ends: with \<open>break\<close>, by going to the next turn
  (\<open>continue\<close>, or the end of the loop body), or with an exception that no handler of the
  loop body catches.
\<close>

datatype 'a turn = Break 'a | Continue 'a | Raise exn 'a

text \<open>
  \<open>while True: body\<close>. The loop may run forever, so it takes fuel: one unit per turn,
  and \<open>None\<close> when the fuel is used up before the loop is left.
\<close>

fun while_True :: "nat \<Rightarrow> ('a \<Rightarrow> 'a turn) \<Rightarrow> 'a \<Rightarrow> ((exn + unit) \<times> 'a) option" where
  "while_True 0 body x = None"
| "while_True (Suc n) body x =
     (case body x of
        Break y \<Rightarrow> Some (Inr (), y)
      | Continue y \<Rightarrow> while_True n body y
      | Raise e y \<Rightarrow> Some (Inl e, y))"

text \<open>
  \<open>try: ... except Exception as e: print(f"<prefix>{e}")\<close> around a block with outcome
  \<open>r\<close>: an \<open>Exception\<close> is printed and the statement completes; anything else passes.
\<close>

definition except_Exception_print :: "pystr \<Rightarrow> (exn + unit) \<times> 'sdk world \<Rightarrow> (exn + unit) \<times> 'sdk world" where
  "except_Exception_print prefix r =
     (case r of
        (Inl (Exc e), w) \<Rightarrow> (Inr (), print (prefix @ msg e) w)
      | (x, w) \<Rightarrow> (x, w))"

text \<open>
  \<open>asyncio.run(main())\<close>: the handler of the runner is installed while \<open>main\<close> runs and the
  previous one is restored afterwards. When the task ends cancelled after an interrupt,
  the runner raises \<open>KeyboardInterrupt\<close> in its place.
\<close>

definition asyncio_run :: "('sdk world \<Rightarrow> ((exn + 'a) \<times> 'sdk world) option) \<Rightarrow> 'sdk world \<Rightarrow> ((exn + 'a) \<times> 'sdk world) option" where
  "asyncio_run main w =
     (case main (w\<lparr>sigint := Armed\<rparr>) of
        None \<Rightarrow> None
      | Some (r, w1) \<Rightarrow>
          Some (if r = Inl CancelledError \<and> sigint w1 \<noteq> Armed then Inl KeyboardInterrupt else r,
                w1\<lparr>sigint := sigint w\<rparr>))"

definition Agent :: "agent_args \<Rightarrow> 'sdk world \<Rightarrow> agent_args \<times> 'sdk world" where
  \<comment> \<open>an agent constructor of a vendor SDK\<close>
  "Agent a w = (a, emit (New_agent a) w)"

definition banner :: "nat \<Rightarrow> pystr \<Rightarrow> 'sdk world \<Rightarrow> 'sdk world" where
  \<comment> \<open>the three prints that open every demo\<close>
  "banner n title w = prints [nl @ rep n (str ''=''), title, rep n (str ''='')] w"

section \<open>openai/openai_agents.py\<close>

text \<open>
  The OpenAI Agents SDK as the script uses it: entering the \<open>MCPServerStdio\<close> context
  starts the subprocess and may raise, and leaving it may raise; \<open>Runner.run\<close>, called at
  clock \<open>n\<close> for an agent and an input text, raises or returns a result whose
  \<open>final_output\<close> is printed; \<open>gen_trace_id()\<close> returns an identifier.
\<close>

record openai_sdk =
  connect :: "exn option"
  disconnect :: "exn option"
  run :: "nat \<Rightarrow> pystr \<Rightarrow> pystr \<Rightarrow> exn + pystr"
  trace_id :: pystr

definition Runner_run :: "agent_args \<Rightarrow> pystr \<Rightarrow> openai_sdk world \<Rightarrow> (exn + pystr) \<times> openai_sdk world" where
  \<comment> \<open>\<open>await Runner.run(starting_agent=a, input=text)\<close>\<close>
  "Runner_run a text w =
     await (run (sdk w) (clock w) (agent_name a) text) (tick (emit (Invoke (agent_name a) text) w))"

definition create_basic_xero_agent :: "mcp_server_stdio \<Rightarrow> openai_sdk world \<Rightarrow> agent_args \<times> openai_sdk world" where
  "create_basic_xero_agent mcp_server w =
     Agent \<lparr>agent_name = str ''Xero Assistant'', model = Some (str ''gpt-4o-mini''),
            tools = Servers [mcp_server]\<rparr> w"

definition create_invoice_specialist_agent :: "mcp_server_stdio \<Rightarrow> openai_sdk world \<Rightarrow> agent_args \<times> openai_sdk world" where
  "create_invoice_specialist_agent mcp_server w =
     Agent \<lparr>agent_name = str ''Invoice Specialist'', model = Some (str ''gpt-4o-mini''),
            tools = Servers [mcp_server]\<rparr> w"

definition create_contact_manager_agent :: "mcp_server_stdio \<Rightarrow> openai_sdk world \<Rightarrow> agent_args \<times> openai_sdk world" where
  "create_contact_manager_agent mcp_server w =
     Agent \<lparr>agent_name = str ''Contact Manager'', model = Some (str ''gpt-4o-mini''),
            tools = Servers [mcp_server]\<rparr> w"

text \<open>
  The body of the \<open>for request in requests\<close> loops of the first three demos: the
  \<open>try\<close> is inside the loop, so a call that fails with an \<open>Exception\<close> prints its message
  and the next request is taken. \<open>icon\<close> is the pictograph that differs between the three
  demos.
\<close>

definition request_step :: "pystr \<Rightarrow> agent_args \<Rightarrow> pystr \<Rightarrow> openai_sdk world \<Rightarrow> (exn + unit) \<times> openai_sdk world" where
  "request_step icon a request w0 =
     (let w1 = print (nl @ icon @ str '' User: '' @ request) w0;
          w2 = print (THOUGHT_BALLOON @ str '' Agent thinking...'') w1
      in except_Exception_print (CROSS_MARK @ str '' Error: '')
           (case Runner_run a request w2 of
              (Inl x, w3) \<Rightarrow> (Inl x, w3)
            | (Inr final_output, w3) \<Rightarrow>
                (Inr (), print (CHECK_MARK @ str '' Agent: '' @ final_output) w3)))"

definition demo_basic_agent_requests :: "pystr list" where
  "demo_basic_agent_requests =
     [str ''Find all active customers'',
      str ''Create a new customer named 'Tech Solutions Inc' with email tech@solutions.com'',
      str ''Find customers with 'Tech' in their name to see if our customer was created'']"

definition demo_basic_agent :: "mcp_server_stdio \<Rightarrow> openai_sdk world \<Rightarrow> (exn + unit) \<times> openai_sdk world" where
  "demo_basic_agent mcp_server w0 =
     (let w1 = banner 60 (str ''BASIC XERO AGENT DEMO'') w0;
          (a, w2) = create_basic_xero_agent mcp_server w1
      in case for_each (request_step ROBOT_FACE a) demo_basic_agent_requests w2 of
           (Inl x, w3) \<Rightarrow> (Inl x, w3)
         | (Inr u, w3) \<Rightarrow>
             (Inr (), prints
               [nl @ LIGHT_BULB @ str '' Note: To create an invoice, you would need to:'',
                str ''    1. First get the contact_id from the customer creation response'',
                str ''    2. Then create an invoice using that specific contact_id'',
                str ''    3. Contact IDs in Xero are UUIDs, not simple strings like 'abc123'' @ apos] w3))"

definition demo_invoice_specialist_requests :: "pystr list" where
  "demo_invoice_specialist_requests =
     [str ''Find all draft invoices'',
      str ''Find all invoices with status AUTHORISED'',
      str ''Find invoices from the last 30 days'']"

definition demo_invoice_specialist :: "mcp_server_stdio \<Rightarrow> openai_sdk world \<Rightarrow> (exn + unit) \<times> openai_sdk world" where
  "demo_invoice_specialist mcp_server w0 =
     (let w1 = banner 60 (str ''INVOICE SPECIALIST AGENT DEMO'') w0;
          (a, w2) = create_invoice_specialist_agent mcp_server w1
      in for_each (request_step MEMO a) demo_invoice_specialist_requests w2)"

definition demo_contact_manager_requests :: "pystr list" where
  "demo_contact_manager_requests =
     [str ''Find all customers'',
      str ''Create a new supplier 'Office Supplies Ltd' with email orders@officesupplies.com'',
      str ''Search for contacts with 'tech' in their name'']"

definition demo_contact_manager :: "mcp_server_stdio \<Rightarrow> openai_sdk world \<Rightarrow> (exn + unit) \<times> openai_sdk world" where
  "demo_contact_manager mcp_server w0 =
     (let w1 = banner 60 (str ''CONTACT MANAGER AGENT DEMO'') w0;
          (a, w2) = create_contact_manager_agent mcp_server w1
      in for_each (request_step BUSTS a) demo_contact_manager_requests w2)"

text \<open>
  The two workflow demos put three calls in one \<open>try\<close>. \<open>workflow_step\<close> is one call with
  the print of its result and the prints that follow it up to the next call; the body of
  the \<open>try\<close> is these steps one after the other, so it stops at the first call that
  raises and hands the exception to the handler.
\<close>

definition workflow_step :: "pystr \<Rightarrow> agent_args \<Rightarrow> pystr \<times> pystr list \<Rightarrow> openai_sdk world \<Rightarrow> (exn + unit) \<times> openai_sdk world" where
  "workflow_step label a step w =
     (case Runner_run a (fst step) w of
        (Inl x, w1) \<Rightarrow> (Inl x, w1)
      | (Inr final_output, w1) \<Rightarrow>
          (Inr (), prints (snd step) (print (CHECK_MARK @ label @ final_output) w1)))"

definition demo_multi_agent_workflow_steps :: "(pystr \<times> pystr list) list" where
  "demo_multi_agent_workflow_steps =
     [(str ''Create a new customer named 'Demo Corp' with email billing@democorp.com'',
       [nl @ ARROWS @ str '' Step 2: Find the customer we just created'']),
      (str ''Find a customer named 'Demo Corp'' @ apos,
       [nl @ ARROWS @ str '' Step 3: Find existing customers to create an invoice for'']),
      (str ''Find the first 3 customers'',
       [nl @ LIGHT_BULB @ str '' Note: In a real application, you would extract the contact ID'',
        str ''    from the contact creation response and pass it to the invoice agent.''])]"

definition demo_multi_agent_workflow :: "mcp_server_stdio \<Rightarrow> openai_sdk world \<Rightarrow> (exn + unit) \<times> openai_sdk world" where
  "demo_multi_agent_workflow mcp_server w0 =
     (let w1 = banner 60 (str ''MULTI-AGENT WORKFLOW DEMO'') w0;
          (contact_agent, w2) = create_contact_manager_agent mcp_server w1;
          (invoice_agent, w3) = create_invoice_specialist_agent mcp_server w2;
          w4 = print (nl @ ARROWS @ str '' Step 1: Contact Manager creates a new customer'') w3
      in except_Exception_print (CROSS_MARK @ str '' Error: '')
           (for_each (workflow_step (str '' Contact Agent: '') contact_agent)
              demo_multi_agent_workflow_steps w4))"

definition demo_comprehensive_workflow_steps :: "(pystr \<times> pystr list) list" where
  "demo_comprehensive_workflow_steps =
     [(str ''Create a new customer named 'Workflow Demo Ltd' with email demo@workflow.com'',
       [nl @ ARROWS @ str '' Step 2: Find customers to get a valid contact ID'']),
      (str ''Find customers with 'Workflow' in their name and show me their contact IDs'',
       [nl @ ARROWS @ str '' Step 3: Search for any existing customers we can use'']),
      (str ''Find the first 3 customers and show their contact IDs so I can create an invoice'',
       [nl @ LIGHT_BULB @ str '' Instructions for creating an invoice:'',
        str ''    1. Copy one of the contact IDs from above (the UUID format)'',
        str ''    2. Use that ID to create an invoice like this:'',
        str ''       'Create an invoice for contact ID [paste-uuid-here] with line item: Consulting for $1000'' @ apos,
        str ''    3. The contact ID must be in UUID format like: 12345678-1234-1234-1234-123456789abc''])]"

definition demo_comprehensive_workflow :: "mcp_server_stdio \<Rightarrow> openai_sdk world \<Rightarrow> (exn + unit) \<times> openai_sdk world" where
  "demo_comprehensive_workflow mcp_server w0 =
     (let w1 = banner 60 (str ''COMPREHENSIVE WORKFLOW DEMO'') w0;
          w2 = print (str ''This demo shows how to properly work with contact IDs and create invoices'') w1;
          (a, w3) = create_basic_xero_agent mcp_server w2;
          w4 = print (nl @ ARROWS @ str '' Step 1: Create a new customer'') w3
      in except_Exception_print (CROSS_MARK @ str '' Error: '')
           (for_each (workflow_step (str '' Agent: '') a) demo_comprehensive_workflow_steps w4))"

text \<open>
  The two handlers every interactive loop has, in the order of the source:
  \<open>except KeyboardInterrupt\<close> says goodbye and leaves the loop, \<open>except Exception\<close> prints
  the message and the loop goes on. \<open>CancelledError\<close> is caught by neither.
\<close>

definition interactive_handlers :: "exn \<Rightarrow> 'sdk world \<Rightarrow> 'sdk world turn" where
  "interactive_handlers x w =
     (case x of
        KeyboardInterrupt \<Rightarrow> Break (print (nl @ nl @ str ''Goodbye!'') w)
      | Exc e \<Rightarrow> Continue (print (nl @ CROSS_MARK @ str '' Error: '' @ msg e) w)
      | CancelledError \<Rightarrow> Raise CancelledError w)"

text \<open>
  The \<open>while True\<close> loop of \<open>interactive_demo\<close>: first one turn of it, the body of the
  \<open>try\<close> with its two handlers, then the loop.
\<close>

definition openai_interactive_turn :: "agent_args \<Rightarrow> pystr \<Rightarrow> openai_sdk world \<Rightarrow> openai_sdk world turn" where
  "openai_interactive_turn a shown w =
     (case input (nl @ str ''You: '') w of
        (Inl x, w1) \<Rightarrow> interactive_handlers x w1
      | (Inr line, w1) \<Rightarrow>
          (let user_input = py_strip line in
           if py_lower user_input \<in> set quit_words then Break (print (nl @ str ''Goodbye!'') w1)
           else if user_input = [] then Continue w1
           else
             (case Runner_run a user_input (print (THOUGHT_BALLOON @ str '' Agent thinking...'') w1) of
                (Inl x, w2) \<Rightarrow> interactive_handlers x w2
              | (Inr final_output, w2) \<Rightarrow>
                  Continue (print (nl @ ROBOT_FACE @ str '' '' @ shown @ str '': '' @ final_output) w2))))"

definition openai_interactive_loop :: "nat \<Rightarrow> agent_args \<Rightarrow> pystr \<Rightarrow> openai_sdk world \<Rightarrow> ((exn + unit) \<times> openai_sdk world) option" where
  "openai_interactive_loop fuel a shown w = while_True fuel (openai_interactive_turn a shown) w"

definition openai_ready_lines :: "pystr \<Rightarrow> pystr list" where
  \<comment> \<open>what \<open>interactive_demo\<close> prints between the choice of the agent and the loop\<close>
  "openai_ready_lines shown =
     [nl @ ROBOT_FACE @ str '' '' @ shown @ str '' is ready!'',
      nl @ str ''Type your requests in natural language.'',
      str ''Examples:'',
      str ''- 'Create a new customer named ABC Corp with email info@abc.com'' @ apos,
      str ''- 'Find all customers'' @ apos,
      str ''- 'Find all draft invoices'' @ apos,
      str ''- 'Find customers and show their contact IDs'' @ apos,
      nl @ WARNING_SIGN @ str ''  Important for creating invoices:'',
      str ''- Contact IDs must be in UUID format (e.g., 12345678-1234-1234-1234-123456789abc)'',
      str ''- Use 'Find customers' first to get valid contact IDs'',
      str ''- Then use: 'Create invoice for contact ID [uuid] with item: Description for $Amount'' @ apos,
      nl @ str ''Type 'quit' to exit.'' @ nl]"

definition openai_agent_menu :: "pystr list" where
  "openai_agent_menu =
     [nl @ str ''Choose an agent type:'',
      str ''1. General Xero Assistant (all tools)'',
      str ''2. Invoice Specialist'',
      str ''3. Contact Manager'']"

definition choose_agent :: "pystr \<Rightarrow> mcp_server_stdio \<Rightarrow> openai_sdk world \<Rightarrow> ((agent_args \<times> openai_sdk world) \<times> pystr) option" where
  \<comment> \<open>the \<open>if choice == "1": ... elif ... else\<close> of \<open>interactive_demo\<close>: the agent and the name shown
      for it, or \<open>None\<close> for an invalid choice\<close>
  "choose_agent choice mcp_server w =
     (if choice = str ''1'' then Some (create_basic_xero_agent mcp_server w, str ''General Assistant'')
      else if choice = str ''2'' then Some (create_invoice_specialist_agent mcp_server w, str ''Invoice Specialist'')
      else if choice = str ''3'' then Some (create_contact_manager_agent mcp_server w, str ''Contact Manager'')
      else None)"

definition openai_interactive_demo :: "nat \<Rightarrow> mcp_server_stdio \<Rightarrow> openai_sdk world \<Rightarrow> ((exn + unit) \<times> openai_sdk world) option" where
  "openai_interactive_demo fuel mcp_server w0 =
     (let w1 = banner 60 (str ''INTERACTIVE XERO AGENTS SDK DEMO'') w0;
          w2 = prints openai_agent_menu w1
      in case input (nl @ str ''Enter your choice (1-3): '') w2 of
           (Inl x, w3) \<Rightarrow> Some (Inl x, w3)
         | (Inr line, w3) \<Rightarrow>
             (case choose_agent (py_strip line) mcp_server w3 of
                None \<Rightarrow> Some (Inr (), print (str ''Invalid choice.'') w3)
              | Some ((a, w4), shown) \<Rightarrow>
                  openai_interactive_loop fuel a shown (prints (openai_ready_lines shown) w4)))"

definition openai_menu :: "pystr list" where
  \<comment> \<open>the lines \<open>run_demo_with_mcp\<close> prints before it asks for the choice\<close>
  "openai_menu =
     [str ''Xero + OpenAI Agents SDK Integration Examples'',
      rep 50 (str ''=''),
      nl @ str ''Select a demo:'',
      str ''1. Basic Agent Demo'',
      str ''2. Invoice Specialist Demo'',
      str ''3. Contact Manager Demo'',
      str ''4. Multi-Agent Workflow'',
      str ''5. Comprehensive Workflow (Recommended)'',
      str ''6. Interactive Agent'']"

definition run_demo_with_mcp :: "nat \<Rightarrow> mcp_server_stdio \<Rightarrow> openai_sdk world \<Rightarrow> ((exn + unit) \<times> openai_sdk world) option" where
  "run_demo_with_mcp fuel mcp_server w0 =
     (let w1 = prints openai_menu w0
      in case input (nl @ str ''Enter your choice (1-6): '') w1 of
           (Inl x, w2) \<Rightarrow> Some (Inl x, w2)
         | (Inr line, w2) \<Rightarrow>
             (let choice = py_strip line in
              if choice = str ''1'' then Some (demo_basic_agent mcp_server w2)
              else if choice = str ''2'' then Some (demo_invoice_specialist mcp_server w2)
              else if choice = str ''3'' then Some (demo_contact_manager mcp_server w2)
              else if choice = str ''4'' then Some (demo_multi_agent_workflow mcp_server w2)
              else if choice = str ''5'' then Some (demo_comprehensive_workflow mcp_server w2)
              else if choice = str ''6'' then openai_interactive_demo fuel mcp_server w2
              else Some (Inr (), print (str ''Invalid choice. Please run again and select 1-6.'') w2)))"

definition openai_server :: "pystr \<Rightarrow> pystr \<Rightarrow> mcp_server_stdio" where
  \<comment> \<open>the arguments of \<open>MCPServerStdio\<close> in \<open>main\<close>, given the two values read from \<open>os.environ\<close>\<close>
  "openai_server client_id client_secret =
     \<lparr>server_name = str ''Xero'',
      params = \<lparr>command = str ''npx'',
                args = [str ''-y'', str ''@xeroapi/xero-mcp-server@latest''],
                env = Some [(str ''XERO_CLIENT_ID'', Some client_id),
                            (str ''XERO_CLIENT_SECRET'', Some client_secret)],
                env_vars = None\<rparr>\<rparr>"

text \<open>
  \<open>async with MCPServerStdio(...) as server: body\<close>. Entering awaits the start of the
  subprocess; when that raises, the body is skipped. Leaving awaits the shutdown, after
  the body has completed or raised; what the body raised propagates unless the shutdown
  raises itself.
\<close>

definition with_server :: "mcp_server_stdio \<Rightarrow> (openai_sdk world \<Rightarrow> ((exn + unit) \<times> openai_sdk world) option) \<Rightarrow> openai_sdk world \<Rightarrow> ((exn + unit) \<times> openai_sdk world) option" where
  "with_server server body w0 =
     (case await (raising (connect (sdk w0))) (tick (emit (New_tool_provider (params server) None) w0)) of
        (Inl x, w1) \<Rightarrow> Some (Inl x, w1)
      | (Inr u, w1) \<Rightarrow>
          (case body w1 of
             None \<Rightarrow> None
           | Some (r, w2) \<Rightarrow>
               (case await (raising (disconnect (sdk w2))) (emit Close_tool_provider w2) of
                  (Inl y, w3) \<Rightarrow> Some (Inl y, w3)
                | (Inr u, w3) \<Rightarrow> Some (r, w3))))"

definition openai_main :: "nat \<Rightarrow> openai_sdk world \<Rightarrow> ((exn + unit) \<times> openai_sdk world) option" where
  "openai_main fuel w =
     (if \<not> truthy (getenv w (str ''OPENAI_API_KEY'')) then
        Some (Inr (), prints
          [str ''Error: OPENAI_API_KEY not set in environment'',
           str ''Please set your OpenAI API key to run this example''] w)
      else if \<not> truthy (getenv w (str ''XERO_CLIENT_ID'')) \<or> \<not> truthy (getenv w (str ''XERO_CLIENT_SECRET'')) then
        Some (Inr (), prints
          [str ''Error: Xero credentials not set in environment'',
           str ''Please set XERO_CLIENT_ID and XERO_CLIENT_SECRET''] w)
      else if \<not> truthy (which w (str ''npx'')) then
        Some (Inl (Exc (Error (str ''RuntimeError'')
                (str ''npx is not installed. Please install it with `npm install -g npx`.''))), w)
      else
        (case environ_item w (str ''XERO_CLIENT_ID'') of
           Inl e \<Rightarrow> Some (Inl (Exc e), w)
         | Inr client_id \<Rightarrow>
        (case environ_item w (str ''XERO_CLIENT_SECRET'') of
           Inl e \<Rightarrow> Some (Inl (Exc e), w)
         | Inr client_secret \<Rightarrow>
             with_server (openai_server client_id client_secret)
               (\<lambda>w1. run_demo_with_mcp fuel (openai_server client_id client_secret)
                        (print (str ''View trace: https://platform.openai.com/traces/''
                                  @ trace_id (sdk w1) @ nl) w1))
               w)))"

section \<open>langchain/langchain.py\<close>

text \<open>
  LangChain as the script uses it. \<open>client.get_tools()\<close> starts the subprocess and returns
  every tool the server offers, or raises; the constructor \<open>ChatOpenAI\<close> may raise;
  \<open>agent.ainvoke\<close>, called at clock \<open>n\<close> with a text, raises or returns a response. The
  script reads the response only through
  \<open>if response and "messages" in response: response["messages"][-1].content\<close>, so a
  response is either one without messages or the list of its messages' contents.
\<close>

datatype response = No_messages | Messages "pystr list"

record langchain_sdk =
  get_tools :: "nat \<Rightarrow> exn + pystr list"
  ChatOpenAI :: "nat \<Rightarrow> exn option"
  ainvoke :: "nat \<Rightarrow> pystr \<Rightarrow> exn + response"

definition xero_connection :: "langchain_sdk world \<Rightarrow> connection" where
  \<comment> \<open>the entry \<open>"xero"\<close> of the dictionary given to \<open>MultiServerMCPClient\<close>\<close>
  "xero_connection w =
     \<lparr>command = str ''npx'',
      args = [str ''-y'', str ''@xeroapi/xero-mcp-server@latest''],
      env = Some [(str ''XERO_CLIENT_ID'', getenv w (str ''XERO_CLIENT_ID'')),
                  (str ''XERO_CLIENT_SECRET'', getenv w (str ''XERO_CLIENT_SECRET''))],
      env_vars = None,
      transport = str ''stdio''\<rparr>"

definition create_xero_mcp_agent :: "langchain_sdk world \<Rightarrow> (exn + agent_args) \<times> langchain_sdk world" where
  "create_xero_mcp_agent w0 =
     (let w1 = emit (New_tool_provider (stdio_params.truncate (xero_connection w0)) None) w0
      in case await (get_tools (sdk w0) (clock w1)) (tick w1) of
           (Inl x, w2) \<Rightarrow> (Inl x, w2)
         | (Inr offered, w2) \<Rightarrow>
             (let w3 = tick w2 in
              case ChatOpenAI (sdk w0) (clock w2) of
                Some x \<Rightarrow> (Inl x, w3)
              | None \<Rightarrow>
                  (case Agent \<lparr>agent_name = [], model = Some (str ''gpt-4o''), tools = Tools offered\<rparr> w3 of
                     (a, w4) \<Rightarrow> (Inr a, w4))))"

definition agent_ainvoke :: "agent_args \<Rightarrow> pystr \<Rightarrow> langchain_sdk world \<Rightarrow> (exn + response) \<times> langchain_sdk world" where
  \<comment> \<open>\<open>await agent.ainvoke({"messages": [HumanMessage(content=text)]})\<close>\<close>
  "agent_ainvoke a text w =
     await (ainvoke (sdk w) (clock w) text) (tick (emit (Invoke (agent_name a) text) w))"

definition print_last_message :: "pystr \<Rightarrow> response \<Rightarrow> 'sdk world \<Rightarrow> (exn + unit) \<times> 'sdk world" where
  \<comment> \<open>the \<open>if response and "messages" in response\<close> block; \<open>[-1]\<close> of an empty list raises\<close>
  "print_last_message prefix r w =
     (case r of
        No_messages \<Rightarrow> (Inr (), w)
      | Messages ms \<Rightarrow>
          (if ms = [] then (Inl (Exc (Error (str ''IndexError'') (str ''list index out of range''))), w)
           else (Inr (), print (prefix @ last ms) w)))"

definition invoke_and_print :: "pystr \<Rightarrow> agent_args \<Rightarrow> pystr \<Rightarrow> langchain_sdk world \<Rightarrow> (exn + unit) \<times> langchain_sdk world" where
  "invoke_and_print prefix a text w =
     (case agent_ainvoke a text w of
        (Inl x, w1) \<Rightarrow> (Inl x, w1)
      | (Inr r, w1) \<Rightarrow> print_last_message prefix r w1)"

text \<open>
  The body of the \<open>for query in queries\<close> loop of the two demos that loop over queries.
  The loop is inside the \<open>try\<close>, so the first exception leaves the loop.
\<close>

definition query_step :: "agent_args \<Rightarrow> pystr \<Rightarrow> langchain_sdk world \<Rightarrow> (exn + unit) \<times> langchain_sdk world" where
  "query_step a query w =
     invoke_and_print (nl @ CHECK_MARK @ str '' Response: '') a query
       (print (nl @ MEMO @ str '' Query: '' @ query) w)"

definition demo_invoice_specialist_agent_queries :: "pystr list" where
  "demo_invoice_specialist_agent_queries =
     [str ''Find all draft invoices'',
      str ''Find the first 3 customers'',
      str ''Create an invoice for one of the customers found for 10 hours of consulting at $150 per hour'']"

definition demo_invoice_specialist_agent :: "langchain_sdk world \<Rightarrow> (exn + unit) \<times> langchain_sdk world" where
  "demo_invoice_specialist_agent w0 =
     (case create_xero_mcp_agent (banner 50 (str ''INVOICE SPECIALIST AGENT'') w0) of
        (Inl x, w1) \<Rightarrow> (Inl x, w1)
      | (Inr a, w1) \<Rightarrow>
          except_Exception_print (nl @ CROSS_MARK @ str '' Error: '')
            (for_each (query_step a) demo_invoice_specialist_agent_queries w1))"

definition demo_contact_manager_agent_queries :: "pystr list" where
  "demo_contact_manager_agent_queries =
     [str ''Create a new customer called 'Demo Corp' with email demo@demo.com'',
      str ''Find all suppliers'',
      str ''Search for contacts with 'demo' in their name'']"

definition demo_contact_manager_agent :: "langchain_sdk world \<Rightarrow> (exn + unit) \<times> langchain_sdk world" where
  "demo_contact_manager_agent w0 =
     (case create_xero_mcp_agent (banner 50 (str ''CONTACT MANAGER AGENT'') w0) of
        (Inl x, w1) \<Rightarrow> (Inl x, w1)
      | (Inr a, w1) \<Rightarrow>
          except_Exception_print (nl @ CROSS_MARK @ str '' Error: '')
            (for_each (query_step a) demo_contact_manager_agent_queries w1))"

definition block :: "pystr list \<Rightarrow> pystr" where
  \<comment> \<open>a triple-quoted literal whose lines are indented by four spaces\<close>
  "block ls = concat (map (\<lambda>l. nl @ str ''    '' @ l) ls) @ nl @ str ''    ''"

definition single_prompt_demo :: "pystr \<Rightarrow> pystr \<Rightarrow> pystr \<Rightarrow> pystr \<Rightarrow> langchain_sdk world \<Rightarrow> (exn + unit) \<times> langchain_sdk world" where
  \<comment> \<open>the shape shared by the three demos that send one prompt\<close>
  "single_prompt_demo title announce prefix prompt w0 =
     (case create_xero_mcp_agent (banner 50 title w0) of
        (Inl x, w1) \<Rightarrow> (Inl x, w1)
      | (Inr a, w1) \<Rightarrow>
          except_Exception_print (nl @ CROSS_MARK @ str '' Error: '')
            (invoke_and_print prefix a prompt (print (announce @ prompt) w1)))"

definition workflow_prompt :: pystr where
  "workflow_prompt = block
     [str ''Please help me with monthly invoicing:'',
      str ''1. First, find all active customers'',
      str ''2. Show me the first 3 customers found'',
      str ''3. Explain how I could create invoices for them (but don't actually create them yet)'']"

definition demo_multi_step_workflow :: "langchain_sdk world \<Rightarrow> (exn + unit) \<times> langchain_sdk world" where
  "demo_multi_step_workflow w0 =
     single_prompt_demo (str ''MULTI-STEP WORKFLOW: MONTHLY INVOICING'')
       (nl @ CLIPBOARD @ str '' Workflow Request: '')
       (nl @ CHECK_MARK @ str '' Workflow Result: '') workflow_prompt w0"

definition analysis_prompt :: pystr where
  "analysis_prompt = block
     [str ''Please help me analyze my invoices:'',
      str ''1. Find a recent invoice'',
      str ''2. Provide analysis including total amount, payment status, and any recommendations'',
      str ''3. If overdue, calculate days overdue'']"

definition demo_invoice_analysis :: "langchain_sdk world \<Rightarrow> (exn + unit) \<times> langchain_sdk world" where
  "demo_invoice_analysis w0 =
     single_prompt_demo (str ''INVOICE ANALYSIS'')
       (nl @ BAR_CHART @ str '' Analysis Request: '')
       (nl @ CHECK_MARK @ str '' Analysis Result: '') analysis_prompt w0"

definition insights_prompt :: pystr where
  "insights_prompt = block
     [str ''Please provide me with insights about my Xero organization:'',
      str ''1. Get the organization details'',
      str ''2. Get a summary of contacts (total count, types)'',
      str ''3. Get a summary of recent invoices'',
      str ''4. Provide any recommendations for better organization'']"

definition demo_organization_insights :: "langchain_sdk world \<Rightarrow> (exn + unit) \<times> langchain_sdk world" where
  "demo_organization_insights w0 =
     single_prompt_demo (str ''ORGANIZATION INSIGHTS'')
       (nl @ CHART_UP @ str '' Insights Request: '')
       (nl @ CHECK_MARK @ str '' Insights: '') insights_prompt w0"

definition langchain_interactive_turn :: "agent_args \<Rightarrow> langchain_sdk world \<Rightarrow> langchain_sdk world turn" where
  "langchain_interactive_turn a w =
     (case input (nl @ BUST @ str '' You: '') w of
        (Inl x, w1) \<Rightarrow> interactive_handlers x w1
      | (Inr line, w1) \<Rightarrow>
          (let user_input = py_strip line in
           if py_lower user_input \<in> set quit_words then
             Break (print (nl @ ROBOT_FACE @ str '' Assistant: Goodbye!'') w1)
           else if user_input = [] then Continue w1
           else
             (case invoke_and_print (nl @ ROBOT_FACE @ str '' Assistant: '') a user_input w1 of
                (Inl x, w2) \<Rightarrow> interactive_handlers x w2
              | (Inr u, w2) \<Rightarrow> Continue w2)))"

definition langchain_interactive_loop :: "nat \<Rightarrow> agent_args \<Rightarrow> langchain_sdk world \<Rightarrow> ((exn + unit) \<times> langchain_sdk world) option" where
  "langchain_interactive_loop fuel a w = while_True fuel (langchain_interactive_turn a) w"

definition interactive_mcp_demo :: "nat \<Rightarrow> langchain_sdk world \<Rightarrow> ((exn + unit) \<times> langchain_sdk world) option" where
  "interactive_mcp_demo fuel w0 =
     (let w1 = banner 50 (str ''INTERACTIVE XERO AGENT'') w0;
          w2 = prints
            [nl @ str ''Chat with your Xero agent. The agent has access to all Xero functions.'',
             str ''Type 'quit' to exit.'' @ nl] w1
      in case create_xero_mcp_agent w2 of
           (Inl x, w3) \<Rightarrow> Some (Inl x, w3)
         | (Inr a, w3) \<Rightarrow> langchain_interactive_loop fuel a w3)"

definition langchain_demos :: "nat \<Rightarrow> pystr \<Rightarrow> (langchain_sdk world \<Rightarrow> ((exn + unit) \<times> langchain_sdk world) option) option" where
  \<comment> \<open>the dictionary \<open>demos\<close> of \<open>main\<close>\<close>
  "langchain_demos fuel choice =
     (if choice = str ''1'' then Some (\<lambda>w. Some (demo_invoice_specialist_agent w))
      else if choice = str ''2'' then Some (\<lambda>w. Some (demo_contact_manager_agent w))
      else if choice = str ''3'' then Some (\<lambda>w. Some (demo_multi_step_workflow w))
      else if choice = str ''4'' then Some (\<lambda>w. Some (demo_invoice_analysis w))
      else if choice = str ''5'' then Some (interactive_mcp_demo fuel)
      else if choice = str ''6'' then Some (\<lambda>w. Some (demo_organization_insights w))
      else None)"

definition langchain_menu :: "pystr list" where
  \<comment> \<open>the lines \<open>main\<close> prints before it asks for the choice\<close>
  "langchain_menu =
     [str ''LangChain + Xero MCP Integration Examples'',
      str ''========================================'' @ nl,
      str ''Select a demo:'',
      str ''1. Invoice Specialist Agent'',
      str ''2. Contact Manager Agent'',
      str ''3. Multi-step Workflow'',
      str ''4. Invoice Analysis'',
      str ''5. Interactive Chat'',
      str ''6. Organization Insights'']"

text \<open>
  \<open>main\<close> of the langchain script is an ordinary function: the menu is read outside
  \<open>asyncio.run\<close>, which is entered for the chosen demo only.
\<close>

definition langchain_main :: "nat \<Rightarrow> langchain_sdk world \<Rightarrow> ((exn + unit) \<times> langchain_sdk world) option" where
  "langchain_main fuel w =
     (if \<not> truthy (getenv w (str ''OPENAI_API_KEY'')) then
        Some (Inr (), print (str ''Error: OPENAI_API_KEY not set in environment'') w)
      else if \<not> truthy (getenv w (str ''XERO_CLIENT_ID'')) \<or> \<not> truthy (getenv w (str ''XERO_CLIENT_SECRET'')) then
        Some (Inr (), prints
          [str ''Error: Xero credentials not set in environment'',
           str ''Please set XERO_CLIENT_ID and XERO_CLIENT_SECRET''] w)
      else
        (let w1 = prints langchain_menu w
         in case input (nl @ str ''Enter your choice (1-6): '') w1 of
              (Inl x, w2) \<Rightarrow> Some (Inl x, w2)
            | (Inr line, w2) \<Rightarrow>
                (case langchain_demos fuel (py_strip line) of
                   None \<Rightarrow> Some (Inr (), print (str ''Invalid choice. Please run again and select 1-6.'') w2)
                 | Some demo \<Rightarrow> asyncio_run demo w2)))"

section \<open>google-adk/google-adk.py\<close>

text \<open>
  What the script reads of an ADK event: \<open>event.content\<close> may be \<open>None\<close>,
  \<open>content.parts\<close> may be \<open>None\<close>, a part has an optional \<open>text\<close> (here \<open>part_text\<close>) and an optional
  \<open>function_call\<close>, whose \<open>name\<close> is optional too.
\<close>

record part =
  part_text :: "pystr option"
  function_call :: "pystr option option"

datatype content = Content (parts: "part list option")

datatype adk_event = Event (content: "content option")

text \<open>
  The outcome of one attempt of \<open>cleanup\<close> to call a method of the toolset: the call
  raises, returns something that is not awaited, or returns an awaitable whose \<open>await\<close>
  completes or raises.
\<close>

datatype call_result = Raised exn | Plain | Awaited "exn option"

datatype init_step = At_toolset | At_agent | At_runner | At_session

text \<open>
  Google ADK as the scripts use it. \<open>initialize_fails n\<close> says whether the construction
  of toolset, agent, runner and session started at clock \<open>n\<close> fails, at which step and
  with which exception; \<open>run_async n query\<close> gives the events the run yields and the
  exception that ends the iteration, if any; \<open>toolset_has\<close> and \<open>toolset_call\<close> answer
  \<open>hasattr\<close> and the cleanup calls on the toolset; \<open>format_exc\<close> is
  \<open>traceback.format_exc()\<close>; \<open>installed\<close> says whether \<open>import google.adk\<close> succeeds.
\<close>

record adk_sdk =
  installed :: bool
  initialize_fails :: "nat \<Rightarrow> (init_step \<times> exn) option"
  run_async :: "nat \<Rightarrow> pystr \<Rightarrow> adk_event list \<times> exn option"
  toolset_has :: "nat \<Rightarrow> pystr \<Rightarrow> bool"
  toolset_call :: "nat \<Rightarrow> pystr \<Rightarrow> call_result"
  format_exc :: "error \<Rightarrow> pystr"

definition TS_MCP_SERVER_COMMAND :: pystr where
  "TS_MCP_SERVER_COMMAND = str ''@xeroapi/xero-mcp-server@latest''"

definition create_xero_mcp_toolset :: "'sdk world \<Rightarrow> toolset_args" where
  "create_xero_mcp_toolset w =
     \<lparr>connection_params =
        \<lparr>command = str ''npx'',
         args = [TS_MCP_SERVER_COMMAND],
         env = None,
         env_vars = Some [(str ''XERO_CLIENT_ID'', getenv w (str ''XERO_CLIENT_ID'')),
                          (str ''XERO_CLIENT_SECRET'', getenv w (str ''XERO_CLIENT_SECRET''))]\<rparr>,
      tool_filter =
        [str ''list-contacts'',
         str ''create-contact'',
         str ''list-invoices'',
         str ''create-invoice'',
         str ''get-timesheet'',
         str ''list-accounts'',
         str ''list-items'',
         str ''list-tax-rates'',
         str ''list-tracking-categories'',
         str ''update-contact'',
         str ''update-invoice'',
         str ''create-payment'',
         str ''list-payments'',
         str ''list-organisation-details'']\<rparr>"

record session_args =
  app_name :: pystr
  user_id :: pystr

text \<open>The fields of a \<open>XeroADKAgent\<close>; \<open>None\<close> until \<open>initialize\<close> sets them.\<close>

record XeroADKAgent =
  agent :: "agent_args option"
  runner :: "unit option"
  session_service :: "unit option"
  session :: "session_args option"
  xero_toolset :: "toolset_args option"

definition XeroADKAgent_init :: XeroADKAgent where
  \<comment> \<open>\<open>__init__\<close>\<close>
  "XeroADKAgent_init =
     \<lparr>agent = None, runner = None, session_service = None, session = None, xero_toolset = None\<rparr>"

definition fails_at :: "init_step \<Rightarrow> (init_step \<times> exn) option \<Rightarrow> exn option" where
  "fails_at step f = (case f of None \<Rightarrow> None | Some (s, x) \<Rightarrow> if s = step then Some x else None)"

definition initialize_failed :: "exn \<Rightarrow> XeroADKAgent \<Rightarrow> adk_sdk world \<Rightarrow> (exn + unit) \<times> XeroADKAgent \<times> adk_sdk world" where
  \<comment> \<open>the handler of \<open>initialize\<close>, \<open>except Exception as e\<close>: print and re-raise\<close>
  "initialize_failed x self w =
     (Inl x, self,
      case x of
        Exc e \<Rightarrow> print (CROSS_MARK @ str '' Failed to initialize ADK agent: '' @ msg e) w
      | _ \<Rightarrow> w)"

definition initialize :: "XeroADKAgent \<Rightarrow> adk_sdk world \<Rightarrow> (exn + unit) \<times> XeroADKAgent \<times> adk_sdk world" where
  "initialize self0 w0 =
     (let f = initialize_fails (sdk w0) (clock w0);
          w1 = tick w0
      in case fails_at At_toolset f of Some x \<Rightarrow> initialize_failed x self0 w1 | None \<Rightarrow>
     (let ts = create_xero_mcp_toolset w1;
          self1 = self0\<lparr>xero_toolset := Some ts\<rparr>;
          w2 = emit (New_tool_provider (connection_params ts) (Some (tool_filter ts))) w1
      in case fails_at At_agent f of Some x \<Rightarrow> initialize_failed x self1 w2 | None \<Rightarrow>
     (let (a, w3) = Agent \<lparr>agent_name = str ''xero_mcp_agent'',
                           model = Some (getenv_default w2 (str ''DEFAULT_MODEL'') (str ''gemini-2.0-flash'')),
                           tools = Toolset ts\<rparr> w2;
          self2 = self1\<lparr>agent := Some a, session_service := Some ()\<rparr>
      in case fails_at At_runner f of Some x \<Rightarrow> initialize_failed x self2 w3 | None \<Rightarrow>
     (let self3 = self2\<lparr>runner := Some ()\<rparr>
      in case await (raising (fails_at At_session f)) w3 of
           (Inl x, w4) \<Rightarrow> initialize_failed x self3 w4
         | (Inr u, w4) \<Rightarrow>
             (Inr (),
              self3\<lparr>session := Some \<lparr>app_name = str ''xero_mcp_agent'', user_id = str ''demo_user''\<rparr>\<rparr>,
              print (CHECK_MARK @ str '' ADK agent initialized successfully'') w4)))))"

definition cleanup_methods :: "pystr list" where
  "cleanup_methods =
     [str ''close'', str ''disconnect'', str ''cleanup'', str ''_client.close'',
      str ''_connection.close'']"

definition first_component :: "pystr \<Rightarrow> pystr" where
  \<comment> \<open>\<open>method_name.split('.')[0]\<close>\<close>
  "first_component s = takeWhile (\<lambda>c. c \<noteq> 46) s"

text \<open>
  The \<open>for method_name, method_call in cleanup_methods\<close> loop, for the toolset as it is
  at clock \<open>t\<close>. A method that is missing is passed over; one that fails with an
  \<open>Exception\<close>, when called or when awaited, is passed over by \<open>except Exception: continue\<close>
  without a print; the first one that succeeds is reported and ends the loop. An
  exception that is not an \<open>Exception\<close> leaves the loop and \<open>cleanup\<close>.
\<close>

fun try_cleanup_methods :: "nat \<Rightarrow> pystr list \<Rightarrow> adk_sdk world \<Rightarrow> (exn + unit) \<times> adk_sdk world" where
  "try_cleanup_methods t [] w = (Inr (), w)"
| "try_cleanup_methods t (method_name # rest) w =
     (if toolset_has (sdk w) t (first_component method_name) then
        (case (case toolset_call (sdk w) t method_name of
                 Raised x \<Rightarrow> (Inl x, w)
               | Plain \<Rightarrow> (Inr (), w)
               | Awaited r \<Rightarrow> await (raising r) w) of
           (Inl (Exc e), w1) \<Rightarrow> try_cleanup_methods t rest w1
         | (Inl x, w1) \<Rightarrow> (Inl x, w1)
         | (Inr u, w1) \<Rightarrow>
             (Inr (), print (CHECK_MARK @ str '' Used '' @ method_name @ str '' for cleanup'') w1))
      else try_cleanup_methods t rest w)"

definition cleanup_body :: "XeroADKAgent \<Rightarrow> adk_sdk world \<Rightarrow> (exn + unit) \<times> adk_sdk world" where
  \<comment> \<open>the body of the outer \<open>try\<close> of \<open>cleanup\<close>; \<open>gc.collect()\<close> changes nothing observable\<close>
  "cleanup_body self w =
     (case (case xero_toolset self of
              None \<Rightarrow> (Inr (), w)
            | Some ts \<Rightarrow> try_cleanup_methods (clock w) cleanup_methods (tick w)) of
        (Inl x, w1) \<Rightarrow> (Inl x, w1)
      | (Inr u, w1) \<Rightarrow> (Inr (), print (CHECK_MARK @ str '' Agent cleanup completed'') w1))"

definition cleanup :: "XeroADKAgent \<Rightarrow> adk_sdk world \<Rightarrow> (exn + unit) \<times> adk_sdk world" where
  "cleanup self w =
     except_Exception_print (WARNING_SIGN @ str '' Warning during cleanup: '') (cleanup_body self w)"

definition join :: "pystr \<Rightarrow> pystr list \<Rightarrow> pystr" where
  \<comment> \<open>\<open>sep.join(xs)\<close>\<close>
  "join sep xs = (case xs of [] \<Rightarrow> [] | x # rest \<Rightarrow> x @ concat (map (\<lambda>y. sep @ y) rest))"

definition handle_part :: "part \<Rightarrow> pystr list \<times> adk_sdk world \<Rightarrow> pystr list \<times> adk_sdk world" where
  \<comment> \<open>the body of \<open>for part in event.content.parts\<close>\<close>
  "handle_part p acc =
     (case acc of (response_parts, w) \<Rightarrow>
        if truthy (part_text p) then (response_parts @ [case part_text p of Some t \<Rightarrow> t | None \<Rightarrow> []], w)
        else
          (case function_call p of
             None \<Rightarrow> (response_parts, w)
           | Some fc_name \<Rightarrow>
               if truthy fc_name
               then (response_parts,
                     print (WRENCH @ str '' Function call: '' @ (case fc_name of Some n \<Rightarrow> n | None \<Rightarrow> [])) w)
               else (response_parts, print (WRENCH @ str '' Function call: [unnamed]'') w)))"

definition handle_event :: "adk_event \<Rightarrow> pystr list \<times> adk_sdk world \<Rightarrow> pystr list \<times> adk_sdk world" where
  \<comment> \<open>the inner \<open>try\<close>: iterating over \<open>parts = None\<close> raises a \<open>TypeError\<close>, which is
      printed as a warning, and the next event is taken\<close>
  "handle_event ev acc =
     (case content ev of
        None \<Rightarrow> acc
      | Some c \<Rightarrow>
          (case parts c of
             None \<Rightarrow>
               (case acc of (response_parts, w) \<Rightarrow>
                  (response_parts,
                   print (WARNING_SIGN @ str '' Error processing response part: ''
                            @ str '''NoneType' object is not iterable'') w))
           | Some ps \<Rightarrow> fold handle_part ps acc))"

definition fallback :: pystr where
  "fallback = str ''I'm ready to help with Xero operations!''"

definition process_body :: "XeroADKAgent \<Rightarrow> pystr \<Rightarrow> adk_sdk world \<Rightarrow> (exn + pystr) \<times> XeroADKAgent \<times> adk_sdk world" where
  \<comment> \<open>the body of the outer \<open>try\<close> of \<open>process\<close>; the \<open>async for\<close> suspends before the
      first event\<close>
  "process_body self0 query w0 =
     (case (if agent self0 = None \<or> runner self0 = None then initialize self0 w0
            else (Inr (), self0, w0)) of
        (Inl x, self1, w1) \<Rightarrow> (Inl x, self1, w1)
      | (Inr u, self1, w1) \<Rightarrow>
          (let w2 = print (nl @ ROBOT_FACE @ str '' Processing: '' @ query) w1 in
           case session self1 of
             None \<Rightarrow>
               (Inl (Exc (Error (str ''AttributeError'')
                       (str '''NoneType' object has no attribute 'id'' @ apos))), self1, w2)
           | Some s \<Rightarrow>
               (case await (Inr (run_async (sdk w2) (clock w2) query))
                       (tick (emit (Invoke (str ''xero_mcp_agent'') query) w2)) of
                  (Inl x, w3) \<Rightarrow> (Inl x, self1, w3)
                | (Inr (events, failure), w3) \<Rightarrow>
                    (let (response_parts, w4) = fold handle_event events ([], w3)
                     in case failure of
                          Some x \<Rightarrow> (Inl x, self1, w4)
                        | None \<Rightarrow>
                            (Inr (if response_parts \<noteq> [] then join (str '' '') response_parts else fallback),
                             self1, w4)))))"

definition process :: "XeroADKAgent \<Rightarrow> pystr \<Rightarrow> adk_sdk world \<Rightarrow> (exn + pystr) \<times> XeroADKAgent \<times> adk_sdk world" where
  \<comment> \<open>the outer handler, \<open>except Exception as e\<close>, returns the message it prints\<close>
  "process self0 query w0 =
     (case process_body self0 query w0 of
        (Inl (Exc e), self1, w1) \<Rightarrow>
          (let error_msg = str ''Error processing query '' @ apos @ query @ str ''': '' @ msg e
           in (Inr error_msg, self1, print (CROSS_MARK @ str '' '' @ error_msg) w1))
      | r \<Rightarrow> r)"

text \<open>
  \<open>async with XeroADKAgent() as agent: body\<close>. When \<open>__aenter__\<close> raises the body and
  \<open>__aexit__\<close> are skipped; otherwise \<open>__aexit__\<close> runs \<open>cleanup\<close> after the body, and what
  the body raised propagates unless \<open>cleanup\<close> raises itself.
\<close>

definition with_agent :: "(XeroADKAgent \<Rightarrow> adk_sdk world \<Rightarrow> ((exn + unit) \<times> XeroADKAgent \<times> adk_sdk world) option) \<Rightarrow> adk_sdk world \<Rightarrow> ((exn + unit) \<times> adk_sdk world) option" where
  "with_agent body w0 =
     (case initialize XeroADKAgent_init w0 of
        (Inl x, self1, w1) \<Rightarrow> Some (Inl x, w1)
      | (Inr u, self1, w1) \<Rightarrow>
          (case body self1 w1 of
             None \<Rightarrow> None
           | Some (r, self2, w2) \<Rightarrow>
               (case cleanup self2 w2 of
                  (Inl y, w3) \<Rightarrow> Some (Inl y, w3)
                | (Inr u, w3) \<Rightarrow> Some (r, w3))))"

text \<open>
  One turn of a demo's \<open>for\<close> loop: the print that announces the query, then
  \<open>try: result = await agent.process(query); print(...)\<close> with the demo's own handler
  \<open>except Exception as e\<close>.
\<close>

definition process_step :: "pystr \<Rightarrow> pystr \<Rightarrow> (error \<Rightarrow> adk_sdk world \<Rightarrow> adk_sdk world) \<Rightarrow> pystr \<Rightarrow> XeroADKAgent \<times> adk_sdk world \<Rightarrow> (exn + unit) \<times> XeroADKAgent \<times> adk_sdk world" where
  "process_step announce prefix handler query st =
     (case st of (self0, w0) \<Rightarrow>
        (case process self0 query (print announce w0) of
           (Inr result, self1, w1) \<Rightarrow> (Inr (), self1, print (prefix @ result) w1)
         | (Inl (Exc e), self1, w1) \<Rightarrow> (Inr (), self1, handler e w1)
         | (Inl x, self1, w1) \<Rightarrow> (Inl x, self1, w1)))"

definition for_queries :: "('a \<Rightarrow> XeroADKAgent \<times> adk_sdk world \<Rightarrow> (exn + unit) \<times> XeroADKAgent \<times> adk_sdk world) \<Rightarrow> 'a list \<Rightarrow> XeroADKAgent \<Rightarrow> adk_sdk world \<Rightarrow> ((exn + unit) \<times> XeroADKAgent \<times> adk_sdk world) option" where
  \<comment> \<open>a \<open>for\<close> loop as the body of the \<open>async with\<close>\<close>
  "for_queries step queries self0 w0 = Some (for_each step queries (self0, w0))"

definition demo_basic_operations_queries :: "pystr list" where
  "demo_basic_operations_queries =
     [str ''Show me a summary of my Xero account'',
      str ''List my first 5 contacts'',
      str ''Show me recent invoices'']"

definition demo_basic_operations :: "adk_sdk world \<Rightarrow> ((exn + unit) \<times> adk_sdk world) option" where
  "demo_basic_operations w0 =
     with_agent
       (for_queries
          (\<lambda>query. process_step (nl @ MEMO @ str '' Query: '' @ query) (CHECK_MARK @ str '' Result: '')
             (\<lambda>e w. prints
                [CROSS_MARK @ str '' Error processing '' @ apos @ query @ str ''': '' @ msg e,
                 str ''   Error type: '' @ cls e,
                 str ''   Traceback: '' @ format_exc (sdk w) e] w)
             query)
          demo_basic_operations_queries)
       (banner 50 (str ''BASIC XERO OPERATIONS WITH ADK + MCP SERVER'') w0)"

text \<open>\<open>str(i)\<close> of a natural number, and \<open>enumerate(xs, start)\<close> is \<open>enumerate start xs\<close>.\<close>

fun str_of_nat :: "nat \<Rightarrow> pystr" where
  "str_of_nat n = (if n < 10 then [48 + n] else str_of_nat (n div 10) @ [48 + n mod 10])"

definition workflow_queries :: "pystr list" where
  "workflow_queries =
     [str ''Create a new customer named 'Demo Company Inc' with email 'demo@company.com'' @ apos,
      str ''List all customers to find the Demo Company'',
      str ''Create an invoice for Demo Company Inc for 'ADK Integration Services' worth $750'']"

definition demo_invoice_workflow :: "adk_sdk world \<Rightarrow> ((exn + unit) \<times> adk_sdk world) option" where
  "demo_invoice_workflow w0 =
     with_agent
       (for_queries
          (\<lambda>(i, query). process_step (nl @ PUSHPIN @ str '' Step '' @ str_of_nat i @ str '': '' @ query)
             (CHECK_MARK @ str '' Result: '')
             (\<lambda>e. print (CROSS_MARK @ str '' Error: '' @ msg e))
             query)
          (enumerate 1 workflow_queries))
       (banner 50 (str ''INVOICE WORKFLOW WITH ADK + MCP SERVER'') w0)"

definition nl_queries :: "pystr list" where
  "nl_queries =
     [str ''I need to bill my client $2,000 for consulting work'',
      str ''Show me all my customers'',
      str ''What's the current state of my invoices?'',
      str ''Create a new supplier called TechSupport Ltd with email support@techsupport.com'']"

definition demo_natural_language_processing :: "adk_sdk world \<Rightarrow> ((exn + unit) \<times> adk_sdk world) option" where
  "demo_natural_language_processing w0 =
     with_agent
       (for_queries
          (\<lambda>query. process_step (nl @ SPEECH_BALLOON @ str '' Query: '' @ apos @ query @ apos)
             (ROBOT_FACE @ str '' Agent: '')
             (\<lambda>e. print (CROSS_MARK @ str '' Error: '' @ msg e))
             query)
          nl_queries)
       (banner 50 (str ''NATURAL LANGUAGE PROCESSING WITH ADK + MCP SERVER'') w0)"

definition error_scenarios :: "pystr list" where
  "error_scenarios =
     [str ''Create an invoice for a contact that doesn't exist with ID 'invalid-id'' @ apos,
      str ''Get details for invoice with ID 'fake-invoice-123'' @ apos,
      str ''List invoices with invalid status 'IMAGINARY'' @ apos]"

definition demo_error_handling :: "adk_sdk world \<Rightarrow> ((exn + unit) \<times> adk_sdk world) option" where
  "demo_error_handling w0 =
     with_agent
       (for_queries
          (\<lambda>scenario. process_step (nl @ TEST_TUBE @ str '' Testing: '' @ scenario)
             (CHECK_MARK @ str '' Handled gracefully: '')
             (\<lambda>e. print (WARNING_SIGN @ str '' Exception caught: '' @ msg e))
             scenario)
          error_scenarios)
       (banner 50 (str ''ERROR HANDLING IN ADK + MCP SERVER'') w0)"

definition batch_query :: pystr where
  "batch_query = block
     [str ''Please do the following operations in sequence:'',
      str ''1. Get a summary of my Xero account'',
      str ''2. List the first 3 contacts'',
      str ''3. Show me any draft invoices'',
      str ''Provide a summary of what you found.'']"

definition demo_batch_operations :: "adk_sdk world \<Rightarrow> ((exn + unit) \<times> adk_sdk world) option" where
  "demo_batch_operations w0 =
     with_agent
       (\<lambda>self0 w. Some
          (process_step (nl @ CLIPBOARD @ str '' Batch Query: '' @ batch_query)
            (CHECK_MARK @ str '' Batch Result: '')
            (\<lambda>e. print (CROSS_MARK @ str '' Error: '' @ msg e))
            batch_query (self0, w)))
       (print (nl @ str ''Demonstrating how ADK can handle multiple operations:'')
          (banner 50 (str ''BATCH OPERATIONS WITH ADK + MCP SERVER'') w0))"

definition adk_interactive_turn :: "XeroADKAgent \<times> adk_sdk world \<Rightarrow> (XeroADKAgent \<times> adk_sdk world) turn" where
  "adk_interactive_turn st =
     (case st of (self0, w) \<Rightarrow>
     (case input (nl @ BUST @ str '' You: '') w of
        (Inl x, w1) \<Rightarrow> map_turn (Pair self0) (interactive_handlers x w1)
      | (Inr line, w1) \<Rightarrow>
          (let user_input = py_strip line in
           if py_lower user_input \<in> set quit_words then
             Break (self0, print (nl @ ROBOT_FACE @ str '' Agent: Goodbye!'') w1)
           else if user_input = [] then Continue (self0, w1)
           else
             (case process self0 user_input w1 of
                (Inl x, self1, w2) \<Rightarrow> map_turn (Pair self1) (interactive_handlers x w2)
              | (Inr result, self1, w2) \<Rightarrow>
                  Continue (self1, print (nl @ ROBOT_FACE @ str '' Agent: '' @ result) w2)))))"

definition adk_interactive_loop :: "nat \<Rightarrow> XeroADKAgent \<Rightarrow> adk_sdk world \<Rightarrow> ((exn + unit) \<times> XeroADKAgent \<times> adk_sdk world) option" where
  "adk_interactive_loop fuel self0 w = while_True fuel adk_interactive_turn (self0, w)"

definition adk_interactive_intro :: "pystr list" where
  "adk_interactive_intro =
     [nl @ str ''Real ADK agent with Xero MCP Server integration!'',
      str ''You can ask me to:'',
      str ''- List and create contacts'',
      str ''- List, create, and view invoices'',
      str ''- Get account summaries and organization details'',
      str ''- Manage payments and other accounting operations'',
      nl @ str ''Type 'quit' to exit.'' @ nl]"

definition adk_interactive_demo :: "nat \<Rightarrow> adk_sdk world \<Rightarrow> ((exn + unit) \<times> adk_sdk world) option" where
  "adk_interactive_demo fuel w0 =
     with_agent (adk_interactive_loop fuel)
       (prints adk_interactive_intro (banner 50 (str ''INTERACTIVE ADK XERO AGENT'') w0))"

text \<open>
  The dictionary \<open>demos\<close> of \<open>main\<close>, and the \<open>try\<close> in which \<open>main\<close> awaits the chosen
  demo: an interrupt and an \<open>Exception\<close> that leave the demo are printed, and \<open>main\<close>
  returns.
\<close>

definition adk_demos :: "nat \<Rightarrow> pystr \<Rightarrow> (adk_sdk world \<Rightarrow> ((exn + unit) \<times> adk_sdk world) option) option" where
  "adk_demos fuel choice =
     (if choice = str ''1'' then Some demo_basic_operations
      else if choice = str ''2'' then Some demo_invoice_workflow
      else if choice = str ''3'' then Some demo_natural_language_processing
      else if choice = str ''4'' then Some demo_error_handling
      else if choice = str ''5'' then Some demo_batch_operations
      else if choice = str ''6'' then Some (adk_interactive_demo fuel)
      else None)"

definition run_selected :: "(adk_sdk world \<Rightarrow> ((exn + unit) \<times> adk_sdk world) option) \<Rightarrow> adk_sdk world \<Rightarrow> ((exn + unit) \<times> adk_sdk world) option" where
  "run_selected demo w =
     (case demo w of
        None \<Rightarrow> None
      | Some (Inr u, w1) \<Rightarrow> Some (Inr (), w1)
      | Some (Inl KeyboardInterrupt, w1) \<Rightarrow>
          Some (Inr (), print (nl @ nl @ str ''Demo interrupted by user.'') w1)
      | Some (Inl (Exc e), w1) \<Rightarrow>
          Some (Inr (), prints
            [nl @ CROSS_MARK @ str '' Demo failed: '' @ msg e,
             str ''Please check your environment configuration and try again.''] w1)
      | Some (Inl CancelledError, w1) \<Rightarrow> Some (Inl CancelledError, w1))"

definition required_env_vars :: "pystr list" where
  "required_env_vars = [str ''XERO_CLIENT_ID'', str ''XERO_CLIENT_SECRET'']"

definition adk_menu :: "pystr list" where
  \<comment> \<open>the lines \<open>main\<close> prints before it asks for the choice\<close>
  "adk_menu =
     [str ''Xero + Google ADK Integration Examples'',
      str ''======================================'',
      str ''Google ADK implementation with Xero MCP Server'',
      str ''Powered by Xero MCP Server tools'' @ nl,
      str ''Select a demo:'',
      str ''1. Basic Operations'',
      str ''2. Invoice Workflow'',
      str ''3. Natural Language Processing'',
      str ''4. Error Handling'',
      str ''5. Batch Operations'',
      str ''6. Interactive Demo'']"

definition adk_main :: "nat \<Rightarrow> adk_sdk world \<Rightarrow> ((exn + unit) \<times> adk_sdk world) option" where
  "adk_main fuel w =
     (if \<not> installed (sdk w) then
        Some (Inr (), print (CROSS_MARK @ str '' Google ADK is not installed. Please install with: pip install google-adk'') w)
      else
     (let w1 = print (CHECK_MARK @ str '' Google ADK is installed'') w;
          missing_vars = filter (\<lambda>var. \<not> truthy (getenv w1 var)) required_env_vars
      in
      if missing_vars \<noteq> [] then
        Some (Inr (), prints
          ([CROSS_MARK @ str '' Error: Missing required environment variables:'']
           @ map (\<lambda>var. str ''   - '' @ var) missing_vars
           @ [nl @ str ''Please set these environment variables:'',
              str ''- XERO_CLIENT_ID: Your Xero app's client ID'',
              str ''- XERO_CLIENT_SECRET: Your Xero app's client secret'',
              nl @ str ''You can get these from: https://developer.xero.com/'']) w1)
      else if \<not> truthy (getenv w1 (str ''DEFAULT_MODEL'')) \<and> \<not> truthy (getenv w1 (str ''GOOGLE_API_KEY''))
              \<and> \<not> truthy (getenv w1 (str ''GOOGLE_GENAI_USE_VERTEXAI'')) then
        Some (Inr (), prints
          [CROSS_MARK @ str '' Error: No model configuration found'',
           str ''Please set either:'',
           str ''- GOOGLE_API_KEY for Google AI Studio'',
           str ''- GOOGLE_GENAI_USE_VERTEXAI=TRUE for Vertex AI''] w1)
      else if \<not> truthy (which w1 (str ''npx'')) then
        Some (Inr (), prints
          [CROSS_MARK @ str '' Error: npx is not installed'',
           str ''Please install Node.js and npm to get npx'',
           str ''Visit: https://nodejs.org/''] w1)
      else
     (let w2 = prints adk_menu w1
      in case input (nl @ str ''Enter your choice (1-6): '') w2 of
           (Inl x, w3) \<Rightarrow> Some (Inl x, w3)
         | (Inr line, w3) \<Rightarrow>
             (case adk_demos fuel (py_strip line) of
                None \<Rightarrow> Some (Inr (), print (str ''Invalid choice. Please run again and select 1-6.'') w3)
              | Some demo \<Rightarrow> run_selected demo w3))))"

section \<open>google-adk/cloud-run-invoicing-agent/xero_invoicing_agent/agent.py\<close>

text \<open>
  The module has no function: importing it builds \<open>my_env_vars\<close>, \<open>xero_mcp_toolset\<close> and
  \<open>root_agent\<close> from the environment, one statement after the other. The two constructors
  are those \<open>initialize\<close> calls in \<open>google-adk.py\<close> and they may raise in the same way; an
  exception leaves the module and the import fails.
\<close>

definition my_env_vars :: "'sdk world \<Rightarrow> (pystr \<times> pystr option) list" where
  "my_env_vars w =
     [(str ''XERO_CLIENT_ID'', getenv w (str ''XERO_CLIENT_ID'')),
      (str ''XERO_CLIENT_SECRET'', getenv w (str ''XERO_CLIENT_SECRET''))]"

definition xero_mcp_toolset :: "'sdk world \<Rightarrow> toolset_args" where
  "xero_mcp_toolset w =
     \<lparr>connection_params =
        \<lparr>command = str ''npx'', args = [TS_MCP_SERVER_COMMAND], env = None,
         env_vars = Some (my_env_vars w)\<rparr>,
      tool_filter =
        [str ''list-contacts'',
         str ''list-items'',
         str ''list-tax-rates'',
         str ''list-accounts'',
         str ''list-tracking-categories'',
         str ''create-invoice'',
         str ''list-invoices'',
         str ''update-invoice'']\<rparr>"

definition root_agent :: "'sdk world \<Rightarrow> agent_args" where
  "root_agent w =
     \<lparr>agent_name = str ''xero_invoicing_agent'',
      model = getenv w (str ''DEFAULT_MODEL''),
      tools = Toolset (xero_mcp_toolset w)\<rparr>"

definition import_agent_module :: "adk_sdk world \<Rightarrow> (exn + unit) \<times> adk_sdk world" where
  "import_agent_module w0 =
     (let f = initialize_fails (sdk w0) (clock w0);
          w1 = tick w0
      in case fails_at At_toolset f of Some x \<Rightarrow> (Inl x, w1) | None \<Rightarrow>
     (let w2 = emit (New_tool_provider (connection_params (xero_mcp_toolset w1))
                       (Some (tool_filter (xero_mcp_toolset w1)))) w1
      in case fails_at At_agent f of Some x \<Rightarrow> (Inl x, w2) | None \<Rightarrow>
     (case Agent (root_agent w2) w2 of (a, w3) \<Rightarrow> (Inr (), w3))))"

section \<open>Start of a script\<close>

text \<open>
  Every script calls \<open>load_dotenv()\<close> when it is loaded, before anything reads the
  environment: a variable of the \<open>.env\<close> file that the process environment does not set
  is added to it. Then \<open>main\<close> runs, under \<open>asyncio.run\<close> in google-adk and openai.
\<close>

definition load_dotenv :: "(pystr \<Rightarrow> pystr option) \<Rightarrow> 'sdk world \<Rightarrow> 'sdk world" where
  "load_dotenv dotenv w =
     w\<lparr>environ := (\<lambda>k. case environ w k of Some v \<Rightarrow> Some v | None \<Rightarrow> dotenv k)\<rparr>"

definition adk_script :: "(pystr \<Rightarrow> pystr option) \<Rightarrow> nat \<Rightarrow> adk_sdk world \<Rightarrow> ((exn + unit) \<times> adk_sdk world) option" where
  "adk_script dotenv fuel w = asyncio_run (adk_main fuel) (load_dotenv dotenv w)"

definition openai_script :: "(pystr \<Rightarrow> pystr option) \<Rightarrow> nat \<Rightarrow> openai_sdk world \<Rightarrow> ((exn + unit) \<times> openai_sdk world) option" where
  "openai_script dotenv fuel w = asyncio_run (openai_main fuel) (load_dotenv dotenv w)"

definition langchain_script :: "(pystr \<Rightarrow> pystr option) \<Rightarrow> nat \<Rightarrow> langchain_sdk world \<Rightarrow> ((exn + unit) \<times> langchain_sdk world) option" where
  "langchain_script dotenv fuel w = langchain_main fuel (load_dotenv dotenv w)"

definition agent_module :: "(pystr \<Rightarrow> pystr option) \<Rightarrow> adk_sdk world \<Rightarrow> (exn + unit) \<times> adk_sdk world" where
  "agent_module dotenv w = import_agent_module (load_dotenv dotenv w)"

section \<open>Observations on a run\<close>

text \<open>
  The parts of the world no operation of the scripts is meant to change, the texts handed
  to an agent, and the tool-provider subprocesses started, read off the record of a run.
\<close>

definition static :: "'sdk world \<Rightarrow> (pystr \<Rightarrow> pystr option) \<times> (pystr \<Rightarrow> pystr option) \<times> (nat \<Rightarrow> tty) \<times> 'sdk" where
  "static w = (environ w, which w, stdin w, sdk w)"

fun invoked :: "event list \<Rightarrow> pystr list" where
  "invoked [] = []"
| "invoked (Invoke a t # es) = t # invoked es"
| "invoked (e # es) = invoked es"

fun launches :: "event list \<Rightarrow> (stdio_params \<times> pystr list option) list" where
  "launches [] = []"
| "launches (New_tool_provider p f # es) = (p, f) # launches es"
| "launches (e # es) = launches es"

text \<open>
  A world in which nothing is set and nothing has happened, with the default interrupt
  handler, for the examples.
\<close>

definition bare_world :: "'sdk \<Rightarrow> 'sdk world" where
  "bare_world s =
     \<lparr>environ = (\<lambda>k. None), which = (\<lambda>k. None), stdin = (\<lambda>n. EOF), cursor = 0, out = [],
      clock = 0, sigint = Default_handler, sdk = s\<rparr>"

text \<open>
  Example runs. \<open>env_file\<close> is an environment with the variables the scripts ask for;
  \<open>typed l\<close> is a world with that environment, no executable on the path, and a terminal
  at which the user types the line \<open>l\<close> again and again.
\<close>

definition env_file :: "pystr \<Rightarrow> pystr option" where
  "env_file k =
     (if k = str ''OPENAI_API_KEY'' then Some (str ''sk-demo'')
      else if k = str ''GOOGLE_API_KEY'' then Some (str ''g-demo'')
      else if k = str ''XERO_CLIENT_ID'' then Some (str ''demo-id'')
      else if k = str ''XERO_CLIENT_SECRET'' then Some (str ''demo-secret'')
      else None)"

definition typed :: "pystr \<Rightarrow> 'sdk \<Rightarrow> 'sdk world" where
  "typed l s = (bare_world s)\<lparr>environ := env_file, stdin := (\<lambda>n. Line l)\<rparr>"

text \<open>
  A LangChain whose \<open>get_tools\<close> cannot start the subprocess, as when \<open>npx\<close> is not
  installed; one that offers a single tool and whose agent always fails; an OpenAI Agents
  SDK whose runner always fails.
\<close>

definition langchain_without_npx :: langchain_sdk where
  "langchain_without_npx =
     \<lparr>get_tools = (\<lambda>n. Inl (Exc (Error (str ''FileNotFoundError'')
                               (str ''[Errno 2] No such file or directory: 'npx'' @ apos)))),
      ChatOpenAI = (\<lambda>n. None),
      ainvoke = (\<lambda>n t. Inr No_messages)\<rparr>"

definition failing_langchain :: langchain_sdk where
  "failing_langchain =
     \<lparr>get_tools = (\<lambda>n. Inr [str ''delete-contact'']),
      ChatOpenAI = (\<lambda>n. None),
      ainvoke = (\<lambda>n t. Inl (Exc (Error (str ''RuntimeError'') (str ''boom''))))\<rparr>"

text \<open>A Google ADK in which everything succeeds and a run yields no event.\<close>

definition quiet_adk :: adk_sdk where
  "quiet_adk =
     \<lparr>installed = True,
      initialize_fails = (\<lambda>n. None),
      run_async = (\<lambda>n q. ([], None)),
      toolset_has = (\<lambda>n a. False),
      toolset_call = (\<lambda>n m. Plain),
      format_exc = (\<lambda>e. [])\<rparr>"

definition failing_openai :: openai_sdk where
  "failing_openai =
     \<lparr>connect = None,
      disconnect = None,
      run = (\<lambda>n a t. Inl (Exc (Error (str ''RuntimeError'') (str ''boom'')))),
      trace_id = str ''trace_0''\<rparr>"

text \<open>The state a turn of a loop leaves behind, and whether the turn left the loop by \<open>break\<close>.\<close>

fun after :: "'a turn \<Rightarrow> 'a" where
  "after (Break x) = x"
| "after (Continue x) = x"
| "after (Raise e x) = x"

fun is_break :: "'a turn \<Rightarrow> bool" where
  "is_break (Break x) = True"
| "is_break (Continue x) = False"
| "is_break (Raise e x) = False"

fun is_continue :: "'a turn \<Rightarrow> bool" where
  "is_continue (Break x) = False"
| "is_continue (Continue x) = True"
| "is_continue (Raise e x) = False"

definition keeps :: "'sdk world \<Rightarrow> ('a \<times> 'sdk world) option \<Rightarrow> bool" where
  \<comment> \<open>a run that may not return leaves the read-only parts of the world as they were,
      if it returns\<close>
  "keeps w r \<longleftrightarrow> (case r of None \<Rightarrow> True | Some (x, w') \<Rightarrow> static w' = static w)"

text \<open>
  A Google ADK whose \<open>Agent\<close> constructor rejects its arguments, as the validation of
  \<open>model=None\<close> does, and a \<open>.env\<close> file that sets the model and nothing else.
\<close>

definition strict_adk :: adk_sdk where
  "strict_adk =
     quiet_adk\<lparr>initialize_fails :=
       (\<lambda>n. Some (At_agent, Exc (Error (str ''ValidationError'') (str ''1 validation error for LlmAgent''))))\<rparr>"

definition model_file :: "pystr \<Rightarrow> pystr option" where
  "model_file k = (if k = str ''DEFAULT_MODEL'' then Some (str ''gemini-2.0-flash'') else None)"

text \<open>
  What one cleanup method of the toolset does at clock \<open>t\<close>, read off the SDK: it is
  passed over (missing, or failing with an \<open>Exception\<close> when called or awaited), it cleans
  up (the call returns and the \<open>await\<close>, if any, completes), or it breaks out with an
  exception that is not an \<open>Exception\<close>. \<open>passed_unawaited\<close> is being passed over before
  anything is awaited.
\<close>

definition is_Exception :: "exn \<Rightarrow> bool" where
  "is_Exception x = (case x of Exc e \<Rightarrow> True | KeyboardInterrupt \<Rightarrow> False | CancelledError \<Rightarrow> False)"

definition passed_over :: "adk_sdk \<Rightarrow> nat \<Rightarrow> pystr \<Rightarrow> bool" where
  "passed_over s t m \<longleftrightarrow>
     (if toolset_has s t (first_component m) then
        (case toolset_call s t m of
           Raised x \<Rightarrow> is_Exception x
         | Plain \<Rightarrow> False
         | Awaited r \<Rightarrow> (case r of Some x \<Rightarrow> is_Exception x | None \<Rightarrow> False))
      else True)"

definition passed_unawaited :: "adk_sdk \<Rightarrow> nat \<Rightarrow> pystr \<Rightarrow> bool" where
  "passed_unawaited s t m \<longleftrightarrow>
     (if toolset_has s t (first_component m) then
        (case toolset_call s t m of Raised x \<Rightarrow> is_Exception x | Plain \<Rightarrow> False | Awaited r \<Rightarrow> False)
      else True)"

definition cleans_up :: "adk_sdk \<Rightarrow> nat \<Rightarrow> pystr \<Rightarrow> bool" where
  "cleans_up s t m \<longleftrightarrow>
     toolset_has s t (first_component m)
     \<and> (toolset_call s t m = Plain \<or> toolset_call s t m = Awaited None)"

definition breaks_out :: "adk_sdk \<Rightarrow> nat \<Rightarrow> pystr \<Rightarrow> exn \<Rightarrow> bool" where
  "breaks_out s t m x \<longleftrightarrow>
     toolset_has s t (first_component m) \<and> is_Exception x = False
     \<and> (toolset_call s t m = Raised x \<or> toolset_call s t m = Awaited (Some x))"

text \<open>
  An agent object after a successful \<open>initialize\<close>. A Google ADK whose toolset has a
  \<open>close\<close> method that raises and nothing else; one whose \<open>close\<close> raises and whose
  \<open>disconnect\<close> is a coroutine that completes; one whose \<open>close\<close> is a coroutine that is
  cancelled.
\<close>

definition ready :: XeroADKAgent where
  "ready =
     \<lparr>agent = Some \<lparr>agent_name = str ''xero_mcp_agent'', model = Some (str ''gemini-2.0-flash''),
                     tools = Toolset (create_xero_mcp_toolset (bare_world ()))\<rparr>,
      runner = Some (),
      session_service = Some (),
      session = Some \<lparr>app_name = str ''xero_mcp_agent'', user_id = str ''demo_user''\<rparr>,
      xero_toolset = Some (create_xero_mcp_toolset (bare_world ()))\<rparr>"

definition adk_close_raises :: adk_sdk where
  "adk_close_raises =
     quiet_adk\<lparr>toolset_has := (\<lambda>n a. a = str ''close''),
               toolset_call := (\<lambda>n m. Raised (Exc (Error (str ''RuntimeError'') (str ''boom''))))\<rparr>"

definition adk_disconnect_works :: adk_sdk where
  "adk_disconnect_works =
     quiet_adk\<lparr>toolset_has := (\<lambda>n a. a = str ''close'' \<or> a = str ''disconnect''),
               toolset_call := (\<lambda>n m. if m = str ''close''
                                        then Raised (Exc (Error (str ''RuntimeError'') (str ''boom'')))
                                        else Awaited None)\<rparr>"

definition adk_close_cancelled :: adk_sdk where
  "adk_close_cancelled =
     quiet_adk\<lparr>toolset_has := (\<lambda>n a. a = str ''close''),
               toolset_call := (\<lambda>n m. Awaited (Some CancelledError))\<rparr>"

text \<open>
  What the events of a run contribute to \<open>process\<close>: to the response, the non-empty \<open>text\<close>
  of every part of every event whose content has a list of parts; to the terminal, one
  line for each part without text that is a function call, and one warning for each event
  whose content has \<open>parts = None\<close>.
\<close>

definition part_texts :: "part list \<Rightarrow> pystr list" where
  "part_texts ps =
     concat (map (\<lambda>p. case part_text p of None \<Rightarrow> [] | Some t \<Rightarrow> if t = [] then [] else [t]) ps)"

definition event_texts :: "adk_event \<Rightarrow> pystr list" where
  "event_texts ev =
     (case content ev of
        None \<Rightarrow> []
      | Some c \<Rightarrow> (case parts c of None \<Rightarrow> [] | Some ps \<Rightarrow> part_texts ps))"

definition part_prints :: "part \<Rightarrow> pystr list" where
  "part_prints p =
     (if truthy (part_text p) then []
      else (case function_call p of
              None \<Rightarrow> []
            | Some None \<Rightarrow> [WRENCH @ str '' Function call: [unnamed]'']
            | Some (Some n) \<Rightarrow>
                if n = [] then [WRENCH @ str '' Function call: [unnamed]'']
                else [WRENCH @ str '' Function call: '' @ n]))"

definition event_prints :: "adk_event \<Rightarrow> pystr list" where
  "event_prints ev =
     (case content ev of
        None \<Rightarrow> []
      | Some c \<Rightarrow>
          (case parts c of
             None \<Rightarrow> [WARNING_SIGN @ str '' Error processing response part: ''
                       @ str '''NoneType' object is not iterable'']
           | Some ps \<Rightarrow> concat (map part_prints ps)))"

definition error_msg :: "pystr \<Rightarrow> error \<Rightarrow> pystr" where
  "error_msg query e = str ''Error processing query '' @ apos @ query @ str ''': '' @ msg e"

text \<open>
  A Google ADK whose run yields a single event with \<open>parts = None\<close>; one whose run
  raises an \<open>Exception\<close>; one whose run is cancelled; and one whose run calls a tool and
  answers.
\<close>

definition adk_parts_none :: adk_sdk where
  "adk_parts_none = quiet_adk\<lparr>run_async := (\<lambda>n q. ([Event (Some (Content None))], None))\<rparr>"

definition adk_run_fails :: adk_sdk where
  "adk_run_fails =
     quiet_adk\<lparr>run_async := (\<lambda>n q. ([], Some (Exc (Error (str ''RuntimeError'') (str ''boom'')))))\<rparr>"

definition adk_run_cancelled :: adk_sdk where
  "adk_run_cancelled = quiet_adk\<lparr>run_async := (\<lambda>n q. ([], Some CancelledError))\<rparr>"

definition adk_answers :: adk_sdk where
  "adk_answers =
     quiet_adk\<lparr>run_async :=
       (\<lambda>n q. ([Event (Some (Content (Some
                   [\<lparr>part_text = None, function_call = Some (Some (str ''list-contacts''))\<rparr>]))),
                 Event (Some (Content (Some
                   [\<lparr>part_text = Some (str ''You have''), function_call = None\<rparr>,
                    \<lparr>part_text = Some (str ''3 contacts''), function_call = None\<rparr>])))],
                None))\<rparr>"

text \<open>A Google ADK in which the creation of the session fails, with the given exception.\<close>

definition adk_session_fails :: "exn \<Rightarrow> adk_sdk" where
  "adk_session_fails x = quiet_adk\<lparr>initialize_fails := (\<lambda>n. Some (At_session, x))\<rparr>"

text \<open>
  What a run of a google-adk demo over the given queries does, from a world in which the
  demo returns \<open>r\<close> and leaves the world \<open>w'\<close>: one tool provider is launched, the terminal is
  not read, no \<open>Exception\<close> leaves the demo, and the texts handed to the agent are the
  first queries of the demo, in their order; all of them when no run of the agent raises
  an exception other than an \<open>Exception\<close>, and then the demo returns normally, provided no
  cleanup method of the toolset raises one either.
\<close>

definition adk_launch :: "adk_sdk world \<Rightarrow> stdio_params \<times> pystr list option" where
  "adk_launch w =
     (connection_params (create_xero_mcp_toolset w), Some (tool_filter (create_xero_mcp_toolset w)))"

abbreviation adk_demo_outcome ::
  "pystr list \<Rightarrow> adk_sdk world \<Rightarrow> (exn + unit) \<Rightarrow> adk_sdk world \<Rightarrow> bool" where
  "adk_demo_outcome queries w r w' \<equiv>
     (\<forall>e. r \<noteq> Inl (Exc e))
     \<and> launches (out w') = launches (out w) @ [adk_launch w]
     \<and> cursor w' = cursor w \<and> static w' = static w
     \<and> (\<exists>k\<le>length queries. invoked (out w') = invoked (out w) @ take k queries)
     \<and> ((\<forall>n t. snd (run_async (sdk w) n t) \<notin> {Some KeyboardInterrupt, Some CancelledError}) \<longrightarrow>
          invoked (out w') = invoked (out w) @ queries
          \<and> ((\<forall>n m x. \<not> breaks_out (sdk w) n m x) \<longrightarrow> r = Inr () \<and> sigint w' = sigint w))"

section \<open>Properties\<close>

subsection \<open>What the primitive operations change\<close>

lemma fields_emit [simp]:
  "environ (emit e w) = environ w" "which (emit e w) = which w" "stdin (emit e w) = stdin w"
  "sdk (emit e w) = sdk w" "cursor (emit e w) = cursor w" "clock (emit e w) = clock w"
  "sigint (emit e w) = sigint w" "out (emit e w) = out w @ [e]"
  by (simp_all add: emit_def)

lemma fields_print [simp]:
  "environ (print t w) = environ w" "which (print t w) = which w" "stdin (print t w) = stdin w"
  "sdk (print t w) = sdk w" "cursor (print t w) = cursor w" "clock (print t w) = clock w"
  "sigint (print t w) = sigint w" "out (print t w) = out w @ [Print t]"
  by (simp_all add: print_def)

lemma fields_prints [simp]:
  "environ (prints ts w) = environ w" "which (prints ts w) = which w"
  "stdin (prints ts w) = stdin w" "sdk (prints ts w) = sdk w" "cursor (prints ts w) = cursor w"
  "clock (prints ts w) = clock w" "sigint (prints ts w) = sigint w"
  "out (prints ts w) = out w @ map Print ts"
  unfolding prints_def by (induction ts arbitrary: w) simp_all

lemma fields_tick [simp]:
  "environ (tick w) = environ w" "which (tick w) = which w" "stdin (tick w) = stdin w"
  "sdk (tick w) = sdk w" "cursor (tick w) = cursor w" "clock (tick w) = Suc (clock w)"
  "sigint (tick w) = sigint w" "out (tick w) = out w"
  by (simp_all add: tick_def)

lemma fields_banner [simp]:
  "environ (banner n t w) = environ w" "which (banner n t w) = which w"
  "stdin (banner n t w) = stdin w" "sdk (banner n t w) = sdk w"
  "cursor (banner n t w) = cursor w" "clock (banner n t w) = clock w"
  "sigint (banner n t w) = sigint w"
  "out (banner n t w) = out w @ [Print (nl @ rep n (str ''='')), Print t, Print (rep n (str ''=''))]"
  by (simp_all add: banner_def)

lemma fields_Agent [simp]:
  "fst (Agent a w) = a" "environ (snd (Agent a w)) = environ w" "which (snd (Agent a w)) = which w"
  "stdin (snd (Agent a w)) = stdin w" "sdk (snd (Agent a w)) = sdk w"
  "cursor (snd (Agent a w)) = cursor w" "clock (snd (Agent a w)) = clock w"
  "sigint (snd (Agent a w)) = sigint w" "out (snd (Agent a w)) = out w @ [New_agent a]"
  by (simp_all add: Agent_def)

lemma fields_await [simp]:
  "environ (snd (await r w)) = environ w" "which (snd (await r w)) = which w"
  "stdin (snd (await r w)) = stdin w" "sdk (snd (await r w)) = sdk w"
  "cursor (snd (await r w)) = cursor w" "clock (snd (await r w)) = clock w"
  "out (snd (await r w)) = out w"
  by (simp_all add: await_def)

lemma sigint_await:
  "sigint (snd (await r w)) = (if sigint w = Cancel_pending then Disarmed else sigint w)"
  by (simp add: await_def)

lemma await_not_pending [simp]: "sigint w \<noteq> Cancel_pending \<Longrightarrow> await r w = (r, w)"
  by (simp add: await_def)

lemma await_pending:
  "sigint w = Cancel_pending \<Longrightarrow> await r w = (Inl CancelledError, w\<lparr>sigint := Disarmed\<rparr>)"
  by (simp add: await_def)

lemma fields_read_line [simp]:
  "environ (snd (read_line w)) = environ w" "which (snd (read_line w)) = which w"
  "stdin (snd (read_line w)) = stdin w" "sdk (snd (read_line w)) = sdk w"
  "cursor (snd (read_line w)) = Suc (cursor w)" "clock (snd (read_line w)) = clock w"
  "sigint (snd (read_line w)) = sigint w" "out (snd (read_line w)) = out w"
  by (simp_all add: read_line_def Let_def split: tty.splits)

lemma fields_input [simp]:
  "environ (snd (input p w)) = environ w" "which (snd (input p w)) = which w"
  "stdin (snd (input p w)) = stdin w" "sdk (snd (input p w)) = sdk w"
  "clock (snd (input p w)) = clock w" "out (snd (input p w)) = out w @ [Prompt p]"
  by (simp_all add: input_def Let_def)

text \<open>
  \<open>input()\<close> when no interrupt comes: one terminal event is consumed, and the state of the
  interrupt handling stays as it is.
\<close>

lemma input_no_interrupt:
  assumes "stdin w (cursor w) \<noteq> CtrlC"
  shows "fst (input p w) =
           (case stdin w (cursor w) of
              Line s \<Rightarrow> Inr s
            | EOF \<Rightarrow> Inl (Exc (Error (str ''EOFError'') (str ''EOF when reading a line''))))"
    and "cursor (snd (input p w)) = Suc (cursor w)"
    and "sigint (snd (input p w)) = sigint w"
  using assms by (simp_all add: input_def read_line_def Let_def split: tty.splits)

lemma input_Line:
  assumes "stdin w (cursor w) = Line l"
  shows "input p w = (Inr l, (emit (Prompt p) w)\<lparr>cursor := Suc (cursor w)\<rparr>)"
  using assms by (simp add: input_def read_line_def Let_def)

lemma input_EOF:
  assumes "stdin w (cursor w) = EOF"
  shows "input p w = (Inl (Exc (Error (str ''EOFError'') (str ''EOF when reading a line''))),
                      (emit (Prompt p) w)\<lparr>cursor := Suc (cursor w)\<rparr>)"
  using assms by (simp add: input_def read_line_def Let_def)

lemma input_interrupt:
  assumes "stdin w (cursor w) = CtrlC" and "sigint w \<noteq> Armed"
  shows "input p w = (Inl KeyboardInterrupt, (emit (Prompt p) w)\<lparr>cursor := Suc (cursor w)\<rparr>)"
  using assms by (simp add: input_def read_line_def Let_def)

lemma input_first_interrupt:
  assumes "stdin w (cursor w) = CtrlC" and "sigint w = Armed"
  shows "input p w =
           read_line ((emit (Prompt p) w)\<lparr>cursor := Suc (cursor w), sigint := Cancel_pending\<rparr>)"
  using assms by (simp add: input_def Let_def)

lemma static_fields:
  "static w' = static w \<longleftrightarrow>
     environ w' = environ w \<and> which w' = which w \<and> stdin w' = stdin w \<and> sdk w' = sdk w"
  by (auto simp add: static_def)

lemma static_stdin: "static w' = static w \<Longrightarrow> stdin w' = stdin w"
  and static_environ: "static w' = static w \<Longrightarrow> environ w' = environ w"
  and static_sdk: "static w' = static w \<Longrightarrow> sdk w' = sdk w"
  and static_which: "static w' = static w \<Longrightarrow> which w' = which w"
  by (simp_all add: static_def)

lemma static_primitives [simp]:
  "static (emit e w) = static w" "static (print t w) = static w" "static (prints ts w) = static w"
  "static (tick w) = static w" "static (banner n t w) = static w"
  "static (snd (Agent a w)) = static w" "static (snd (await r w)) = static w"
  "static (snd (read_line w)) = static w" "static (snd (input p w)) = static w"
  "static (w\<lparr>sigint := s\<rparr>) = static w"
  by (simp_all add: static_def)

lemma invoked_append [simp]: "invoked (xs @ ys) = invoked xs @ invoked ys"
  by (induction xs rule: invoked.induct) simp_all

lemma invoked_map_Print [simp]: "invoked (map Print ts) = []"
  by (induction ts) simp_all

lemma launches_append [simp]: "launches (xs @ ys) = launches xs @ launches ys"
  by (induction xs rule: launches.induct) simp_all

lemma launches_map_Print [simp]: "launches (map Print ts) = []"
  by (induction ts) simp_all

lemma prints_after_print: "prints ts (print t w) = prints (t # ts) w"
  by (simp add: prints_def)

lemma prints_append: "prints (ts @ us) w = prints us (prints ts w)"
  by (simp add: prints_def)

lemma str_eq_iff [simp]: "str a = str b \<longleftrightarrow> a = b"
  by (simp add: str_def inj_on_def)

lemma str_Nil [simp]: "str s = [] \<longleftrightarrow> s = []"
  by (simp add: str_def)

subsection \<open>Loops and handlers\<close>

lemma for_each_Cons:
  "for_each body (x # xs) w =
     (case fst (body x w) of
        Inl e \<Rightarrow> (Inl e, snd (body x w))
      | Inr u \<Rightarrow> for_each body xs (snd (body x w)))"
  by (simp add: split_beta split: sum.splits)

declare for_each.simps(2) [simp del]

lemma for_each_keeps:
  assumes "\<And>x w. g (snd (body x w)) = g w"
  shows "g (snd (for_each body xs w)) = g w"
  by (induction xs arbitrary: w) (simp_all add: for_each_Cons assms split: sum.splits)

lemma fold_keeps: "(\<And>x w. g (f x w) = g w) \<Longrightarrow> g (fold f xs w) = g w"
  by (induction xs arbitrary: w) simp_all

lemma while_True_Suc:
  "while_True (Suc n) body x =
     (case body x of
        Break y \<Rightarrow> Some (Inr (), y)
      | Continue y \<Rightarrow> while_True n body y
      | Raise e y \<Rightarrow> Some (Inl e, y))"
  by simp

declare while_True.simps(2) [simp del]

lemma while_True_keeps:
  assumes "\<And>x. g (after (body x)) = g x" and "while_True n body x = Some (r, y)"
  shows "g y = g x"
  using assms(2)
proof (induction n arbitrary: x)
  case 0
  then show ?case by simp
next
  case (Suc n)
  show ?case
  proof (cases "body x")
    case (Break z)
    with Suc.prems assms(1) [of x] show ?thesis by (simp add: while_True_Suc)
  next
    case (Continue z)
    with Suc.prems have "while_True n body z = Some (r, y)"
      by (simp add: while_True_Suc)
    from Suc.IH [OF this] assms(1) [of x] Continue show ?thesis by simp
  next
    case (Raise e z)
    with Suc.prems assms(1) [of x] show ?thesis by (simp add: while_True_Suc)
  qed
qed

lemma except_Exception_print_cases:
  "except_Exception_print p (Inr u, w) = (Inr u, w)"
  "except_Exception_print p (Inl (Exc e), w) = (Inr (), print (p @ msg e) w)"
  "except_Exception_print p (Inl KeyboardInterrupt, w) = (Inl KeyboardInterrupt, w)"
  "except_Exception_print p (Inl CancelledError, w) = (Inl CancelledError, w)"
  by (simp_all add: except_Exception_print_def)

lemma except_Exception_print_keeps:
  assumes "\<And>t w. g (print t w) = g w"
  shows "g (snd (except_Exception_print p r)) = g (snd r)"
  by (simp add: except_Exception_print_def assms split: prod.splits sum.splits exn.splits)

lemma static_except [simp]: "static (snd (except_Exception_print p r)) = static (snd r)"
  by (rule except_Exception_print_keeps) simp

lemma interactive_handlers_keeps:
  assumes "\<And>t w. g (print t w) = g w"
  shows "g (after (interactive_handlers x w)) = g w"
  by (cases x) (simp_all add: interactive_handlers_def assms)

lemma static_interactive_handlers [simp]: "static (after (interactive_handlers x w)) = static w"
  by (rule interactive_handlers_keeps) simp

lemma after_map_turn [simp]: "after (map_turn f t) = f (after t)"
  by (cases t) simp_all

lemma asyncio_run_keeps:
  assumes "\<And>r w1. main (w\<lparr>sigint := Armed\<rparr>) = Some (r, w1) \<Longrightarrow> static w1 = static w"
    and "asyncio_run main w = Some (r', w')"
  shows "static w' = static w"
  using assms by (auto simp add: asyncio_run_def split: option.splits)

lemma keeps_None [simp]: "keeps w None"
  by (simp add: keeps_def)

lemma keeps_Some [simp]: "keeps w (Some p) \<longleftrightarrow> static (snd p) = static w"
  by (simp add: keeps_def split_beta)

lemma keeps_from: "keeps w1 r \<Longrightarrow> static w1 = static w \<Longrightarrow> keeps w r"
  by (auto simp add: keeps_def split: option.splits)

lemma keeps_static: "keeps w r \<Longrightarrow> r = Some (x, w') \<Longrightarrow> static w' = static w"
  by (simp add: keeps_def)

lemma keeps_asyncio_run: "(\<And>w1. keeps w1 (main w1)) \<Longrightarrow> keeps w (asyncio_run main w)"
proof -
  assume k: "\<And>w1. keeps w1 (main w1)"
  show ?thesis
  proof (cases "asyncio_run main w")
    case None
    then show ?thesis by simp
  next
    case (Some p)
    have "static (snd p) = static w"
    proof (rule asyncio_run_keeps [where main = main and r' = "fst p"])
      fix r w1
      assume "main (w\<lparr>sigint := Armed\<rparr>) = Some (r, w1)"
      with k [of "w\<lparr>sigint := Armed\<rparr>"] show "static w1 = static w" by simp
    next
      show "asyncio_run main w = Some (fst p, snd p)" using Some by simp
    qed
    with Some show ?thesis by simp
  qed
qed

subsection \<open>openai: the read-only parts of the world\<close>

lemmas create_agent_defs =
  create_basic_xero_agent_def create_invoice_specialist_agent_def create_contact_manager_agent_def

lemmas openai_demo_defs =
  demo_basic_agent_def demo_invoice_specialist_def demo_contact_manager_def
  demo_multi_agent_workflow_def demo_comprehensive_workflow_def

lemma static_Runner_run [simp]: "static (snd (Runner_run a t w)) = static w"
  by (simp add: Runner_run_def)

lemma static_request_step [simp]: "static (snd (request_step icon a q w)) = static w"
  by (simp add: request_step_def Let_def split_beta split: sum.splits)

lemma static_workflow_step [simp]: "static (snd (workflow_step l a s w)) = static w"
  by (simp add: workflow_step_def split_beta split: sum.splits)

lemma static_openai_demos [simp]:
  "static (snd (demo_basic_agent s w)) = static w"
  "static (snd (demo_invoice_specialist s w)) = static w"
  "static (snd (demo_contact_manager s w)) = static w"
  "static (snd (demo_multi_agent_workflow s w)) = static w"
  "static (snd (demo_comprehensive_workflow s w)) = static w"
  by (simp_all add: openai_demo_defs create_agent_defs Let_def split_beta for_each_keeps
        split: sum.splits)

lemma static_openai_turn [simp]: "static (after (openai_interactive_turn a shown w)) = static w"
  by (simp add: openai_interactive_turn_def split_beta Let_def split: sum.splits)

lemma openai_interactive_loop_static:
  "openai_interactive_loop n a shown w = Some (r, w') \<Longrightarrow> static w' = static w"
  unfolding openai_interactive_loop_def by (rule while_True_keeps [where g = static]) simp_all

lemma static_choose_agent:
  "choose_agent c s w = Some ((a, w'), shown) \<Longrightarrow> static w' = static w"
  by (auto simp add: choose_agent_def create_agent_defs Agent_def split: if_splits)

lemma openai_interactive_demo_keeps: "keeps w (openai_interactive_demo n s w)"
proof (cases "openai_interactive_demo n s w")
  case None
  then show ?thesis by simp
next
  case (Some p)
  let ?i = "input (nl @ str ''Enter your choice (1-3): '')
      (prints openai_agent_menu (banner 60 (str ''INTERACTIVE XERO AGENTS SDK DEMO'') w))"
  have i: "static (snd ?i) = static w" by simp
  show ?thesis
  proof (cases "fst ?i")
    case (Inl x)
    with Some i show ?thesis by (auto simp add: openai_interactive_demo_def Let_def split_beta)
  next
    case (Inr line)
    show ?thesis
    proof (cases "choose_agent (py_strip line) s (snd ?i)")
      case None
      with Some Inr i show ?thesis
        by (auto simp add: openai_interactive_demo_def Let_def split_beta)
    next
      case (Some c)
      obtain a w4 shown where c: "c = ((a, w4), shown)" by (cases c) auto
      from static_choose_agent [OF Some [unfolded c]] i have w4: "static w4 = static w" by simp
      from \<open>openai_interactive_demo n s w = Some p\<close> Inr Some c
      have "openai_interactive_loop n a shown (prints (openai_ready_lines shown) w4) = Some (fst p, snd p)"
        by (simp add: openai_interactive_demo_def Let_def split_beta)
      from openai_interactive_loop_static [OF this] w4 have "static (snd p) = static w" by simp
      with \<open>openai_interactive_demo n s w = Some p\<close> show ?thesis by simp
    qed
  qed
qed

lemma run_demo_with_mcp_keeps: "keeps w (run_demo_with_mcp n s w)"
  by (simp add: run_demo_with_mcp_def Let_def split_beta split: sum.splits)
     (auto intro: keeps_from [OF openai_interactive_demo_keeps])

lemma with_server_keeps:
  assumes "\<And>w1. keeps w1 (body w1)"
  shows "keeps w (with_server s body w)"
proof (cases "with_server s body w")
  case None
  then show ?thesis by simp
next
  case (Some p)
  let ?c = "await (raising (connect (sdk w))) (tick (emit (New_tool_provider (params s) None) w))"
  have c: "static (snd ?c) = static w" by simp
  show ?thesis
  proof (cases "fst ?c")
    case (Inl x)
    with Some c show ?thesis by (auto simp add: with_server_def split_beta)
  next
    case (Inr u)
    with Some obtain r w2 where b: "body (snd ?c) = Some (r, w2)"
      by (cases "body (snd ?c)") (auto simp add: with_server_def split_beta)
    from assms [of "snd ?c"] b c have "static w2 = static w" by simp
    with Some Inr b show ?thesis
      by (auto simp add: with_server_def split_beta split: sum.splits)
  qed
qed

lemma openai_main_keeps: "keeps w (openai_main n w)"
proof -
  have "keeps w (with_server s
      (\<lambda>w1. run_demo_with_mcp n s' (print (t @ trace_id (sdk w1) @ nl) w1)) w)" for s s' t
    by (rule with_server_keeps) (rule keeps_from [OF run_demo_with_mcp_keeps], simp)
  then show ?thesis
    by (simp add: openai_main_def split: sum.splits)
qed

subsection \<open>langchain: the read-only parts of the world\<close>

lemmas langchain_demo_defs =
  demo_invoice_specialist_agent_def demo_contact_manager_agent_def single_prompt_demo_def
  demo_multi_step_workflow_def demo_invoice_analysis_def demo_organization_insights_def

lemma static_create_xero_mcp_agent [simp]: "static (snd (create_xero_mcp_agent w)) = static w"
  by (simp add: create_xero_mcp_agent_def Let_def split_beta split: sum.splits option.splits)

lemma static_agent_ainvoke [simp]: "static (snd (agent_ainvoke a t w)) = static w"
  by (simp add: agent_ainvoke_def)

lemma static_print_last_message [simp]: "static (snd (print_last_message p r w)) = static w"
  by (simp add: print_last_message_def split: response.splits)

lemma static_invoke_and_print [simp]: "static (snd (invoke_and_print p a t w)) = static w"
  by (simp add: invoke_and_print_def split_beta split: sum.splits)

lemma static_query_step [simp]: "static (snd (query_step a q w)) = static w"
  by (simp add: query_step_def)

lemma static_langchain_demos [simp]:
  "static (snd (demo_invoice_specialist_agent w)) = static w"
  "static (snd (demo_contact_manager_agent w)) = static w"
  "static (snd (demo_multi_step_workflow w)) = static w"
  "static (snd (demo_invoice_analysis w)) = static w"
  "static (snd (demo_organization_insights w)) = static w"
  by (simp_all add: langchain_demo_defs split_beta for_each_keeps split: sum.splits)

lemma static_langchain_turn [simp]: "static (after (langchain_interactive_turn a w)) = static w"
  by (simp add: langchain_interactive_turn_def split_beta Let_def split: sum.splits)

lemma langchain_interactive_loop_static:
  "langchain_interactive_loop n a w = Some (r, w') \<Longrightarrow> static w' = static w"
  unfolding langchain_interactive_loop_def by (rule while_True_keeps [where g = static]) simp_all

lemma interactive_mcp_demo_keeps: "keeps w (interactive_mcp_demo n w)"
proof (cases "interactive_mcp_demo n w")
  case None
  then show ?thesis by simp
next
  case (Some p)
  then have "static (snd p) = static w"
    by (cases p)
       (auto simp add: interactive_mcp_demo_def Let_def split_beta
          dest!: langchain_interactive_loop_static split: sum.splits)
  with Some show ?thesis by simp
qed

lemma langchain_demos_keeps: "langchain_demos n c = Some demo \<Longrightarrow> keeps w (demo w)"
  by (auto simp add: langchain_demos_def interactive_mcp_demo_keeps split: if_splits)

lemma langchain_main_keeps: "keeps w (langchain_main n w)"
proof -
  have "keeps w (case langchain_demos n c of None \<Rightarrow> Some (Inr (), print t w2)
                 | Some demo \<Rightarrow> asyncio_run demo w2)"
    if "static w2 = static w" for c t w2
  proof (cases "langchain_demos n c")
    case None
    with that show ?thesis by simp
  next
    case (Some demo)
    have "keeps w2 (asyncio_run demo w2)"
      by (rule keeps_asyncio_run) (rule langchain_demos_keeps [OF Some])
    with that Some show ?thesis by (auto intro: keeps_from)
  qed
  then show ?thesis
    by (simp add: langchain_main_def Let_def split_beta split: sum.splits)
qed

subsection \<open>google-adk: the read-only parts of the world\<close>

declare str_of_nat.simps [simp del]

lemma static_initialize [simp]: "static (snd (snd (initialize self0 w))) = static w"
  by (simp add: initialize_def initialize_failed_def Let_def split_beta
        split: option.splits sum.splits exn.splits)

lemma try_cleanup_methods_Cons:
  "try_cleanup_methods t (m # rest) w =
     (if toolset_has (sdk w) t (first_component m) then
        (let r = (case toolset_call (sdk w) t m of
                    Raised x \<Rightarrow> (Inl x, w)
                  | Plain \<Rightarrow> (Inr (), w)
                  | Awaited r \<Rightarrow> await (raising r) w)
         in case fst r of
              Inl (Exc e) \<Rightarrow> try_cleanup_methods t rest (snd r)
            | Inl x \<Rightarrow> (Inl x, snd r)
            | Inr u \<Rightarrow> (Inr (), print (CHECK_MARK @ str '' Used '' @ m @ str '' for cleanup'') (snd r)))
      else try_cleanup_methods t rest w)"
  by (simp add: Let_def split_beta split: sum.splits exn.splits call_result.splits)

declare try_cleanup_methods.simps(2) [simp del]

lemma static_try_cleanup_methods [simp]:
  "static (snd (try_cleanup_methods t ms w)) = static w"
proof (induction ms arbitrary: w)
  case Nil
  then show ?case by simp
next
  case (Cons m ms)
  have s: "sdk (snd (case c of Raised x \<Rightarrow> (Inl x, w) | Plain \<Rightarrow> (Inr (), w)
                      | Awaited r \<Rightarrow> await (raising r) w)) = sdk w" for c
    by (cases c) simp_all
  have "static (snd (case c of Raised x \<Rightarrow> (Inl x, w) | Plain \<Rightarrow> (Inr (), w)
                      | Awaited r \<Rightarrow> await (raising r) w)) = static w" for c
    by (cases c) simp_all
  with Cons.IH show ?case
    by (simp add: try_cleanup_methods_Cons Let_def split: sum.splits exn.splits)
qed

lemma static_cleanup [simp]: "static (snd (cleanup self0 w)) = static w"
  by (simp add: cleanup_def cleanup_body_def split_beta split: option.splits sum.splits)

lemma static_handle_part [simp]: "static (snd (handle_part p acc)) = static (snd acc)"
  by (simp add: handle_part_def split_beta split: option.splits)

lemma static_handle_event [simp]: "static (snd (handle_event ev acc)) = static (snd acc)"
  by (simp add: handle_event_def split_beta fold_keeps [where g = "\<lambda>x. static (snd x)"]
        split: option.splits)

lemma static_process_body [simp]: "static (snd (snd (process_body self0 q w))) = static w"
  by (simp add: process_body_def Let_def split_beta
        fold_keeps [where g = "\<lambda>x. static (snd x)"] split: sum.splits option.splits)

lemma static_process [simp]: "static (snd (snd (process self0 q w))) = static w"
  by (simp add: process_def Let_def split_beta split: sum.splits exn.splits prod.splits)

lemma static_process_step:
  "(\<And>e w. static (handler e w) = static w) \<Longrightarrow>
     static (snd (snd (process_step announce prefix handler q st))) = static (snd st)"
  by (simp add: process_step_def split_beta split: sum.splits exn.splits)

lemma with_agent_keeps:
  assumes "\<And>self1 w1 r self2 w2. body self1 w1 = Some (r, self2, w2) \<Longrightarrow> static w2 = static w1"
  shows "keeps w (with_agent body w)"
proof (cases "fst (initialize XeroADKAgent_init w)")
  case (Inl e)
  then show ?thesis by (simp add: with_agent_def split_beta)
next
  case (Inr u)
  let ?i = "initialize XeroADKAgent_init w"
  show ?thesis
  proof (cases "body (fst (snd ?i)) (snd (snd ?i))")
    case None
    with Inr show ?thesis by (simp add: with_agent_def split_beta)
  next
    case (Some res)
    obtain r self2 w2 where res: "res = (r, self2, w2)" by (cases res) auto
    from assms [OF Some [unfolded res]] have "static w2 = static w" by simp
    with Inr Some res show ?thesis by (simp add: with_agent_def split_beta split: sum.splits)
  qed
qed

lemma for_queries_static:
  assumes "\<And>q st. static (snd (snd (step q st))) = static (snd st)"
    and "for_queries step qs self1 w1 = Some (r, self2, w2)"
  shows "static w2 = static w1"
proof -
  have "static (snd (snd (for_each step qs (self1, w1)))) = static (snd (self1, w1))"
    by (rule for_each_keeps [where g = "\<lambda>x. static (snd x)"]) (rule assms(1))
  with assms(2) show ?thesis by (auto simp add: for_queries_def)
qed

lemma keeps_adk_demos:
  "keeps w (demo_basic_operations w)"
  "keeps w (demo_invoice_workflow w)"
  "keeps w (demo_natural_language_processing w)"
  "keeps w (demo_error_handling w)"
  "keeps w (demo_batch_operations w)"
proof -
  show "keeps w (demo_basic_operations w)"
    unfolding demo_basic_operations_def
    by (rule keeps_from, rule with_agent_keeps, erule for_queries_static [rotated])
       (simp_all add: static_process_step)
  show "keeps w (demo_natural_language_processing w)"
    unfolding demo_natural_language_processing_def
    by (rule keeps_from, rule with_agent_keeps, erule for_queries_static [rotated])
       (simp_all add: static_process_step)
  show "keeps w (demo_error_handling w)"
    unfolding demo_error_handling_def
    by (rule keeps_from, rule with_agent_keeps, erule for_queries_static [rotated])
       (simp_all add: static_process_step)
  show "keeps w (demo_invoice_workflow w)"
    unfolding demo_invoice_workflow_def
    by (rule keeps_from, rule with_agent_keeps, erule for_queries_static [rotated])
       (simp_all add: static_process_step split_beta)
  show "keeps w (demo_batch_operations w)"
    unfolding demo_batch_operations_def
    by (rule keeps_from, rule with_agent_keeps)
       (auto dest!: arg_cong [where f = "\<lambda>x. static (snd (snd x))"] simp add: static_process_step)
qed

lemma static_adk_turn [simp]: "static (snd (after (adk_interactive_turn st))) = static (snd st)"
  by (simp add: adk_interactive_turn_def split_beta Let_def split: sum.splits)

lemma adk_interactive_loop_static:
  assumes "adk_interactive_loop n self1 w1 = Some (r, self2, w2)"
  shows "static w2 = static w1"
proof -
  from assms have "while_True n adk_interactive_turn (self1, w1) = Some (r, (self2, w2))"
    by (simp add: adk_interactive_loop_def)
  then have "static (snd (self2, w2)) = static (snd (self1, w1))"
    by (rule while_True_keeps [where g = "\<lambda>st. static (snd st)", rotated]) simp
  then show ?thesis by simp
qed

lemma adk_interactive_demo_keeps: "keeps w (adk_interactive_demo n w)"
  unfolding adk_interactive_demo_def
  by (rule keeps_from, rule with_agent_keeps, erule adk_interactive_loop_static) simp

lemma adk_demos_keeps: "adk_demos n c = Some demo \<Longrightarrow> keeps w (demo w)"
  by (auto simp add: adk_demos_def keeps_adk_demos adk_interactive_demo_keeps split: if_splits)

lemma run_selected_keeps: "keeps w1 (demo w1) \<Longrightarrow> static w1 = static w \<Longrightarrow> keeps w (run_selected demo w1)"
  by (auto simp add: run_selected_def keeps_def split: option.splits sum.splits exn.splits)

lemma adk_main_keeps: "keeps w (adk_main n w)"
proof -
  have "keeps w (case adk_demos n c of None \<Rightarrow> Some (Inr (), print t w3) | Some demo \<Rightarrow> run_selected demo w3)"
    if "static w3 = static w" for c t w3
    using that by (auto split: option.splits intro: run_selected_keeps adk_demos_keeps)
  then show ?thesis
    by (simp add: adk_main_def Let_def split_beta split: sum.splits)
qed

lemma load_dotenv_fields [simp]:
  "environ (load_dotenv d w) k = (case environ w k of Some v \<Rightarrow> Some v | None \<Rightarrow> d k)"
  "which (load_dotenv d w) = which w" "stdin (load_dotenv d w) = stdin w"
  "cursor (load_dotenv d w) = cursor w" "out (load_dotenv d w) = out w"
  "clock (load_dotenv d w) = clock w" "sdk (load_dotenv d w) = sdk w"
  "sigint (load_dotenv d w) = sigint w"
  by (simp_all add: load_dotenv_def)

lemma keeps_script:
  "keeps (load_dotenv d w) (adk_script d n w)"
  "keeps (load_dotenv d w') (openai_script d n w')"
  "keeps (load_dotenv d w'') (langchain_script d n w'')"
  by (simp_all add: adk_script_def openai_script_def langchain_script_def adk_main_keeps
        openai_main_keeps langchain_main_keeps keeps_asyncio_run)

lemma static_import_agent_module [simp]: "static (snd (import_agent_module w)) = static w"
  by (simp add: import_agent_module_def Let_def split_beta split: option.splits)

subsection \<open>The checks at the start of \<open>main\<close>\<close>

lemma adk_main_missing_credentials:
  assumes "installed (sdk w)"
    and "\<not> truthy (environ w (str ''XERO_CLIENT_ID'')) \<or> \<not> truthy (environ w (str ''XERO_CLIENT_SECRET''))"
  shows "adk_main n w = Some (Inr (), prints
           ([CHECK_MARK @ str '' Google ADK is installed'',
             CROSS_MARK @ str '' Error: Missing required environment variables:'']
            @ map (\<lambda>var. str ''   - '' @ var)
                (filter (\<lambda>var. \<not> truthy (environ w var)) required_env_vars)
            @ [nl @ str ''Please set these environment variables:'',
               str ''- XERO_CLIENT_ID: Your Xero app's client ID'',
               str ''- XERO_CLIENT_SECRET: Your Xero app's client secret'',
               nl @ str ''You can get these from: https://developer.xero.com/'']) w)"
proof -
  let ?w1 = "print (CHECK_MARK @ str '' Google ADK is installed'') w"
  have env: "getenv ?w1 k = environ w k" for k
    by (simp add: getenv_def print_def emit_def)
  from assms(2) have "filter (\<lambda>var. \<not> truthy (environ w var)) required_env_vars \<noteq> []"
    by (auto simp add: required_env_vars_def)
  with assms(1) show ?thesis
    by (simp add: adk_main_def Let_def prints_after_print env)
qed

lemma adk_main_missing_model:
  assumes "installed (sdk w)"
    and "truthy (environ w (str ''XERO_CLIENT_ID''))" and "truthy (environ w (str ''XERO_CLIENT_SECRET''))"
    and "\<not> truthy (environ w (str ''DEFAULT_MODEL''))" and "\<not> truthy (environ w (str ''GOOGLE_API_KEY''))"
    and "\<not> truthy (environ w (str ''GOOGLE_GENAI_USE_VERTEXAI''))"
  shows "adk_main n w = Some (Inr (), prints
           [CHECK_MARK @ str '' Google ADK is installed'',
            CROSS_MARK @ str '' Error: No model configuration found'',
            str ''Please set either:'',
            str ''- GOOGLE_API_KEY for Google AI Studio'',
            str ''- GOOGLE_GENAI_USE_VERTEXAI=TRUE for Vertex AI''] w)"
proof -
  let ?w1 = "print (CHECK_MARK @ str '' Google ADK is installed'') w"
  have env: "getenv ?w1 k = environ w k" for k
    by (simp add: getenv_def print_def emit_def)
  from assms show ?thesis
    by (simp add: adk_main_def Let_def prints_after_print required_env_vars_def env)
qed

lemma adk_main_missing_npx:
  assumes "installed (sdk w)"
    and "truthy (environ w (str ''XERO_CLIENT_ID''))" and "truthy (environ w (str ''XERO_CLIENT_SECRET''))"
    and "truthy (environ w (str ''DEFAULT_MODEL'')) \<or> truthy (environ w (str ''GOOGLE_API_KEY''))
           \<or> truthy (environ w (str ''GOOGLE_GENAI_USE_VERTEXAI''))"
    and "\<not> truthy (which w (str ''npx''))"
  shows "adk_main n w = Some (Inr (), prints
           [CHECK_MARK @ str '' Google ADK is installed'',
            CROSS_MARK @ str '' Error: npx is not installed'',
            str ''Please install Node.js and npm to get npx'',
            str ''Visit: https://nodejs.org/''] w)"
proof -
  let ?w1 = "print (CHECK_MARK @ str '' Google ADK is installed'') w"
  have env: "getenv ?w1 k = environ w k" for k
    by (simp add: getenv_def print_def emit_def)
  have wh: "which ?w1 = which w"
    by (simp add: print_def emit_def)
  from assms show ?thesis
    by (auto simp add: adk_main_def Let_def prints_after_print required_env_vars_def env wh)
qed

lemma openai_main_missing_key:
  "\<not> truthy (environ w (str ''OPENAI_API_KEY'')) \<Longrightarrow>
     openai_main n w = Some (Inr (), prints
       [str ''Error: OPENAI_API_KEY not set in environment'',
        str ''Please set your OpenAI API key to run this example''] w)"
  by (simp add: openai_main_def getenv_def)

lemma openai_main_missing_credentials:
  "truthy (environ w (str ''OPENAI_API_KEY'')) \<Longrightarrow>
   \<not> truthy (environ w (str ''XERO_CLIENT_ID'')) \<or> \<not> truthy (environ w (str ''XERO_CLIENT_SECRET'')) \<Longrightarrow>
     openai_main n w = Some (Inr (), prints
       [str ''Error: Xero credentials not set in environment'',
        str ''Please set XERO_CLIENT_ID and XERO_CLIENT_SECRET''] w)"
  by (auto simp add: openai_main_def getenv_def)

lemma openai_main_missing_npx:
  "truthy (environ w (str ''OPENAI_API_KEY'')) \<Longrightarrow>
   truthy (environ w (str ''XERO_CLIENT_ID'')) \<Longrightarrow> truthy (environ w (str ''XERO_CLIENT_SECRET'')) \<Longrightarrow>
   \<not> truthy (which w (str ''npx'')) \<Longrightarrow>
     openai_main n w = Some (Inl (Exc (Error (str ''RuntimeError'')
       (str ''npx is not installed. Please install it with `npm install -g npx`.''))), w)"
  by (simp add: openai_main_def getenv_def)

lemma langchain_main_missing_key:
  "\<not> truthy (environ w (str ''OPENAI_API_KEY'')) \<Longrightarrow>
     langchain_main n w = Some (Inr (), prints [str ''Error: OPENAI_API_KEY not set in environment''] w)"
  by (simp add: langchain_main_def getenv_def prints_def)

lemma langchain_main_missing_credentials:
  "truthy (environ w (str ''OPENAI_API_KEY'')) \<Longrightarrow>
   \<not> truthy (environ w (str ''XERO_CLIENT_ID'')) \<or> \<not> truthy (environ w (str ''XERO_CLIENT_SECRET'')) \<Longrightarrow>
     langchain_main n w = Some (Inr (), prints
       [str ''Error: Xero credentials not set in environment'',
        str ''Please set XERO_CLIENT_ID and XERO_CLIENT_SECRET''] w)"
  by (auto simp add: langchain_main_def getenv_def)

lemma langchain_main_selected:
  assumes "truthy (environ w (str ''OPENAI_API_KEY''))"
    and "truthy (environ w (str ''XERO_CLIENT_ID''))" and "truthy (environ w (str ''XERO_CLIENT_SECRET''))"
    and "stdin w (cursor w) = Line l" and "langchain_demos n (py_strip l) = Some demo"
  shows "langchain_main n w =
           asyncio_run demo
             ((emit (Prompt (nl @ str ''Enter your choice (1-6): '')) (prints langchain_menu w))
                \<lparr>cursor := Suc (cursor w)\<rparr>)"
proof -
  have "input (nl @ str ''Enter your choice (1-6): '') (prints langchain_menu w) =
      (Inr l, (emit (Prompt (nl @ str ''Enter your choice (1-6): '')) (prints langchain_menu w))
                \<lparr>cursor := Suc (cursor (prints langchain_menu w))\<rparr>)"
    by (rule input_Line) (simp add: assms(4))
  with assms show ?thesis
    by (simp add: langchain_main_def getenv_def Let_def)
qed

lemma adk_main_selected:
  assumes "installed (sdk w)"
    and "truthy (environ w (str ''XERO_CLIENT_ID''))" and "truthy (environ w (str ''XERO_CLIENT_SECRET''))"
    and "truthy (environ w (str ''DEFAULT_MODEL'')) \<or> truthy (environ w (str ''GOOGLE_API_KEY''))
           \<or> truthy (environ w (str ''GOOGLE_GENAI_USE_VERTEXAI''))"
    and "truthy (which w (str ''npx''))"
    and "stdin w (cursor w) = Line l" and "adk_demos n (py_strip l) = Some demo"
  shows "adk_main n w =
           run_selected demo
             ((emit (Prompt (nl @ str ''Enter your choice (1-6): ''))
                 (prints ((CHECK_MARK @ str '' Google ADK is installed'') # adk_menu) w))
                \<lparr>cursor := Suc (cursor w)\<rparr>)"
proof -
  let ?w1 = "print (CHECK_MARK @ str '' Google ADK is installed'') w"
  have "input (nl @ str ''Enter your choice (1-6): '') (prints adk_menu ?w1) =
      (Inr l, (emit (Prompt (nl @ str ''Enter your choice (1-6): '')) (prints adk_menu ?w1))
                \<lparr>cursor := Suc (cursor (prints adk_menu ?w1))\<rparr>)"
    by (rule input_Line) (simp add: assms(6))
  with assms show ?thesis
    by (auto simp add: adk_main_def getenv_def Let_def required_env_vars_def prints_after_print)
qed

lemma openai_main_checked:
  assumes "truthy (environ v (str ''OPENAI_API_KEY''))"
    and "environ v (str ''XERO_CLIENT_ID'') = Some a" and "a \<noteq> []"
    and "environ v (str ''XERO_CLIENT_SECRET'') = Some b" and "b \<noteq> []"
    and "truthy (which v (str ''npx''))"
  shows "openai_main n v =
           with_server (openai_server a b)
             (\<lambda>w1. run_demo_with_mcp n (openai_server a b)
                      (print (str ''View trace: https://platform.openai.com/traces/''
                                @ trace_id (sdk w1) @ nl) w1))
             v"
  using assms by (simp add: openai_main_def getenv_def environ_item_def)

lemma run_demo_with_mcp_selected:
  assumes "stdin v (cursor v) = Line l"
  shows "run_demo_with_mcp n s v =
     (let v1 = (emit (Prompt (nl @ str ''Enter your choice (1-6): '')) (prints openai_menu v))
                \<lparr>cursor := Suc (cursor v)\<rparr>;
          choice = py_strip l in
      if choice = str ''1'' then Some (demo_basic_agent s v1)
      else if choice = str ''2'' then Some (demo_invoice_specialist s v1)
      else if choice = str ''3'' then Some (demo_contact_manager s v1)
      else if choice = str ''4'' then Some (demo_multi_agent_workflow s v1)
      else if choice = str ''5'' then Some (demo_comprehensive_workflow s v1)
      else if choice = str ''6'' then openai_interactive_demo n s v1
      else Some (Inr (), print (str ''Invalid choice. Please run again and select 1-6.'') v1))"
proof -
  have "input (nl @ str ''Enter your choice (1-6): '') (prints openai_menu v) =
      (Inr l, (emit (Prompt (nl @ str ''Enter your choice (1-6): '')) (prints openai_menu v))
                \<lparr>cursor := Suc (cursor (prints openai_menu v))\<rparr>)"
    by (rule input_Line) (simp add: assms)
  then show ?thesis
    by (simp add: run_demo_with_mcp_def Let_def)
qed

subsection \<open>Start-up checks\<close>

lemma launches_create_xero_mcp_agent:
  "launches (out (snd (create_xero_mcp_agent w))) =
     launches (out w) @ [(stdio_params.truncate (xero_connection w), None)]"
  by (simp add: create_xero_mcp_agent_def Let_def split_beta split: sum.splits option.splits)

lemma create_xero_mcp_agent_result:
  "sigint w \<noteq> Cancel_pending \<Longrightarrow>
   fst (create_xero_mcp_agent w) =
     (case get_tools (sdk w) (clock w) of
        Inl x \<Rightarrow> Inl x
      | Inr offered \<Rightarrow>
          (case ChatOpenAI (sdk w) (Suc (clock w)) of
             Some x \<Rightarrow> Inl x
           | None \<Rightarrow> Inr \<lparr>agent_name = [], model = Some (str ''gpt-4o''), tools = Tools offered\<rparr>))"
  by (simp add: create_xero_mcp_agent_def Let_def split_beta split: sum.splits option.splits)

lemma langchain_demos_one: "langchain_demos n (str ''1'') = Some (\<lambda>w. Some (demo_invoice_specialist_agent w))"
  by (simp add: langchain_demos_def)

lemma py_strip_digit [simp]: "py_strip (str [c]) = str [c]" if "\<not> isspace (of_char c)"
  using that by (simp add: py_strip_def str_def)

lemma env_file_keys [simp]:
  "env_file (str ''OPENAI_API_KEY'') = Some (str ''sk-demo'')"
  "env_file (str ''GOOGLE_API_KEY'') = Some (str ''g-demo'')"
  "env_file (str ''XERO_CLIENT_ID'') = Some (str ''demo-id'')"
  "env_file (str ''XERO_CLIENT_SECRET'') = Some (str ''demo-secret'')"
  by (simp_all add: env_file_def)

lemma typed_fields [simp]:
  "environ (typed l s) = env_file" "which (typed l s) = (\<lambda>k. None)"
  "stdin (typed l s) n = Line l" "cursor (typed l s) = 0" "out (typed l s) = []"
  "clock (typed l s) = 0" "sdk (typed l s) = s" "sigint (typed l s) = Default_handler"
  by (simp_all add: typed_def bare_world_def)

lemma bare_world_fields [simp]:
  "environ (bare_world s) = (\<lambda>k. None)" "which (bare_world s) = (\<lambda>k. None)"
  "stdin (bare_world s) n = EOF" "cursor (bare_world s) = 0" "out (bare_world s) = []"
  "clock (bare_world s) = 0" "sdk (bare_world s) = s" "sigint (bare_world s) = Default_handler"
  by (simp_all add: bare_world_def)

text \<open>
  Counterexample to claim C3 as stated: with every variable set and no \<open>npx\<close> on the
  path, the langchain script makes no check of \<open>npx\<close>; it builds the tool provider and
  ends when the SDK's error leaves \<open>main\<close>, without a printed instruction.
\<close>

theorem langchain_main_has_no_npx_check:
  "which (typed (str ''1'') langchain_without_npx) (str ''npx'') = None
   \<and> (\<exists>w'. langchain_main 0 (typed (str ''1'') langchain_without_npx) =
              Some (Inl (Exc (Error (str ''FileNotFoundError'')
                     (str ''[Errno 2] No such file or directory: 'npx'' @ apos))), w')
          \<and> map snd (launches (out w')) = [None])"
proof -
  let ?w = "typed (str ''1'') langchain_without_npx"
  let ?w1 = "(emit (Prompt (nl @ str ''Enter your choice (1-6): '')) (prints langchain_menu ?w))
                \<lparr>cursor := Suc (cursor ?w)\<rparr>"
  let ?b = "banner 50 (str ''INVOICE SPECIALIST AGENT'') (?w1\<lparr>sigint := Armed\<rparr>)"
  have main: "langchain_main 0 ?w = asyncio_run (\<lambda>w. Some (demo_invoice_specialist_agent w)) ?w1"
    using langchain_main_selected [where w = ?w and l = "str ''1''" and n = 0
        and demo = "\<lambda>w. Some (demo_invoice_specialist_agent w)"]
    by (simp add: isspace_def langchain_demos_one)
  have fails: "fst (create_xero_mcp_agent ?b) =
      Inl (Exc (Error (str ''FileNotFoundError'') (str ''[Errno 2] No such file or directory: 'npx'' @ apos)))"
    by (simp add: create_xero_mcp_agent_result langchain_without_npx_def)
  have "launches (out ?b) = []"
    by simp
  then have started: "map snd (launches (out (snd (create_xero_mcp_agent ?b)))) = [None]"
    by (simp add: launches_create_xero_mcp_agent)
  from fails have "demo_invoice_specialist_agent (?w1\<lparr>sigint := Armed\<rparr>) =
      (Inl (Exc (Error (str ''FileNotFoundError'') (str ''[Errno 2] No such file or directory: 'npx'' @ apos))),
       snd (create_xero_mcp_agent ?b))"
    by (cases "create_xero_mcp_agent ?b") (simp add: demo_invoice_specialist_agent_def)
  with started main show ?thesis
    by (simp add: asyncio_run_def)
qed

text \<open>
  Claim C3, amended. The google-adk and openai scripts check the required environment
  variables and the presence of \<open>npx\<close> at the start of \<open>main\<close>, and the langchain script
  checks the required environment variables there, before anything is read from the
  terminal or built: when a check fails, \<open>main\<close> ends at once and the world has changed by
  prints only. A variable that is unset or empty counts as missing. The prints say what
  to set or install; a missing \<open>npx\<close> in the openai script instead raises a
  \<open>RuntimeError\<close> whose message is the instruction, and nothing is printed.
\<close>

theorem startup_checks:
  "(installed (sdk w) \<longrightarrow>
      \<not> truthy (environ w (str ''XERO_CLIENT_ID'')) \<or> \<not> truthy (environ w (str ''XERO_CLIENT_SECRET'')) \<longrightarrow>
      adk_main n w = Some (Inr (), prints
        ([CHECK_MARK @ str '' Google ADK is installed'',
          CROSS_MARK @ str '' Error: Missing required environment variables:'']
         @ map (\<lambda>var. str ''   - '' @ var)
             (filter (\<lambda>var. \<not> truthy (environ w var)) required_env_vars)
         @ [nl @ str ''Please set these environment variables:'',
            str ''- XERO_CLIENT_ID: Your Xero app's client ID'',
            str ''- XERO_CLIENT_SECRET: Your Xero app's client secret'',
            nl @ str ''You can get these from: https://developer.xero.com/'']) w))
   \<and> (installed (sdk w) \<longrightarrow>
      truthy (environ w (str ''XERO_CLIENT_ID'')) \<longrightarrow> truthy (environ w (str ''XERO_CLIENT_SECRET'')) \<longrightarrow>
      \<not> truthy (environ w (str ''DEFAULT_MODEL'')) \<longrightarrow> \<not> truthy (environ w (str ''GOOGLE_API_KEY'')) \<longrightarrow>
      \<not> truthy (environ w (str ''GOOGLE_GENAI_USE_VERTEXAI'')) \<longrightarrow>
      adk_main n w = Some (Inr (), prints
        [CHECK_MARK @ str '' Google ADK is installed'',
         CROSS_MARK @ str '' Error: No model configuration found'',
         str ''Please set either:'',
         str ''- GOOGLE_API_KEY for Google AI Studio'',
         str ''- GOOGLE_GENAI_USE_VERTEXAI=TRUE for Vertex AI''] w))
   \<and> (installed (sdk w) \<longrightarrow>
      truthy (environ w (str ''XERO_CLIENT_ID'')) \<longrightarrow> truthy (environ w (str ''XERO_CLIENT_SECRET'')) \<longrightarrow>
      truthy (environ w (str ''DEFAULT_MODEL'')) \<or> truthy (environ w (str ''GOOGLE_API_KEY''))
        \<or> truthy (environ w (str ''GOOGLE_GENAI_USE_VERTEXAI'')) \<longrightarrow>
      \<not> truthy (which w (str ''npx'')) \<longrightarrow>
      adk_main n w = Some (Inr (), prints
        [CHECK_MARK @ str '' Google ADK is installed'',
         CROSS_MARK @ str '' Error: npx is not installed'',
         str ''Please install Node.js and npm to get npx'',
         str ''Visit: https://nodejs.org/''] w))
   \<and> (\<not> truthy (environ v (str ''OPENAI_API_KEY'')) \<longrightarrow>
      openai_main n v = Some (Inr (), prints
        [str ''Error: OPENAI_API_KEY not set in environment'',
         str ''Please set your OpenAI API key to run this example''] v))
   \<and> (truthy (environ v (str ''OPENAI_API_KEY'')) \<longrightarrow>
      \<not> truthy (environ v (str ''XERO_CLIENT_ID'')) \<or> \<not> truthy (environ v (str ''XERO_CLIENT_SECRET'')) \<longrightarrow>
      openai_main n v = Some (Inr (), prints
        [str ''Error: Xero credentials not set in environment'',
         str ''Please set XERO_CLIENT_ID and XERO_CLIENT_SECRET''] v))
   \<and> (truthy (environ v (str ''OPENAI_API_KEY'')) \<longrightarrow>
      truthy (environ v (str ''XERO_CLIENT_ID'')) \<longrightarrow> truthy (environ v (str ''XERO_CLIENT_SECRET'')) \<longrightarrow>
      \<not> truthy (which v (str ''npx'')) \<longrightarrow>
      openai_main n v = Some (Inl (Exc (Error (str ''RuntimeError'')
        (str ''npx is not installed. Please install it with `npm install -g npx`.''))), v))
   \<and> (\<not> truthy (environ u (str ''OPENAI_API_KEY'')) \<longrightarrow>
      langchain_main n u = Some (Inr (), prints
        [str ''Error: OPENAI_API_KEY not set in environment''] u))
   \<and> (truthy (environ u (str ''OPENAI_API_KEY'')) \<longrightarrow>
      \<not> truthy (environ u (str ''XERO_CLIENT_ID'')) \<or> \<not> truthy (environ u (str ''XERO_CLIENT_SECRET'')) \<longrightarrow>
      langchain_main n u = Some (Inr (), prints
        [str ''Error: Xero credentials not set in environment'',
         str ''Please set XERO_CLIENT_ID and XERO_CLIENT_SECRET''] u))"
  using adk_main_missing_credentials [of w n] adk_main_missing_model [of w n]
    adk_main_missing_npx [of w n] openai_main_missing_key [of v n]
    openai_main_missing_credentials [of v n] openai_main_missing_npx [of v n]
    langchain_main_missing_key [of u n] langchain_main_missing_credentials [of u n]
  by blast

theorem startup_checks_witness:
  "adk_main 0 (bare_world quiet_adk) = Some (Inr (), prints
     [CHECK_MARK @ str '' Google ADK is installed'',
      CROSS_MARK @ str '' Error: Missing required environment variables:'',
      str ''   - '' @ str ''XERO_CLIENT_ID'',
      str ''   - '' @ str ''XERO_CLIENT_SECRET'',
      nl @ str ''Please set these environment variables:'',
      str ''- XERO_CLIENT_ID: Your Xero app's client ID'',
      str ''- XERO_CLIENT_SECRET: Your Xero app's client secret'',
      nl @ str ''You can get these from: https://developer.xero.com/''] (bare_world quiet_adk))
   \<and> adk_main 0 ((typed [] quiet_adk)\<lparr>environ := (env_file(str ''GOOGLE_API_KEY'' := None))\<rparr>) =
       Some (Inr (), prints
         [CHECK_MARK @ str '' Google ADK is installed'',
          CROSS_MARK @ str '' Error: No model configuration found'',
          str ''Please set either:'',
          str ''- GOOGLE_API_KEY for Google AI Studio'',
          str ''- GOOGLE_GENAI_USE_VERTEXAI=TRUE for Vertex AI'']
         ((typed [] quiet_adk)\<lparr>environ := (env_file(str ''GOOGLE_API_KEY'' := None))\<rparr>))
   \<and> adk_main 0 (typed [] quiet_adk) = Some (Inr (), prints
        [CHECK_MARK @ str '' Google ADK is installed'',
         CROSS_MARK @ str '' Error: npx is not installed'',
         str ''Please install Node.js and npm to get npx'',
         str ''Visit: https://nodejs.org/''] (typed [] quiet_adk))
   \<and> openai_main 0 (bare_world failing_openai) = Some (Inr (), prints
        [str ''Error: OPENAI_API_KEY not set in environment'',
         str ''Please set your OpenAI API key to run this example''] (bare_world failing_openai))
   \<and> openai_main 0 ((typed [] failing_openai)\<lparr>environ := (env_file(str ''XERO_CLIENT_SECRET'' := Some []))\<rparr>) =
       Some (Inr (), prints
         [str ''Error: Xero credentials not set in environment'',
          str ''Please set XERO_CLIENT_ID and XERO_CLIENT_SECRET'']
         ((typed [] failing_openai)\<lparr>environ := (env_file(str ''XERO_CLIENT_SECRET'' := Some []))\<rparr>))
   \<and> openai_main 0 (typed [] failing_openai) =
       Some (Inl (Exc (Error (str ''RuntimeError'')
         (str ''npx is not installed. Please install it with `npm install -g npx`.''))),
         typed [] failing_openai)
   \<and> langchain_main 0 (bare_world failing_langchain) = Some (Inr (), prints
        [str ''Error: OPENAI_API_KEY not set in environment''] (bare_world failing_langchain))
   \<and> langchain_main 0 ((typed [] failing_langchain)\<lparr>environ := (env_file(str ''XERO_CLIENT_ID'' := None))\<rparr>) =
       Some (Inr (), prints
         [str ''Error: Xero credentials not set in environment'',
          str ''Please set XERO_CLIENT_ID and XERO_CLIENT_SECRET'']
         ((typed [] failing_langchain)\<lparr>environ := (env_file(str ''XERO_CLIENT_ID'' := None))\<rparr>))"
proof -
  let ?a = "bare_world quiet_adk"
  let ?b = "(typed [] quiet_adk)\<lparr>environ := (env_file(str ''GOOGLE_API_KEY'' := None))\<rparr>"
  let ?c = "typed [] quiet_adk"
  let ?d = "bare_world failing_openai"
  let ?e = "(typed [] failing_openai)\<lparr>environ := (env_file(str ''XERO_CLIENT_SECRET'' := Some []))\<rparr>"
  let ?f = "typed [] failing_openai"
  let ?g = "bare_world failing_langchain"
  let ?h = "(typed [] failing_langchain)\<lparr>environ := (env_file(str ''XERO_CLIENT_ID'' := None))\<rparr>"
  have adk: "installed (sdk ?a)" "installed (sdk ?b)" "installed (sdk ?c)"
    by (simp_all add: quiet_adk_def)
  have unset: "env_file (str ''DEFAULT_MODEL'') = None" "env_file (str ''GOOGLE_GENAI_USE_VERTEXAI'') = None"
    by (simp_all add: env_file_def)
  note first = startup_checks [of ?a 0 ?d ?g]
    and second = startup_checks [of ?b 0 ?e ?h]
    and third = startup_checks [of ?c 0 ?f ?g]
  have "adk_main 0 ?a = Some (Inr (), prints
     [CHECK_MARK @ str '' Google ADK is installed'',
      CROSS_MARK @ str '' Error: Missing required environment variables:'',
      str ''   - '' @ str ''XERO_CLIENT_ID'',
      str ''   - '' @ str ''XERO_CLIENT_SECRET'',
      nl @ str ''Please set these environment variables:'',
      str ''- XERO_CLIENT_ID: Your Xero app's client ID'',
      str ''- XERO_CLIENT_SECRET: Your Xero app's client secret'',
      nl @ str ''You can get these from: https://developer.xero.com/''] ?a)"
    using first adk by (simp add: required_env_vars_def)
  moreover have "adk_main 0 ?b = Some (Inr (), prints
         [CHECK_MARK @ str '' Google ADK is installed'',
          CROSS_MARK @ str '' Error: No model configuration found'',
          str ''Please set either:'',
          str ''- GOOGLE_API_KEY for Google AI Studio'',
          str ''- GOOGLE_GENAI_USE_VERTEXAI=TRUE for Vertex AI''] ?b)"
    using second adk unset by simp
  moreover have "adk_main 0 ?c = Some (Inr (), prints
        [CHECK_MARK @ str '' Google ADK is installed'',
         CROSS_MARK @ str '' Error: npx is not installed'',
         str ''Please install Node.js and npm to get npx'',
         str ''Visit: https://nodejs.org/''] ?c)"
    using third adk by simp
  moreover have "openai_main 0 ?d = Some (Inr (), prints
        [str ''Error: OPENAI_API_KEY not set in environment'',
         str ''Please set your OpenAI API key to run this example''] ?d)"
    using first by simp
  moreover have "openai_main 0 ?e = Some (Inr (), prints
         [str ''Error: Xero credentials not set in environment'',
          str ''Please set XERO_CLIENT_ID and XERO_CLIENT_SECRET''] ?e)"
    using second by simp
  moreover have "openai_main 0 ?f = Some (Inl (Exc (Error (str ''RuntimeError'')
         (str ''npx is not installed. Please install it with `npm install -g npx`.''))), ?f)"
    using third by simp
  moreover have "langchain_main 0 ?g = Some (Inr (), prints
        [str ''Error: OPENAI_API_KEY not set in environment''] ?g)"
    using first by simp
  moreover have "langchain_main 0 ?h = Some (Inr (), prints
         [str ''Error: Xero credentials not set in environment'',
          str ''Please set XERO_CLIENT_ID and XERO_CLIENT_SECRET''] ?h)"
    using second by simp
  ultimately show ?thesis by blast
qed

subsection \<open>The configuration is read-only\<close>

text \<open>
  Claim C6. The configuration is the environment as \<open>load_dotenv()\<close> leaves it when the
  script is loaded. Nothing a script does afterwards writes to it: whenever a script
  returns, and after each operation that calls into an SDK, the environment is the one
  the operation started from, so every \<open>os.getenv\<close> of a run reads the configuration of
  the start.
\<close>

theorem configuration_never_written:
  "(adk_script d n w = Some (r, w') \<longrightarrow> environ w' = environ (load_dotenv d w))
   \<and> (openai_script d n v = Some (r, v') \<longrightarrow> environ v' = environ (load_dotenv d v))
   \<and> (langchain_script d n u = Some (r, u') \<longrightarrow> environ u' = environ (load_dotenv d u))
   \<and> environ (snd (agent_module d x)) = environ (load_dotenv d x)
   \<and> environ (snd (snd (initialize self0 w))) = environ w
   \<and> environ (snd (snd (process self0 q w))) = environ w
   \<and> environ (snd (cleanup self0 w)) = environ w
   \<and> environ (snd (Runner_run a t v)) = environ v
   \<and> environ (snd (create_xero_mcp_agent u)) = environ u
   \<and> environ (snd (agent_ainvoke a t u)) = environ u"
proof -
  have "environ (snd (agent_module d x)) = environ (load_dotenv d x)"
    unfolding agent_module_def by (rule static_environ) simp
  moreover have "environ (snd (snd (initialize self0 w))) = environ w"
    by (rule static_environ) simp
  moreover have "environ (snd (snd (process self0 q w))) = environ w"
    by (rule static_environ) simp
  moreover have "environ (snd (cleanup self0 w)) = environ w"
    by (rule static_environ) simp
  moreover have "environ (snd (Runner_run a t v)) = environ v"
    by (rule static_environ) simp
  moreover have "environ (snd (create_xero_mcp_agent u)) = environ u"
    by (rule static_environ) simp
  moreover have "environ (snd (agent_ainvoke a t u)) = environ u"
    by (rule static_environ) simp
  moreover have "environ w' = environ (load_dotenv d w)" if "adk_script d n w = Some (r, w')"
    by (rule static_environ, rule keeps_static [OF keeps_script(1) that])
  moreover have "environ v' = environ (load_dotenv d v)" if "openai_script d n v = Some (r, v')"
    by (rule static_environ, rule keeps_static [OF keeps_script(2) that])
  moreover have "environ u' = environ (load_dotenv d u)" if "langchain_script d n u = Some (r, u')"
    by (rule static_environ, rule keeps_static [OF keeps_script(3) that])
  ultimately show ?thesis
    by blast
qed

theorem configuration_never_written_witness:
  "(\<exists>r w'. adk_script env_file 0 (bare_world quiet_adk) = Some (r, w') \<and> environ w' = env_file)
   \<and> (\<exists>r v'. openai_script env_file 0 (bare_world failing_openai) = Some (r, v') \<and> environ v' = env_file)
   \<and> (\<exists>r u'. langchain_script Map.empty 0 (typed (str ''1'') failing_langchain) = Some (r, u')
          \<and> environ u' = env_file)"
proof -
  let ?a = "bare_world quiet_adk" and ?o = "bare_world failing_openai"
  let ?l = "typed (str ''1'') failing_langchain"
  have loaded: "environ (load_dotenv env_file (bare_world s)) = env_file" for s :: 'a
    by (rule ext) simp
  have kept: "environ (load_dotenv Map.empty ?l) = env_file"
    by (rule ext) (simp split: option.splits)
  have "installed (sdk ((load_dotenv env_file ?a)\<lparr>sigint := Armed\<rparr>))"
    by (simp add: quiet_adk_def)
  then obtain r1 w1 where run: "adk_script env_file 0 ?a = Some (r1, w1)"
    unfolding adk_script_def asyncio_run_def
    using adk_main_missing_npx [of "(load_dotenv env_file ?a)\<lparr>sigint := Armed\<rparr>" 0] by simp
  have one: "\<exists>r w'. adk_script env_file 0 ?a = Some (r, w') \<and> environ w' = env_file"
    using configuration_never_written
      [where d = env_file and n = 0 and w = ?a and r = r1 and w' = w1, THEN conjunct1]
      run loaded by simp
  obtain r2 w2 where run2: "openai_script env_file 0 ?o = Some (r2, w2)"
    unfolding openai_script_def asyncio_run_def
    using openai_main_missing_npx [of "(load_dotenv env_file ?o)\<lparr>sigint := Armed\<rparr>" 0] by simp
  have two: "\<exists>r v'. openai_script env_file 0 ?o = Some (r, v') \<and> environ v' = env_file"
    using configuration_never_written
      [where d = env_file and n = 0 and v = ?o and r = r2 and v' = w2,
         THEN conjunct2, THEN conjunct1]
      run2 loaded by simp
  have "langchain_script Map.empty 0 ?l =
      asyncio_run (\<lambda>w. Some (demo_invoice_specialist_agent w))
        ((emit (Prompt (nl @ str ''Enter your choice (1-6): ''))
            (prints langchain_menu (load_dotenv Map.empty ?l)))
           \<lparr>cursor := Suc (cursor (load_dotenv Map.empty ?l))\<rparr>)"
    unfolding langchain_script_def
    using langchain_main_selected [where w = "load_dotenv Map.empty ?l" and l = "str ''1''" and n = 0
        and demo = "\<lambda>w. Some (demo_invoice_specialist_agent w)"]
    by (simp add: isspace_def langchain_demos_one)
  then obtain r3 u3 where run3: "langchain_script Map.empty 0 ?l = Some (r3, u3)"
    by (simp add: asyncio_run_def split_beta)
  have three: "\<exists>r u'. langchain_script Map.empty 0 ?l = Some (r, u') \<and> environ u' = env_file"
    using configuration_never_written
      [where d = Map.empty and n = 0 and u = ?l and r = r3 and u' = u3,
         THEN conjunct2, THEN conjunct2, THEN conjunct1]
      run3 kept by simp
  from one two three show ?thesis by blast
qed

subsection \<open>Allow-lists\<close>

lemma create_xero_mcp_toolset_tick [simp]: "create_xero_mcp_toolset (tick w) = create_xero_mcp_toolset w"
  by (simp add: create_xero_mcp_toolset_def getenv_def)

lemma xero_mcp_toolset_tick [simp]: "xero_mcp_toolset (tick w) = xero_mcp_toolset w"
  by (simp add: xero_mcp_toolset_def my_env_vars_def getenv_def)

lemma launches_initialize_failed [simp]:
  "launches (out (snd (snd (initialize_failed x self0 w)))) = launches (out w)"
  by (simp add: initialize_failed_def split: exn.splits)

lemma launches_await [simp]: "launches (out (snd (await r w))) = launches (out w)"
  by (simp add: await_def)

lemma launches_initialize:
  "fails_at At_toolset (initialize_fails (sdk w) (clock w)) = None \<Longrightarrow>
     launches (out (snd (snd (initialize self0 w)))) =
       launches (out w) @ [(connection_params (create_xero_mcp_toolset w),
                           Some (tool_filter (create_xero_mcp_toolset w)))]"
  by (simp add: initialize_def Let_def split_beta Agent_def split: option.splits sum.splits)

lemma initialize_agent_tools:
  "fst (initialize self0 w) = Inr () \<Longrightarrow>
     \<exists>a. agent (fst (snd (initialize self0 w))) = Some a \<and> tools a = Toolset (create_xero_mcp_toolset w)"
  by (auto simp add: initialize_def initialize_failed_def Let_def split_beta Agent_def
        split: option.splits sum.splits)

lemma launches_import_agent_module:
  "fails_at At_toolset (initialize_fails (sdk x) (clock x)) = None \<Longrightarrow>
     launches (out (snd (import_agent_module x))) =
       launches (out x) @ [(connection_params (xero_mcp_toolset x), Some (tool_filter (xero_mcp_toolset x)))]"
  by (simp add: import_agent_module_def Let_def split_beta Agent_def split: option.splits)

lemma openai_main_connect_fails:
  assumes "truthy (environ v (str ''OPENAI_API_KEY''))"
    and "environ v (str ''XERO_CLIENT_ID'') = Some a" and "a \<noteq> []"
    and "environ v (str ''XERO_CLIENT_SECRET'') = Some b" and "b \<noteq> []"
    and "truthy (which v (str ''npx''))" and "connect (sdk v) = Some x" and "sigint v \<noteq> Cancel_pending"
  shows "openai_main n v =
           Some (Inl x, tick (emit (New_tool_provider (params (openai_server a b)) None) v))"
  using assms by (simp add: openai_main_def with_server_def getenv_def environ_item_def Let_def)




subsection \<open>The Cloud Run module\<close>

lemma my_env_vars_tick [simp]: "my_env_vars (tick w) = my_env_vars w"
  by (simp add: my_env_vars_def getenv_def)

lemma root_agent_emit_tick [simp]: "root_agent (emit e (tick w)) = root_agent w"
  by (simp add: root_agent_def xero_mcp_toolset_def my_env_vars_def getenv_def)

lemma model_file_keys [simp]:
  "model_file (str ''DEFAULT_MODEL'') = Some (str ''gemini-2.0-flash'')"
  "model_file (str ''XERO_CLIENT_ID'') = None"
  "model_file (str ''XERO_CLIENT_SECRET'') = None"
  by (simp_all add: model_file_def)

text \<open>
  Counterexample to claim C10 as stated: with nothing set in the environment, and an
  \<open>Agent\<close> constructor that rejects its arguments, the import of the module does not go
  through: the tool provider is built, the exception of the constructor leaves the module,
  and the parameters of the tool provider have no \<open>env\<close> mapping.
\<close>

theorem agent_module_import_can_fail:
  "environ (load_dotenv Map.empty (bare_world strict_adk)) (str ''XERO_CLIENT_ID'') = None
   \<and> environ (load_dotenv Map.empty (bare_world strict_adk)) (str ''XERO_CLIENT_SECRET'') = None
   \<and> fst (agent_module Map.empty (bare_world strict_adk)) =
        Inl (Exc (Error (str ''ValidationError'') (str ''1 validation error for LlmAgent'')))
   \<and> map (env \<circ> fst) (launches (out (snd (agent_module Map.empty (bare_world strict_adk))))) = [None]"
  by (simp add: agent_module_def import_agent_module_def strict_adk_def fails_at_def Let_def
        xero_mcp_toolset_def)

text \<open>
  Claim C10, amended. The module reads \<open>XERO_CLIENT_ID\<close> and \<open>XERO_CLIENT_SECRET\<close> with
  \<open>os.getenv\<close> and makes no check: \<open>my_env_vars\<close> holds \<open>None\<close> for a variable that is
  unset, and the model is \<open>None\<close> when \<open>DEFAULT_MODEL\<close> is unset. The module hands
  \<open>my_env_vars\<close> to \<open>StdioServerParameters\<close> and calls the two constructors, the tool
  provider and then the agent, whatever the environment holds, and prints nothing. The
  import goes through exactly when neither constructor raises; an exception of a
  constructor leaves the module, after the tool provider was built when it is the agent's.
\<close>

theorem agent_module_import:
  "my_env_vars x =
     [(str ''XERO_CLIENT_ID'', environ x (str ''XERO_CLIENT_ID'')),
      (str ''XERO_CLIENT_SECRET'', environ x (str ''XERO_CLIENT_SECRET''))]
   \<and> xero_mcp_toolset x =
       \<lparr>connection_params =
          \<lparr>command = str ''npx'', args = [str ''@xeroapi/xero-mcp-server@latest''], env = None,
           env_vars = Some (my_env_vars x)\<rparr>,
        tool_filter =
          [str ''list-contacts'', str ''list-items'', str ''list-tax-rates'', str ''list-accounts'',
           str ''list-tracking-categories'', str ''create-invoice'', str ''list-invoices'',
           str ''update-invoice'']\<rparr>
   \<and> root_agent x =
       \<lparr>agent_name = str ''xero_invoicing_agent'', model = environ x (str ''DEFAULT_MODEL''),
        tools = Toolset (xero_mcp_toolset x)\<rparr>
   \<and> agent_module d y = import_agent_module (load_dotenv d y)
   \<and> (fails_at At_toolset (initialize_fails (sdk x) (clock x)) = None \<longrightarrow>
      fails_at At_agent (initialize_fails (sdk x) (clock x)) = None \<longrightarrow>
        fst (import_agent_module x) = Inr ()
        \<and> out (snd (import_agent_module x)) =
            out x @ [New_tool_provider (connection_params (xero_mcp_toolset x))
                       (Some (tool_filter (xero_mcp_toolset x))),
                     New_agent (root_agent x)])
   \<and> (fails_at At_toolset (initialize_fails (sdk x) (clock x)) = Some e \<longrightarrow>
        fst (import_agent_module x) = Inl e \<and> out (snd (import_agent_module x)) = out x)
   \<and> (fails_at At_toolset (initialize_fails (sdk x) (clock x)) = None \<longrightarrow>
      fails_at At_agent (initialize_fails (sdk x) (clock x)) = Some e \<longrightarrow>
        fst (import_agent_module x) = Inl e
        \<and> out (snd (import_agent_module x)) =
            out x @ [New_tool_provider (connection_params (xero_mcp_toolset x))
                       (Some (tool_filter (xero_mcp_toolset x)))])
   \<and> (fst (import_agent_module x) = Inr () \<longleftrightarrow>
        fails_at At_toolset (initialize_fails (sdk x) (clock x)) = None
        \<and> fails_at At_agent (initialize_fails (sdk x) (clock x)) = None)"
proof -
  let ?f = "initialize_fails (sdk x) (clock x)"
  have vars: "my_env_vars x =
     [(str ''XERO_CLIENT_ID'', environ x (str ''XERO_CLIENT_ID'')),
      (str ''XERO_CLIENT_SECRET'', environ x (str ''XERO_CLIENT_SECRET''))]"
    by (simp add: my_env_vars_def getenv_def)
  have ts: "xero_mcp_toolset x =
       \<lparr>connection_params =
          \<lparr>command = str ''npx'', args = [str ''@xeroapi/xero-mcp-server@latest''], env = None,
           env_vars = Some (my_env_vars x)\<rparr>,
        tool_filter =
          [str ''list-contacts'', str ''list-items'', str ''list-tax-rates'', str ''list-accounts'',
           str ''list-tracking-categories'', str ''create-invoice'', str ''list-invoices'',
           str ''update-invoice'']\<rparr>"
    by (simp add: xero_mcp_toolset_def TS_MCP_SERVER_COMMAND_def)
  have ag: "root_agent x =
       \<lparr>agent_name = str ''xero_invoicing_agent'', model = environ x (str ''DEFAULT_MODEL''),
        tools = Toolset (xero_mcp_toolset x)\<rparr>"
    by (simp add: root_agent_def getenv_def)
  have m: "agent_module d y = import_agent_module (load_dotenv d y)"
    by (simp add: agent_module_def)
  have ok: "fst (import_agent_module x) = Inr ()
        \<and> out (snd (import_agent_module x)) =
            out x @ [New_tool_provider (connection_params (xero_mcp_toolset x))
                       (Some (tool_filter (xero_mcp_toolset x))),
                     New_agent (root_agent x)]"
    if "fails_at At_toolset ?f = None" "fails_at At_agent ?f = None"
    using that by (simp add: import_agent_module_def Let_def Agent_def)
  have early: "fst (import_agent_module x) = Inl e \<and> out (snd (import_agent_module x)) = out x"
    if "fails_at At_toolset ?f = Some e"
    using that by (simp add: import_agent_module_def Let_def)
  have late: "fst (import_agent_module x) = Inl e
        \<and> out (snd (import_agent_module x)) =
            out x @ [New_tool_provider (connection_params (xero_mcp_toolset x))
                       (Some (tool_filter (xero_mcp_toolset x)))]"
    if "fails_at At_toolset ?f = None" "fails_at At_agent ?f = Some e"
    using that by (simp add: import_agent_module_def Let_def)
  have iff: "fst (import_agent_module x) = Inr () \<longleftrightarrow>
        fails_at At_toolset ?f = None \<and> fails_at At_agent ?f = None"
    by (simp add: import_agent_module_def Let_def Agent_def split: option.splits)
  from vars ts ag m ok early late iff show ?thesis
    by blast
qed

theorem agent_module_import_witness:
  "fst (agent_module model_file (bare_world quiet_adk)) = Inr ()
   \<and> out (snd (agent_module model_file (bare_world quiet_adk))) =
       [New_tool_provider
          \<lparr>command = str ''npx'', args = [str ''@xeroapi/xero-mcp-server@latest''], env = None,
           env_vars = Some [(str ''XERO_CLIENT_ID'', None), (str ''XERO_CLIENT_SECRET'', None)]\<rparr>
          (Some [str ''list-contacts'', str ''list-items'', str ''list-tax-rates'', str ''list-accounts'',
                 str ''list-tracking-categories'', str ''create-invoice'', str ''list-invoices'',
                 str ''update-invoice'']),
        New_agent
          \<lparr>agent_name = str ''xero_invoicing_agent'', model = Some (str ''gemini-2.0-flash''),
           tools = Toolset (xero_mcp_toolset (load_dotenv model_file (bare_world quiet_adk)))\<rparr>]
   \<and> fst (agent_module Map.empty (bare_world strict_adk)) =
        Inl (Exc (Error (str ''ValidationError'') (str ''1 validation error for LlmAgent'')))
   \<and> out (snd (agent_module Map.empty (bare_world strict_adk))) =
       [New_tool_provider
          \<lparr>command = str ''npx'', args = [str ''@xeroapi/xero-mcp-server@latest''], env = None,
           env_vars = Some [(str ''XERO_CLIENT_ID'', None), (str ''XERO_CLIENT_SECRET'', None)]\<rparr>
          (Some [str ''list-contacts'', str ''list-items'', str ''list-tax-rates'', str ''list-accounts'',
                 str ''list-tracking-categories'', str ''create-invoice'', str ''list-invoices'',
                 str ''update-invoice''])]"
proof -
  let ?x = "load_dotenv model_file (bare_world quiet_adk)"
  let ?z = "load_dotenv Map.empty (bare_world strict_adk)"
  let ?e = "Exc (Error (str ''ValidationError'') (str ''1 validation error for LlmAgent''))"
  note c = agent_module_import
  have quiet: "initialize_fails (sdk ?x) (clock ?x) = None"
    by (simp add: quiet_adk_def)
  have strict: "initialize_fails (sdk ?z) (clock ?z) = Some (At_agent, ?e)"
    by (simp add: strict_adk_def)
  have vars: "my_env_vars ?x = [(str ''XERO_CLIENT_ID'', None), (str ''XERO_CLIENT_SECRET'', None)]"
    using c [where x = ?x, THEN conjunct1] by simp
  have vars': "my_env_vars ?z = [(str ''XERO_CLIENT_ID'', None), (str ''XERO_CLIENT_SECRET'', None)]"
    using c [where x = ?z, THEN conjunct1] by simp
  have ts: "xero_mcp_toolset ?x =
       \<lparr>connection_params =
          \<lparr>command = str ''npx'', args = [str ''@xeroapi/xero-mcp-server@latest''], env = None,
           env_vars = Some [(str ''XERO_CLIENT_ID'', None), (str ''XERO_CLIENT_SECRET'', None)]\<rparr>,
        tool_filter =
          [str ''list-contacts'', str ''list-items'', str ''list-tax-rates'', str ''list-accounts'',
           str ''list-tracking-categories'', str ''create-invoice'', str ''list-invoices'',
           str ''update-invoice'']\<rparr>"
    using c [where x = ?x, THEN conjunct2, THEN conjunct1] vars by simp
  have ts': "xero_mcp_toolset ?z =
       \<lparr>connection_params =
          \<lparr>command = str ''npx'', args = [str ''@xeroapi/xero-mcp-server@latest''], env = None,
           env_vars = Some [(str ''XERO_CLIENT_ID'', None), (str ''XERO_CLIENT_SECRET'', None)]\<rparr>,
        tool_filter =
          [str ''list-contacts'', str ''list-items'', str ''list-tax-rates'', str ''list-accounts'',
           str ''list-tracking-categories'', str ''create-invoice'', str ''list-invoices'',
           str ''update-invoice'']\<rparr>"
    using c [where x = ?z, THEN conjunct2, THEN conjunct1] vars' by simp
  have ag: "root_agent ?x =
       \<lparr>agent_name = str ''xero_invoicing_agent'', model = Some (str ''gemini-2.0-flash''),
        tools = Toolset (xero_mcp_toolset ?x)\<rparr>"
    using c [where x = ?x, THEN conjunct2, THEN conjunct2, THEN conjunct1] by simp
  have m: "agent_module model_file (bare_world quiet_adk) = import_agent_module ?x"
    "agent_module Map.empty (bare_world strict_adk) = import_agent_module ?z"
    using c [where d = model_file and y = "bare_world quiet_adk",
        THEN conjunct2, THEN conjunct2, THEN conjunct2, THEN conjunct1]
      c [where d = Map.empty and y = "bare_world strict_adk",
        THEN conjunct2, THEN conjunct2, THEN conjunct2, THEN conjunct1]
    by simp_all
  have ok: "fst (import_agent_module ?x) = Inr ()
        \<and> out (snd (import_agent_module ?x)) =
            out ?x @ [New_tool_provider (connection_params (xero_mcp_toolset ?x))
                       (Some (tool_filter (xero_mcp_toolset ?x))),
                     New_agent (root_agent ?x)]"
    using c [where x = ?x, THEN conjunct2, THEN conjunct2, THEN conjunct2, THEN conjunct2,
        THEN conjunct1] quiet
    by (simp add: fails_at_def)
  have bad: "fst (import_agent_module ?z) = Inl ?e
        \<and> out (snd (import_agent_module ?z)) =
            out ?z @ [New_tool_provider (connection_params (xero_mcp_toolset ?z))
                       (Some (tool_filter (xero_mcp_toolset ?z)))]"
    using c [where x = ?z and e = ?e, THEN conjunct2, THEN conjunct2, THEN conjunct2,
        THEN conjunct2, THEN conjunct2, THEN conjunct2, THEN conjunct1] strict
    by (simp add: fails_at_def)
  from ok bad show ?thesis
    unfolding m ag ts ts' by simp
qed

subsection \<open>\<open>XeroADKAgent.cleanup\<close>\<close>

lemma try_cleanup_methods_passed_over:
  assumes "sigint w \<noteq> Cancel_pending" and "list_all (passed_over (sdk w) t) pre"
  shows "try_cleanup_methods t (pre @ rest) w = try_cleanup_methods t rest w"
  using assms(2)
proof (induction pre)
  case Nil
  then show ?case by simp
next
  case (Cons m pre)
  then have m: "passed_over (sdk w) t m"
    and ih: "try_cleanup_methods t (pre @ rest) w = try_cleanup_methods t rest w"
    by simp_all
  from m ih assms(1) show ?case
    by (simp add: try_cleanup_methods_Cons passed_over_def is_Exception_def
          split: call_result.splits option.splits exn.splits if_splits)
qed

lemma try_cleanup_methods_passed_unawaited:
  assumes "list_all (passed_unawaited (sdk w) t) pre"
  shows "try_cleanup_methods t (pre @ rest) w = try_cleanup_methods t rest w"
  using assms
proof (induction pre)
  case Nil
  then show ?case by simp
next
  case (Cons m pre)
  then have m: "passed_unawaited (sdk w) t m"
    and ih: "try_cleanup_methods t (pre @ rest) w = try_cleanup_methods t rest w"
    by simp_all
  from m ih show ?case
    by (simp add: try_cleanup_methods_Cons passed_unawaited_def is_Exception_def
          split: call_result.splits option.splits exn.splits if_splits)
qed

lemma try_cleanup_methods_cleans_up:
  "sigint w \<noteq> Cancel_pending \<Longrightarrow> cleans_up (sdk w) t m \<Longrightarrow>
     try_cleanup_methods t (m # post) w =
       (Inr (), print (CHECK_MARK @ str '' Used '' @ m @ str '' for cleanup'') w)"
  by (auto simp add: try_cleanup_methods_Cons cleans_up_def)

lemma try_cleanup_methods_breaks_out:
  "sigint w \<noteq> Cancel_pending \<Longrightarrow> breaks_out (sdk w) t m x \<Longrightarrow>
     try_cleanup_methods t (m # post) w = (Inl x, w)"
  by (auto simp add: try_cleanup_methods_Cons breaks_out_def is_Exception_def split: exn.splits)

lemma try_cleanup_methods_cancelled:
  "sigint w = Cancel_pending \<Longrightarrow> toolset_has (sdk w) t (first_component m) \<Longrightarrow>
   toolset_call (sdk w) t m = Awaited r \<Longrightarrow>
     try_cleanup_methods t (m # post) w = (Inl CancelledError, w\<lparr>sigint := Disarmed\<rparr>)"
  by (simp add: try_cleanup_methods_Cons await_pending)

lemma try_cleanup_methods_no_Exception: "fst (try_cleanup_methods t ms w) \<noteq> Inl (Exc e)"
proof (induction ms arbitrary: w)
  case Nil
  then show ?case by simp
next
  case (Cons m ms)
  then show ?case
    by (simp add: try_cleanup_methods_Cons Let_def split: sum.splits exn.splits)
qed

lemma cleanup_with_toolset:
  "xero_toolset self0 \<noteq> None \<Longrightarrow>
     cleanup self0 w =
       (case try_cleanup_methods (clock w) cleanup_methods (tick w) of
          (Inl x, w1) \<Rightarrow> (Inl x, w1)
        | (Inr u, w1) \<Rightarrow> (Inr (), print (CHECK_MARK @ str '' Agent cleanup completed'') w1))"
  using try_cleanup_methods_no_Exception [of "clock w" cleanup_methods "tick w"]
  by (cases "try_cleanup_methods (clock w) cleanup_methods (tick w)")
     (auto simp add: cleanup_def cleanup_body_def except_Exception_print_def split: sum.splits exn.splits)

lemma first_component_cleanup_methods [simp]:
  "first_component (str ''close'') = str ''close''"
  "first_component (str ''disconnect'') = str ''disconnect''"
  "first_component (str ''cleanup'') = str ''cleanup''"
  "first_component (str ''_client.close'') = str ''_client''"
  "first_component (str ''_connection.close'') = str ''_connection''"
  by (simp_all add: first_component_def str_def)




subsection \<open>\<open>XeroADKAgent.process\<close>\<close>

lemma prints_Nil [simp]: "prints [] w = w"
  by (simp add: prints_def)

lemma handle_part_eq:
  "handle_part p (acc, w) =
     (acc @ (case part_text p of None \<Rightarrow> [] | Some t \<Rightarrow> if t = [] then [] else [t]),
      prints (part_prints p) w)"
  by (cases "part_text p"; cases "function_call p")
     (auto simp add: handle_part_def part_prints_def prints_def split: option.splits)

lemma fold_handle_part_eq:
  "fold handle_part ps (acc, w) = (acc @ part_texts ps, prints (concat (map part_prints ps)) w)"
proof (induction ps arbitrary: acc w)
  case Nil
  then show ?case by (simp add: part_texts_def)
next
  case (Cons p ps)
  then show ?case
    by (simp add: handle_part_eq part_texts_def prints_append)
qed

lemma handle_event_eq:
  "handle_event ev (acc, w) = (acc @ event_texts ev, prints (event_prints ev) w)"
  by (simp add: handle_event_def event_texts_def event_prints_def fold_handle_part_eq prints_def
        split: option.splits)

lemma fold_handle_event_eq:
  "fold handle_event evs (acc, w) =
     (acc @ concat (map event_texts evs), prints (concat (map event_prints evs)) w)"
proof (induction evs arbitrary: acc w)
  case Nil
  then show ?case by simp
next
  case (Cons ev evs)
  then show ?case
    by (simp add: handle_event_eq prints_append)
qed

lemma part_texts_nonempty: "t \<in> set (part_texts ps) \<Longrightarrow> t \<noteq> []"
  by (auto simp add: part_texts_def split: option.splits if_splits)

lemma event_texts_nonempty: "t \<in> set (event_texts ev) \<Longrightarrow> t \<noteq> []"
  by (auto simp add: event_texts_def dest: part_texts_nonempty split: option.splits)

lemma response_nonempty:
  assumes "\<And>t. t \<in> set ts \<Longrightarrow> t \<noteq> []"
  shows "(if ts \<noteq> [] then join sep ts else fallback) \<noteq> []"
proof (cases ts)
  case Nil
  then show ?thesis by (simp add: fallback_def str_def)
next
  case (Cons x xs)
  with assms [of x] show ?thesis by (simp add: join_def)
qed

lemma process_body_returns:
  assumes "fst (process_body self0 q w) = Inr s"
  shows "s \<noteq> []"
proof -
  have r: "(if concat (map event_texts evs) \<noteq> [] then join sep (concat (map event_texts evs)) else fallback) \<noteq> []"
    for evs sep
    by (rule response_nonempty) (auto dest: event_texts_nonempty)
  have j: "join sep (concat (map event_texts evs)) \<noteq> []" if "concat (map event_texts evs) \<noteq> []"
    for evs sep
    using r [of evs sep] that by (simp del: concat_eq_Nil_conv)
  have f: "fallback \<noteq> []"
    by (simp add: fallback_def str_def)
  from assms show ?thesis
    by (auto simp add: process_body_def Let_def split_beta fold_handle_event_eq j f
          simp del: concat_eq_Nil_conv split: sum.splits option.splits prod.splits if_splits)
qed

lemma process_cases:
  "fst (process_body self0 q w) = Inl (Exc e) \<Longrightarrow>
     process self0 q w =
       (Inr (error_msg q e), fst (snd (process_body self0 q w)),
        print (CROSS_MARK @ str '' '' @ error_msg q e) (snd (snd (process_body self0 q w))))"
  "fst (process_body self0 q w) = Inl x \<Longrightarrow> is_Exception x = False \<Longrightarrow>
     process self0 q w = process_body self0 q w"
  "fst (process_body self0 q w) = Inr s \<Longrightarrow> process self0 q w = process_body self0 q w"
  by (cases "process_body self0 q w" rule: prod_cases3;
      simp add: process_def error_msg_def Let_def is_Exception_def split: exn.splits)+

lemma process_body_ready:
  assumes "agent self0 \<noteq> None" and "runner self0 \<noteq> None" and "session self0 \<noteq> None"
    and "sigint w \<noteq> Cancel_pending" and "run_async (sdk w) (clock w) q = (events, failure)"
  shows "process_body self0 q w =
           (case failure of
              Some x \<Rightarrow> Inl x
            | None \<Rightarrow> Inr (if concat (map event_texts events) \<noteq> []
                           then join (str '' '') (concat (map event_texts events)) else fallback),
            self0,
            prints (concat (map event_prints events))
              (tick (emit (Invoke (str ''xero_mcp_agent'') q)
                 (print (nl @ ROBOT_FACE @ str '' Processing: '' @ q) w))))"
  using assms
  by (auto simp add: process_body_def Let_def fold_handle_event_eq split: option.splits)

lemma process_body_cancelled:
  assumes "agent self0 \<noteq> None" and "runner self0 \<noteq> None" and "session self0 \<noteq> None"
    and "sigint w = Cancel_pending"
  shows "process_body self0 q w =
           (Inl CancelledError, self0,
            (tick (emit (Invoke (str ''xero_mcp_agent'') q)
               (print (nl @ ROBOT_FACE @ str '' Processing: '' @ q) w)))\<lparr>sigint := Disarmed\<rparr>)"
  using assms
  by (auto simp add: process_body_def Let_def await_pending split: option.splits)

lemma process_body_uninitialised:
  assumes "agent self0 = None \<or> runner self0 = None" and "fst (initialize self0 w) = Inl x"
  shows "process_body self0 q w = (Inl x, snd (initialize self0 w))"
  using assms by (cases "initialize self0 w" rule: prod_cases3) (auto simp add: process_body_def)

lemma process_body_no_session:
  assumes "agent self0 \<noteq> None" and "runner self0 \<noteq> None" and "session self0 = None"
  shows "process_body self0 q w =
           (Inl (Exc (Error (str ''AttributeError'') (str '''NoneType' object has no attribute 'id'' @ apos))),
            self0, print (nl @ ROBOT_FACE @ str '' Processing: '' @ q) w)"
  using assms by (auto simp add: process_body_def Let_def)




subsection \<open>What a run hands to the agent and what it launches\<close>

lemma for_each_invariant:
  assumes "\<And>x st. I st \<Longrightarrow> I (snd (step x st))" and "I st"
  shows "I (snd (for_each step xs st))"
  using assms(2)
proof (induction xs arbitrary: st)
  case Nil
  then show ?case by simp
next
  case (Cons x xs)
  from assms(1) [OF Cons.prems] have "I (snd (step x st))" .
  with Cons.IH [of "snd (step x st)"] show ?case
    by (simp add: for_each_Cons split: sum.splits)
qed

lemma for_each_all:
  assumes "\<And>x st. I st \<Longrightarrow>
      fst (step x st) = Inr () \<and> I (snd (step x st)) \<and> h (snd (step x st)) = h st @ [g x]"
    and "I st"
  shows "fst (for_each step xs st) = Inr () \<and> I (snd (for_each step xs st))
         \<and> h (snd (for_each step xs st)) = h st @ map g xs"
  using assms(2)
proof (induction xs arbitrary: st)
  case Nil
  then show ?case by simp
next
  case (Cons x xs)
  from assms(1) [OF Cons.prems, of x] have s: "fst (step x st) = Inr ()" "I (snd (step x st))"
    "h (snd (step x st)) = h st @ [g x]"
    by simp_all
  from Cons.IH [OF s(2)] s(1,3) show ?case
    by (simp add: for_each_Cons)
qed

lemma for_each_prefix:
  assumes "\<And>x st. I st \<Longrightarrow> I (snd (step x st)) \<and> h (snd (step x st)) = h st @ [g x]"
    and "I st"
  shows "\<exists>k\<le>length xs. h (snd (for_each step xs st)) = h st @ take k (map g xs)"
  using assms(2)
proof (induction xs arbitrary: st)
  case Nil
  then show ?case by simp
next
  case (Cons x xs)
  from assms(1) [OF Cons.prems, of x] have s: "I (snd (step x st))" "h (snd (step x st)) = h st @ [g x]"
    by simp_all
  show ?case
  proof (cases "fst (step x st)")
    case (Inl e)
    then have "h (snd (for_each step (x # xs) st)) = h st @ take 1 (map g (x # xs))"
      by (simp add: for_each_Cons s)
    then show ?thesis by (intro exI [of _ 1]) simp
  next
    case (Inr u)
    from Cons.IH [OF s(1)] obtain k where k: "k \<le> length xs"
      "h (snd (for_each step xs (snd (step x st)))) = h (snd (step x st)) @ take k (map g xs)"
      by blast
    with Inr have "h (snd (for_each step (x # xs) st)) = h st @ take (Suc k) (map g (x # xs))"
      by (simp add: for_each_Cons s)
    with k(1) show ?thesis by (intro exI [of _ "Suc k"]) simp
  qed
qed

lemma initialize_ready:
  assumes "fst (initialize self0 w) = Inr ()"
  shows "agent (fst (snd (initialize self0 w))) \<noteq> None"
    and "runner (fst (snd (initialize self0 w))) \<noteq> None"
    and "session (fst (snd (initialize self0 w))) \<noteq> None"
    and "xero_toolset (fst (snd (initialize self0 w))) \<noteq> None"
  using assms
  by (auto simp add: initialize_def initialize_failed_def Let_def split_beta Agent_def
        split: option.splits sum.splits)

lemma initialize_succeeds:
  "initialize_fails (sdk w) (clock w) = None \<Longrightarrow> sigint w \<noteq> Cancel_pending \<Longrightarrow>
     fst (initialize self0 w) = Inr ()"
  by (simp add: initialize_def fails_at_def Let_def split_beta Agent_def)

lemma initialize_out [simp]:
  "invoked (out (snd (snd (initialize self0 w)))) = invoked (out w)"
  "cursor (snd (snd (initialize self0 w))) = cursor w"
  by (simp_all add: initialize_def initialize_failed_def Let_def split_beta Agent_def
        split: option.splits sum.splits exn.splits)

lemma initialize_sigint:
  "sigint w \<noteq> Cancel_pending \<Longrightarrow> sigint (snd (snd (initialize self0 w))) = sigint w"
  by (simp add: initialize_def initialize_failed_def Let_def split_beta Agent_def
        split: option.splits sum.splits exn.splits)

lemma process_after_body:
  "\<exists>ts. snd (process self0 q w) =
      (fst (snd (process_body self0 q w)), prints ts (snd (snd (process_body self0 q w))))"
proof (cases "process_body self0 q w" rule: prod_cases3)
  case (fields r self1 w1)
  show ?thesis
  proof (cases r)
    case (Inr s)
    with fields show ?thesis
      by (intro exI [of _ "[]"]) (simp add: process_def)
  next
    case (Inl x)
    show ?thesis
    proof (cases x)
      case (Exc e)
      with Inl fields show ?thesis
        by (intro exI [of _ "[CROSS_MARK @ str '' '' @ error_msg q e]"])
           (simp add: process_def Let_def error_msg_def prints_def)
    next
      case KeyboardInterrupt
      with Inl fields show ?thesis
        by (intro exI [of _ "[]"]) (simp add: process_def)
    next
      case CancelledError
      with Inl fields show ?thesis
        by (intro exI [of _ "[]"]) (simp add: process_def)
    qed
  qed
qed

lemma process_body_ready_facts:
  assumes "agent self0 \<noteq> None" and "runner self0 \<noteq> None" and "session self0 \<noteq> None"
  shows "fst (snd (process_body self0 q w)) = self0"
    and "launches (out (snd (snd (process_body self0 q w)))) = launches (out w)"
    and "invoked (out (snd (snd (process_body self0 q w)))) = invoked (out w) @ [q]"
    and "cursor (snd (snd (process_body self0 q w))) = cursor w"
    and "sigint w \<noteq> Cancel_pending \<Longrightarrow> sigint (snd (snd (process_body self0 q w))) = sigint w"
proof -
  obtain events failure where r: "run_async (sdk w) (clock w) q = (events, failure)"
    by (cases "run_async (sdk w) (clock w) q")
  note ready = process_body_ready [OF assms _ r] and cancelled = process_body_cancelled [OF assms, where w = w and q = q]
  show "fst (snd (process_body self0 q w)) = self0"
    by (cases "sigint w = Cancel_pending") (simp_all add: ready cancelled)
  show "launches (out (snd (snd (process_body self0 q w)))) = launches (out w)"
    by (cases "sigint w = Cancel_pending") (simp_all add: ready cancelled)
  show "invoked (out (snd (snd (process_body self0 q w)))) = invoked (out w) @ [q]"
    by (cases "sigint w = Cancel_pending") (simp_all add: ready cancelled)
  show "cursor (snd (snd (process_body self0 q w))) = cursor w"
    by (cases "sigint w = Cancel_pending") (simp_all add: ready cancelled)
  show "sigint (snd (snd (process_body self0 q w))) = sigint w" if "sigint w \<noteq> Cancel_pending"
    using that by (simp add: ready)
qed

lemma process_ready_facts:
  assumes "agent self0 \<noteq> None" and "runner self0 \<noteq> None" and "session self0 \<noteq> None"
  shows "fst (snd (process self0 q w)) = self0"
    and "launches (out (snd (snd (process self0 q w)))) = launches (out w)"
    and "invoked (out (snd (snd (process self0 q w)))) = invoked (out w) @ [q]"
    and "cursor (snd (snd (process self0 q w))) = cursor w"
    and "sigint w \<noteq> Cancel_pending \<Longrightarrow> sigint (snd (snd (process self0 q w))) = sigint w"
proof -
  from process_after_body [of self0 q w] obtain ts where
    p: "snd (process self0 q w) =
      (fst (snd (process_body self0 q w)), prints ts (snd (snd (process_body self0 q w))))"
    by blast
  note b = process_body_ready_facts [OF assms, where q = q and w = w]
  show "fst (snd (process self0 q w)) = self0"
    by (simp add: p b)
  show "launches (out (snd (snd (process self0 q w)))) = launches (out w)"
    by (simp add: p b)
  show "invoked (out (snd (snd (process self0 q w)))) = invoked (out w) @ [q]"
    by (simp add: p b)
  show "cursor (snd (snd (process self0 q w))) = cursor w"
    by (simp add: p b)
  show "sigint (snd (snd (process self0 q w))) = sigint w" if "sigint w \<noteq> Cancel_pending"
    using that by (simp add: p b)
qed

lemma process_never_Exception: "fst (process self0 q w) \<noteq> Inl (Exc e)"
  by (cases "process_body self0 q w" rule: prod_cases3)
     (simp add: process_def Let_def split: sum.splits exn.splits)

lemma process_ready_returns:
  assumes "agent self0 \<noteq> None" and "runner self0 \<noteq> None" and "session self0 \<noteq> None"
    and "sigint w \<noteq> Cancel_pending"
    and "snd (run_async (sdk w) (clock w) q) \<noteq> Some KeyboardInterrupt"
    and "snd (run_async (sdk w) (clock w) q) \<noteq> Some CancelledError"
  shows "\<exists>s. fst (process self0 q w) = Inr s"
proof -
  obtain events failure where r: "run_async (sdk w) (clock w) q = (events, failure)"
    by (cases "run_async (sdk w) (clock w) q")
  note b = process_body_ready [OF assms(1-4) r]
  show ?thesis
  proof (cases failure)
    case None
    with b have "\<exists>s. fst (process_body self0 q w) = Inr s"
      by simp
    then obtain s where "fst (process_body self0 q w) = Inr s" ..
    from process_cases(3) [OF this] this show ?thesis by simp
  next
    case (Some x)
    with assms(5,6) r obtain e where "x = Exc e"
      by (cases x) simp_all
    with Some b have "fst (process_body self0 q w) = Inl (Exc e)"
      by simp
    from process_cases(1) [OF this] show ?thesis by simp
  qed
qed

lemma process_step_eq:
  "process_step announce prefix handler q (self0, w) =
     (case fst (process self0 q (print announce w)) of
        Inr result \<Rightarrow>
          (Inr (), fst (snd (process self0 q (print announce w))),
           print (prefix @ result) (snd (snd (process self0 q (print announce w)))))
      | Inl x \<Rightarrow> (Inl x, snd (process self0 q (print announce w))))"
  using process_never_Exception [of self0 q "print announce w"]
  by (cases "process self0 q (print announce w)" rule: prod_cases3)
     (auto simp add: process_step_def split: sum.splits exn.splits)

lemma process_step_ready_facts:
  assumes "agent self0 \<noteq> None" and "runner self0 \<noteq> None" and "session self0 \<noteq> None"
  shows "fst (snd (process_step announce prefix handler q (self0, w))) = self0"
    and "launches (out (snd (snd (process_step announce prefix handler q (self0, w))))) = launches (out w)"
    and "invoked (out (snd (snd (process_step announce prefix handler q (self0, w))))) =
           invoked (out w) @ [q]"
    and "cursor (snd (snd (process_step announce prefix handler q (self0, w)))) = cursor w"
    and "sigint w \<noteq> Cancel_pending \<Longrightarrow>
           sigint (snd (snd (process_step announce prefix handler q (self0, w)))) = sigint w"
  using process_ready_facts [OF assms, where q = q and w = "print announce w"]
  by (simp_all add: process_step_eq split: sum.splits)

lemma process_step_ready_returns:
  assumes "agent self0 \<noteq> None" and "runner self0 \<noteq> None" and "session self0 \<noteq> None"
    and "sigint w \<noteq> Cancel_pending"
    and "snd (run_async (sdk w) (clock w) q) \<noteq> Some KeyboardInterrupt"
    and "snd (run_async (sdk w) (clock w) q) \<noteq> Some CancelledError"
  shows "fst (process_step announce prefix handler q (self0, w)) = Inr ()"
  using process_ready_returns [OF assms(1-3), where w = "print announce w" and q = q] assms(4-6)
  by (auto simp add: process_step_eq)

lemma cleanup_out [simp]:
  "invoked (out (snd (cleanup self0 w))) = invoked (out w)"
  "launches (out (snd (cleanup self0 w))) = launches (out w)"
  "cursor (snd (cleanup self0 w)) = cursor w"
proof -
  have t: "invoked (out (snd (try_cleanup_methods t ms v))) = invoked (out v)
      \<and> launches (out (snd (try_cleanup_methods t ms v))) = launches (out v)
      \<and> cursor (snd (try_cleanup_methods t ms v)) = cursor v" for t ms and v :: "adk_sdk world"
  proof (induction ms arbitrary: v)
    case Nil
    then show ?case by simp
  next
    case (Cons m ms)
    then show ?case
      by (simp add: try_cleanup_methods_Cons Let_def split: sum.splits exn.splits call_result.splits)
  qed
  have b: "invoked (out (snd (cleanup_body self0 w))) = invoked (out w)
      \<and> launches (out (snd (cleanup_body self0 w))) = launches (out w)
      \<and> cursor (snd (cleanup_body self0 w)) = cursor w"
    using t [of "clock w" cleanup_methods "tick w"]
    by (simp add: cleanup_body_def split_beta split: option.splits sum.splits)
  obtain r v where c: "cleanup_body self0 w = (r, v)"
    by (cases "cleanup_body self0 w")
  with b show "invoked (out (snd (cleanup self0 w))) = invoked (out w)"
    "launches (out (snd (cleanup self0 w))) = launches (out w)"
    "cursor (snd (cleanup self0 w)) = cursor w"
    by (simp_all add: cleanup_def except_Exception_print_def split: sum.splits exn.splits)
qed

lemma static_process_step_any [simp]:
  "static (snd (snd (process_step announce prefix handler q st))) = static (snd st)"
  by (cases st) (simp add: process_step_eq split: sum.splits)

lemma for_each_process_step:
  fixes a p h g
  defines "step \<equiv> (\<lambda>x. process_step (a x) (p x) (h x) (g x))"
  assumes "agent self0 \<noteq> None" and "runner self0 \<noteq> None" and "session self0 \<noteq> None"
  shows "fst (snd (for_each step xs (self0, w))) = self0"
    and "launches (out (snd (snd (for_each step xs (self0, w))))) = launches (out w)"
    and "cursor (snd (snd (for_each step xs (self0, w)))) = cursor w"
    and "\<exists>k\<le>length xs. invoked (out (snd (snd (for_each step xs (self0, w))))) =
           invoked (out w) @ take k (map g xs)"
    and "sigint w \<noteq> Cancel_pending \<Longrightarrow>
         \<forall>n t. snd (run_async (sdk w) n t) \<notin> {Some KeyboardInterrupt, Some CancelledError} \<Longrightarrow>
           fst (for_each step xs (self0, w)) = Inr ()
           \<and> sigint (snd (snd (for_each step xs (self0, w)))) = sigint w
           \<and> invoked (out (snd (snd (for_each step xs (self0, w))))) = invoked (out w) @ map g xs"
proof -
  let ?I = "\<lambda>st. fst st = self0 \<and> launches (out (snd st)) = launches (out w)
                \<and> cursor (snd st) = cursor w"
  have keep: "?I (snd (step x st))" if "?I st" for x st
    using that process_step_ready_facts [OF assms(2-4), where announce = "a x" and prefix = "p x" and handler = "h x" and q = "g x" and w = "snd st"]
    by (cases st) (simp add: step_def)
  have "?I (snd (for_each step xs (self0, w)))"
    by (rule for_each_invariant [where I = ?I]) (use keep in simp_all)
  then show "fst (snd (for_each step xs (self0, w))) = self0"
    and "launches (out (snd (snd (for_each step xs (self0, w))))) = launches (out w)"
    and "cursor (snd (snd (for_each step xs (self0, w)))) = cursor w"
    by simp_all
  have grow: "fst (snd (step x st)) = self0
      \<and> invoked (out (snd (snd (step x st)))) = invoked (out (snd st)) @ [g x]"
    if "fst st = self0" for x st
    using that process_step_ready_facts [OF assms(2-4), where announce = "a x" and prefix = "p x" and handler = "h x" and q = "g x" and w = "snd st"]
    by (cases st) (simp add: step_def)
  from for_each_prefix [where I = "\<lambda>st. fst st = self0" and h = "\<lambda>st. invoked (out (snd st))"
      and step = step and g = g and st = "(self0, w)" and xs = xs]
  show "\<exists>k\<le>length xs. invoked (out (snd (snd (for_each step xs (self0, w))))) =
           invoked (out w) @ take k (map g xs)"
    using grow by simp
  show "fst (for_each step xs (self0, w)) = Inr ()
        \<and> sigint (snd (snd (for_each step xs (self0, w)))) = sigint w
        \<and> invoked (out (snd (snd (for_each step xs (self0, w))))) = invoked (out w) @ map g xs"
    if quiet: "sigint w \<noteq> Cancel_pending"
      and benign: "\<forall>n t. snd (run_async (sdk w) n t) \<notin> {Some KeyboardInterrupt, Some CancelledError}"
  proof -
    let ?J = "\<lambda>st. fst st = self0 \<and> sigint (snd st) = sigint w \<and> static (snd st) = static w"
    have one: "fst (step x st) = Inr () \<and> ?J (snd (step x st))
        \<and> invoked (out (snd (snd (step x st)))) = invoked (out (snd st)) @ [g x]"
      if "?J st" for x st
    proof -
      define v where "v = snd st"
      from that have st: "st = (self0, v)" and v: "sigint v = sigint w" "static v = static w"
        by (simp_all add: v_def prod_eq_iff)
      from v(2) have "sdk (print (a x) v) = sdk w"
        by (simp add: static_fields)
      with benign have b: "snd (run_async (sdk (print (a x) v)) (clock (print (a x) v)) (g x)) \<noteq> Some KeyboardInterrupt"
        "snd (run_async (sdk (print (a x) v)) (clock (print (a x) v)) (g x)) \<noteq> Some CancelledError"
        by simp_all
      from quiet v(1) have q: "sigint v \<noteq> Cancel_pending" by simp
      have "fst (process_step (a x) (p x) (h x) (g x) (self0, v)) = Inr ()"
        by (rule process_step_ready_returns [OF assms(2-4) q]) (use b in simp_all)
      with process_step_ready_facts [OF assms(2-4), where announce = "a x" and prefix = "p x" and handler = "h x" and q = "g x" and w = v] q v
      show ?thesis
        by (simp add: step_def st)
    qed
    from for_each_all [where I = ?J and h = "\<lambda>st. invoked (out (snd st))" and step = step
        and g = g and st = "(self0, w)" and xs = xs] one
    show ?thesis by simp
  qed
qed

lemma for_each_never:
  assumes "\<And>x st. fst (step x st) \<noteq> Inl e"
  shows "fst (for_each step xs st) \<noteq> Inl e"
proof (induction xs arbitrary: st)
  case Nil
  then show ?case by simp
next
  case (Cons x xs)
  with assms [of x st] show ?case
    by (auto simp add: for_each_Cons split: sum.splits)
qed

lemma try_cleanup_methods_returns:
  assumes "sigint w \<noteq> Cancel_pending" and "\<forall>m x. \<not> breaks_out (sdk w) t m x"
  shows "try_cleanup_methods t ms w = (Inr (), w)
         \<or> (\<exists>m. try_cleanup_methods t ms w =
                  (Inr (), print (CHECK_MARK @ str '' Used '' @ m @ str '' for cleanup'') w))"
proof (induction ms)
  case Nil
  then show ?case by simp
next
  case (Cons m ms)
  show ?case
  proof (cases "toolset_has (sdk w) t (first_component m)")
    case False
    with Cons show ?thesis by (simp add: try_cleanup_methods_Cons)
  next
    case True
    from assms(2) True have no: "toolset_call (sdk w) t m \<noteq> Raised x
        \<and> toolset_call (sdk w) t m \<noteq> Awaited (Some x)" if "is_Exception x = False" for x
      using that by (auto simp add: breaks_out_def)
    show ?thesis
    proof (cases "toolset_call (sdk w) t m")
      case (Raised x)
      with no [of x] obtain e where "x = Exc e"
        by (cases x) (auto simp add: is_Exception_def)
      with Raised True Cons show ?thesis
        by (simp add: try_cleanup_methods_Cons)
    next
      case Plain
      with True show ?thesis
        by (simp add: try_cleanup_methods_Cons) blast
    next
      case (Awaited r)
      show ?thesis
      proof (cases r)
        case None
        with Awaited True assms(1) show ?thesis
          by (simp add: try_cleanup_methods_Cons) blast
      next
        case (Some x)
        with Awaited no [of x] obtain e where "x = Exc e"
          by (cases x) (auto simp add: is_Exception_def)
        with Some Awaited True Cons assms(1) show ?thesis
          by (simp add: try_cleanup_methods_Cons)
      qed
    qed
  qed
qed

lemma cleanup_returns:
  assumes "sigint w \<noteq> Cancel_pending" and "\<forall>m x. \<not> breaks_out (sdk w) (clock w) m x"
  shows "fst (cleanup self0 w) = Inr ()" and "sigint (snd (cleanup self0 w)) = sigint w"
proof -
  have "fst (cleanup self0 w) = Inr () \<and> sigint (snd (cleanup self0 w)) = sigint w"
  proof (cases "xero_toolset self0 = None")
    case True
    then show ?thesis
      by (simp add: cleanup_def cleanup_body_def except_Exception_print_def)
  next
    case False
    from try_cleanup_methods_returns [of "tick w" "clock w" cleanup_methods] assms
    have "try_cleanup_methods (clock w) cleanup_methods (tick w) = (Inr (), tick w)
         \<or> (\<exists>m. try_cleanup_methods (clock w) cleanup_methods (tick w) =
                  (Inr (), print (CHECK_MARK @ str '' Used '' @ m @ str '' for cleanup'') (tick w)))"
      by simp
    with False show ?thesis
      by (auto simp add: cleanup_with_toolset)
  qed
  then show "fst (cleanup self0 w) = Inr ()" and "sigint (snd (cleanup self0 w)) = sigint w"
    by simp_all
qed

lemma cleanup_never_Exception: "fst (cleanup self0 w) \<noteq> Inl (Exc e)"
  by (cases "cleanup_body self0 w")
     (simp add: cleanup_def except_Exception_print_def split: sum.splits exn.splits)

lemma with_agent_for_queries:
  fixes a p h g
  defines "step \<equiv> (\<lambda>x. process_step (a x) (p x) (h x) (g x))"
  assumes "initialize_fails (sdk w) (clock w) = None" and "sigint w \<noteq> Cancel_pending"
  shows "\<exists>r w'. with_agent (for_queries step xs) w = Some (r, w')
      \<and> (\<forall>e. r \<noteq> Inl (Exc e))
      \<and> launches (out w') =
          launches (out w) @ [(connection_params (create_xero_mcp_toolset w),
                              Some (tool_filter (create_xero_mcp_toolset w)))]
      \<and> cursor w' = cursor w \<and> static w' = static w
      \<and> (\<exists>k\<le>length xs. invoked (out w') = invoked (out w) @ take k (map g xs))
      \<and> ((\<forall>n t. snd (run_async (sdk w) n t) \<notin> {Some KeyboardInterrupt, Some CancelledError}) \<longrightarrow>
           invoked (out w') = invoked (out w) @ map g xs
           \<and> ((\<forall>n m x. \<not> breaks_out (sdk w) n m x) \<longrightarrow> r = Inr () \<and> sigint w' = sigint w))"
proof -
  let ?i = "initialize XeroADKAgent_init w"
  let ?self1 = "fst (snd ?i)" and ?w1 = "snd (snd ?i)"
  let ?f = "for_each step xs (?self1, ?w1)"
  let ?self2 = "fst (snd ?f)" and ?w2 = "snd (snd ?f)"
  let ?c = "cleanup ?self2 ?w2"
  have ok: "fst ?i = Inr ()"
    using assms(2,3) by (rule initialize_succeeds)
  note ready = initialize_ready(1-3) [OF ok]
  note f = for_each_process_step [OF ready, where a = a and p = p and h = h and g = g and xs = xs
      and w = ?w1, folded step_def]
  have s1: "static ?w1 = static w" "sigint ?w1 = sigint w"
    using assms(3) by (simp_all add: initialize_sigint)
  have l1: "launches (out ?w1) = launches (out w) @ [(connection_params (create_xero_mcp_toolset w),
                              Some (tool_filter (create_xero_mcp_toolset w)))]"
    using assms(2) by (simp add: launches_initialize fails_at_def)
  have s2: "static ?w2 = static w"
    using for_each_keeps [where g = "\<lambda>st. static (snd st)" and body = step and xs = xs
        and w = "(?self1, ?w1)"] s1
    by (simp add: step_def)
  define r where "r = (case fst ?c of Inl y \<Rightarrow> Inl y | Inr u \<Rightarrow> fst ?f)"
  have run: "with_agent (for_queries step xs) w = Some (r, snd ?c)"
    using ok by (simp add: with_agent_def for_queries_def split_beta r_def split: sum.splits)
  have body_result: "fst ?f \<noteq> Inl (Exc e)" for e
  proof -
    have "fst (step x st) \<noteq> Inl (Exc e)" for x st
      using process_never_Exception
      by (cases st) (auto simp add: step_def process_step_eq split: sum.splits)
    then show ?thesis
      by (rule for_each_never)
  qed
  have never: "r \<noteq> Inl (Exc e)" for e
    using body_result [of e] cleanup_never_Exception [of ?self2 ?w2 e]
    by (auto simp add: r_def split: sum.splits)
  have launched: "launches (out (snd ?c)) = launches (out w) @ [(connection_params (create_xero_mcp_toolset w),
                              Some (tool_filter (create_xero_mcp_toolset w)))]"
    using f(2) l1 by simp
  have cur: "cursor (snd ?c) = cursor w"
    using f(3) by simp
  have st: "static (snd ?c) = static w"
    using s2 by simp
  have pre: "\<exists>k\<le>length xs. invoked (out (snd ?c)) = invoked (out w) @ take k (map g xs)"
    using f(4) by simp
  have all: "invoked (out (snd ?c)) = invoked (out w) @ map g xs
           \<and> ((\<forall>n m x. \<not> breaks_out (sdk w) n m x) \<longrightarrow> r = Inr () \<and> sigint (snd ?c) = sigint w)"
    if benign: "\<forall>n t. snd (run_async (sdk w) n t) \<notin> {Some KeyboardInterrupt, Some CancelledError}"
  proof -
    have "sdk ?w1 = sdk w"
      by (rule static_sdk) simp
    with benign have "\<forall>n t. snd (run_async (sdk ?w1) n t) \<notin> {Some KeyboardInterrupt, Some CancelledError}"
      by simp
    from f(5) [OF _ this] assms(3) s1(2)
    have fin: "fst ?f = Inr ()" "sigint ?w2 = sigint w"
      "invoked (out ?w2) = invoked (out w) @ map g xs"
      by simp_all
    have "r = Inr () \<and> sigint (snd ?c) = sigint w" if "\<forall>n m x. \<not> breaks_out (sdk w) n m x"
    proof -
      have "sdk ?w2 = sdk w"
        by (rule static_sdk) (rule s2)
      with that have "\<forall>m x. \<not> breaks_out (sdk ?w2) (clock ?w2) m x"
        by simp
      from cleanup_returns [OF _ this, of ?self2] fin(2) assms(3) fin(1) show ?thesis
        by (simp add: r_def)
    qed
    with fin(3) show ?thesis by simp
  qed
  from run never launched cur st pre all show ?thesis
    by blast
qed

lemma adk_launch_banner [simp]: "adk_launch (banner n t w) = adk_launch w"
  "adk_launch (print s w) = adk_launch w"
  by (simp_all add: adk_launch_def create_xero_mcp_toolset_def getenv_def)

lemma with_agent_for_queries_outcome:
  assumes "initialize_fails (sdk w) (clock w) = None" and "sigint w \<noteq> Cancel_pending"
  shows "\<exists>r w'. with_agent (for_queries (\<lambda>x. process_step (a x) (p x) (h x) (g x)) xs) w = Some (r, w')
           \<and> adk_demo_outcome (map g xs) w r w'"
  using with_agent_for_queries [OF assms, of a p h g xs]
  by (simp add: adk_launch_def)

lemma for_queries_single: "for_queries step [q] = (\<lambda>self0 w. Some (step q (self0, w)))"
proof (intro ext)
  fix self0 :: XeroADKAgent and w :: "adk_sdk world"
  show "for_queries step [q] self0 w = Some (step q (self0, w))"
    by (cases "step q (self0, w)"; cases "fst (step q (self0, w))")
       (simp_all add: for_queries_def for_each_Cons)
qed

lemma adk_demos_run:
  assumes "initialize_fails (sdk w) (clock w) = None" and "sigint w \<noteq> Cancel_pending"
  shows "\<exists>r w'. demo_basic_operations w = Some (r, w')
           \<and> adk_demo_outcome demo_basic_operations_queries w r w'"
    and "\<exists>r w'. demo_invoice_workflow w = Some (r, w') \<and> adk_demo_outcome workflow_queries w r w'"
    and "\<exists>r w'. demo_natural_language_processing w = Some (r, w') \<and> adk_demo_outcome nl_queries w r w'"
    and "\<exists>r w'. demo_error_handling w = Some (r, w') \<and> adk_demo_outcome error_scenarios w r w'"
    and "\<exists>r w'. demo_batch_operations w = Some (r, w') \<and> adk_demo_outcome [batch_query] w r w'"
proof -
  have b: "initialize_fails (sdk (banner n t w)) (clock (banner n t w)) = None"
    "sigint (banner n t w) \<noteq> Cancel_pending" for n t
    using assms by simp_all
  have p: "initialize_fails (sdk (print s (banner n t w))) (clock (print s (banner n t w))) = None"
    "sigint (print s (banner n t w)) \<noteq> Cancel_pending" for n t s
    using assms by simp_all
  show "\<exists>r w'. demo_basic_operations w = Some (r, w')
           \<and> adk_demo_outcome demo_basic_operations_queries w r w'"
    using with_agent_for_queries_outcome [OF b [where n = 50 and t = "str ''BASIC XERO OPERATIONS WITH ADK + MCP SERVER''"], where g = "\<lambda>q. q" and xs = demo_basic_operations_queries
      and a = "\<lambda>query. nl @ MEMO @ str '' Query: '' @ query"
      and p = "\<lambda>query. CHECK_MARK @ str '' Result: ''"
      and h = "\<lambda>query e w. prints
                [CROSS_MARK @ str '' Error processing '' @ apos @ query @ str ''': '' @ msg e,
                 str ''   Error type: '' @ cls e,
                 str ''   Traceback: '' @ format_exc (sdk w) e] w"]
    by (simp add: demo_basic_operations_def)
  show "\<exists>r w'. demo_invoice_workflow w = Some (r, w') \<and> adk_demo_outcome workflow_queries w r w'"
    using with_agent_for_queries_outcome [OF b [where n = 50 and t = "str ''INVOICE WORKFLOW WITH ADK + MCP SERVER''"], where g = snd and xs = "enumerate 1 workflow_queries"
      and a = "\<lambda>x. nl @ PUSHPIN @ str '' Step '' @ str_of_nat (fst x) @ str '': '' @ snd x"
      and p = "\<lambda>x. CHECK_MARK @ str '' Result: ''"
      and h = "\<lambda>x e. print (CROSS_MARK @ str '' Error: '' @ msg e)"]
    by (simp add: demo_invoice_workflow_def split_def map_snd_enumerate)
  show "\<exists>r w'. demo_natural_language_processing w = Some (r, w') \<and> adk_demo_outcome nl_queries w r w'"
    using with_agent_for_queries_outcome [OF b [where n = 50 and t = "str ''NATURAL LANGUAGE PROCESSING WITH ADK + MCP SERVER''"], where g = "\<lambda>q. q" and xs = nl_queries
      and a = "\<lambda>query. nl @ SPEECH_BALLOON @ str '' Query: '' @ apos @ query @ apos"
      and p = "\<lambda>query. ROBOT_FACE @ str '' Agent: ''"
      and h = "\<lambda>query e. print (CROSS_MARK @ str '' Error: '' @ msg e)"]
    by (simp add: demo_natural_language_processing_def)
  show "\<exists>r w'. demo_error_handling w = Some (r, w') \<and> adk_demo_outcome error_scenarios w r w'"
    using with_agent_for_queries_outcome [OF b [where n = 50 and t = "str ''ERROR HANDLING IN ADK + MCP SERVER''"], where g = "\<lambda>q. q" and xs = error_scenarios
      and a = "\<lambda>scenario. nl @ TEST_TUBE @ str '' Testing: '' @ scenario"
      and p = "\<lambda>scenario. CHECK_MARK @ str '' Handled gracefully: ''"
      and h = "\<lambda>scenario e. print (WARNING_SIGN @ str '' Exception caught: '' @ msg e)"]
    by (simp add: demo_error_handling_def)
  show "\<exists>r w'. demo_batch_operations w = Some (r, w') \<and> adk_demo_outcome [batch_query] w r w'"
    using with_agent_for_queries_outcome [OF p [where n = 50 and t = "str ''BATCH OPERATIONS WITH ADK + MCP SERVER''" and s = "nl @ str ''Demonstrating how ADK can handle multiple operations:''"], where g = "\<lambda>q. q" and xs = "[batch_query]"
      and a = "\<lambda>x. nl @ CLIPBOARD @ str '' Batch Query: '' @ batch_query"
      and p = "\<lambda>x. CHECK_MARK @ str '' Batch Result: ''"
      and h = "\<lambda>x e. print (CROSS_MARK @ str '' Error: '' @ msg e)"]
    by (simp add: demo_batch_operations_def for_queries_single)
qed

subsection \<open>openai and langchain: what a step hands to the agent\<close>

lemma out_except [simp]:
  "launches (out (snd (except_Exception_print p r))) = launches (out (snd r))"
  "invoked (out (snd (except_Exception_print p r))) = invoked (out (snd r))"
  "cursor (snd (except_Exception_print p r)) = cursor (snd r)"
  "sigint (snd (except_Exception_print p r)) = sigint (snd r)"
  by (cases r; simp add: except_Exception_print_def split: sum.splits exn.splits)+

lemma except_never_Exception: "fst (except_Exception_print p r) \<noteq> Inl (Exc e)"
  by (cases r) (simp add: except_Exception_print_def split: sum.splits exn.splits)

lemma out_Runner_run [simp]: "out (snd (Runner_run a t w)) = out w @ [Invoke (agent_name a) t]"
  "cursor (snd (Runner_run a t w)) = cursor w"
  by (simp_all add: Runner_run_def)

lemma sigint_Runner_run:
  "sigint w \<noteq> Cancel_pending \<Longrightarrow> sigint (snd (Runner_run a t w)) = sigint w"
  by (simp add: Runner_run_def)

lemma Runner_run_result:
  "sigint w \<noteq> Cancel_pending \<Longrightarrow> fst (Runner_run a t w) = run (sdk w) (clock w) (agent_name a) t"
  "sigint w = Cancel_pending \<Longrightarrow> fst (Runner_run a t w) = Inl CancelledError"
  by (simp_all add: Runner_run_def await_pending)

lemma request_step_out [simp]:
  "launches (out (snd (request_step icon a q w))) = launches (out w)"
  "invoked (out (snd (request_step icon a q w))) = invoked (out w) @ [q]"
  "cursor (snd (request_step icon a q w)) = cursor w"
  by (simp_all add: request_step_def Let_def split_beta split: sum.splits)

lemma request_step_sigint:
  "sigint w \<noteq> Cancel_pending \<Longrightarrow> sigint (snd (request_step icon a q w)) = sigint w"
  by (simp add: request_step_def Let_def split_beta sigint_Runner_run split: sum.splits)

lemma request_step_returns:
  assumes "sigint w \<noteq> Cancel_pending"
    and "run (sdk w) (clock w) (agent_name a) q \<notin> {Inl KeyboardInterrupt, Inl CancelledError}"
  shows "fst (request_step icon a q w) = Inr ()"
proof -
  let ?w2 = "print (THOUGHT_BALLOON @ str '' Agent thinking...'') (print (nl @ icon @ str '' User: '' @ q) w)"
  have "fst (Runner_run a q ?w2) = run (sdk w) (clock w) (agent_name a) q"
    using assms(1) by (simp add: Runner_run_result)
  with assms(2) show ?thesis
    by (cases "Runner_run a q ?w2"; cases "run (sdk w) (clock w) (agent_name a) q")
       (auto simp add: request_step_def Let_def except_Exception_print_def split: exn.splits)
qed

lemma workflow_step_out [simp]:
  "launches (out (snd (workflow_step l a st w))) = launches (out w)"
  "invoked (out (snd (workflow_step l a st w))) = invoked (out w) @ [fst st]"
  "cursor (snd (workflow_step l a st w)) = cursor w"
  by (simp_all add: workflow_step_def split_beta split: sum.splits)

lemma out_agent_ainvoke [simp]:
  "out (snd (agent_ainvoke a t w)) = out w @ [Invoke (agent_name a) t]"
  "cursor (snd (agent_ainvoke a t w)) = cursor w"
  by (simp_all add: agent_ainvoke_def)

lemma sigint_agent_ainvoke:
  "sigint w \<noteq> Cancel_pending \<Longrightarrow> sigint (snd (agent_ainvoke a t w)) = sigint w"
  by (simp add: agent_ainvoke_def)

lemma agent_ainvoke_result:
  "sigint w \<noteq> Cancel_pending \<Longrightarrow> fst (agent_ainvoke a t w) = ainvoke (sdk w) (clock w) t"
  "sigint w = Cancel_pending \<Longrightarrow> fst (agent_ainvoke a t w) = Inl CancelledError"
  by (simp_all add: agent_ainvoke_def await_pending)

lemma out_print_last_message [simp]:
  "launches (out (snd (print_last_message p r w))) = launches (out w)"
  "invoked (out (snd (print_last_message p r w))) = invoked (out w)"
  "cursor (snd (print_last_message p r w)) = cursor w"
  "sigint (snd (print_last_message p r w)) = sigint w"
  by (simp_all add: print_last_message_def split: response.splits)

lemma invoke_and_print_out [simp]:
  "launches (out (snd (invoke_and_print p a t w))) = launches (out w)"
  "invoked (out (snd (invoke_and_print p a t w))) = invoked (out w) @ [t]"
  "cursor (snd (invoke_and_print p a t w)) = cursor w"
  by (simp_all add: invoke_and_print_def split_beta split: sum.splits)

lemma invoke_and_print_sigint:
  "sigint w \<noteq> Cancel_pending \<Longrightarrow> sigint (snd (invoke_and_print p a t w)) = sigint w"
  by (simp add: invoke_and_print_def split_beta sigint_agent_ainvoke split: sum.splits)

lemma query_step_out [simp]:
  "launches (out (snd (query_step a q w))) = launches (out w)"
  "invoked (out (snd (query_step a q w))) = invoked (out w) @ [q]"
  "cursor (snd (query_step a q w)) = cursor w"
  by (simp_all add: query_step_def)

lemma create_xero_mcp_agent_out [simp]:
  "invoked (out (snd (create_xero_mcp_agent w))) = invoked (out w)"
  "cursor (snd (create_xero_mcp_agent w)) = cursor w"
  by (simp_all add: create_xero_mcp_agent_def Let_def split_beta Agent_def
        split: sum.splits option.splits)

lemma create_xero_mcp_agent_sigint:
  "sigint w \<noteq> Cancel_pending \<Longrightarrow> sigint (snd (create_xero_mcp_agent w)) = sigint w"
  by (simp add: create_xero_mcp_agent_def Let_def split_beta Agent_def
        split: sum.splits option.splits)

lemma xero_connection_prints [simp]:
  "xero_connection (banner n t w) = xero_connection w"
  "xero_connection (prints ts w) = xero_connection w"
  "xero_connection (w\<lparr>sigint := s\<rparr>) = xero_connection w"
  by (simp_all add: xero_connection_def getenv_def)

lemma launches_langchain_loops:
  "launches (out (snd (demo_invoice_specialist_agent w))) =
     launches (out w) @ [(stdio_params.truncate (xero_connection w), None)]"
  "launches (out (snd (demo_contact_manager_agent w))) =
     launches (out w) @ [(stdio_params.truncate (xero_connection w), None)]"
  by (simp_all add: demo_invoice_specialist_agent_def demo_contact_manager_agent_def split_beta
        launches_create_xero_mcp_agent
        for_each_keeps [where g = "\<lambda>w. launches (out w)"] split: sum.splits)

subsection \<open>The environment of the tool-provider subprocess\<close>

lemma run_selected_out:
  assumes "demo w = Some (r, w1)"
  shows "\<exists>r' ts. run_selected demo w = Some (r', prints ts w1)"
proof (cases r)
  case (Inr u)
  with assms show ?thesis
    by (intro exI [of _ "Inr ()"] exI [of _ "[]"]) (simp add: run_selected_def)
next
  case (Inl x)
  show ?thesis
  proof (cases x)
    case (Exc e)
    with Inl assms show ?thesis
      by (intro exI [of _ "Inr ()"]
            exI [of _ "[nl @ CROSS_MARK @ str '' Demo failed: '' @ msg e,
                        str ''Please check your environment configuration and try again.'']"])
         (simp add: run_selected_def)
  next
    case KeyboardInterrupt
    with Inl assms show ?thesis
      by (intro exI [of _ "Inr ()"] exI [of _ "[nl @ nl @ str ''Demo interrupted by user.'']"])
         (simp add: run_selected_def prints_def)
  next
    case CancelledError
    with Inl assms show ?thesis
      by (intro exI [of _ "Inl CancelledError"] exI [of _ "[]"]) (simp add: run_selected_def)
  qed
qed

lemma asyncio_run_Some:
  assumes "main (w\<lparr>sigint := Armed\<rparr>) = Some (r, w1)"
  shows "\<exists>r'. asyncio_run main w = Some (r', w1\<lparr>sigint := sigint w\<rparr>)"
  using assms by (simp add: asyncio_run_def)

text \<open>
  The defect behind claim C4, at a concrete run. With the credentials, a model key and
  \<open>npx\<close> in place, the first demo of \<open>google-adk.py\<close> launches its tool provider with
  parameters that have no \<open>env\<close> mapping: the script writes the credentials under the
  keyword \<open>env_vars\<close>, and so does the Cloud Run module. The langchain and openai scripts
  write the same mapping under \<open>env\<close>.
\<close>

theorem google_adk_writes_credentials_to_env_vars:
  "map_option (\<lambda>p. launches (out (snd p)))
     (adk_script Map.empty 0
        ((typed (str ''1'') quiet_adk)\<lparr>which := (\<lambda>k. Some (str ''/usr/bin/npx''))\<rparr>)) =
     Some [(\<lparr>command = str ''npx'', args = [str ''@xeroapi/xero-mcp-server@latest''], env = None,
             env_vars = Some [(str ''XERO_CLIENT_ID'', Some (str ''demo-id'')),
                              (str ''XERO_CLIENT_SECRET'', Some (str ''demo-secret''))]\<rparr>,
            Some [str ''list-contacts'', str ''create-contact'', str ''list-invoices'',
                  str ''create-invoice'', str ''get-timesheet'', str ''list-accounts'',
                  str ''list-items'', str ''list-tax-rates'', str ''list-tracking-categories'',
                  str ''update-contact'', str ''update-invoice'', str ''create-payment'',
                  str ''list-payments'', str ''list-organisation-details''])]
   \<and> connection_params (xero_mcp_toolset (typed (str ''1'') quiet_adk)) =
       \<lparr>command = str ''npx'', args = [str ''@xeroapi/xero-mcp-server@latest''], env = None,
        env_vars = Some [(str ''XERO_CLIENT_ID'', Some (str ''demo-id'')),
                         (str ''XERO_CLIENT_SECRET'', Some (str ''demo-secret''))]\<rparr>
   \<and> map_option (\<lambda>p. launches (out (snd p)))
       (langchain_script Map.empty 0 (typed (str ''1'') failing_langchain)) =
     Some [(\<lparr>command = str ''npx'', args = [str ''-y'', str ''@xeroapi/xero-mcp-server@latest''],
             env = Some [(str ''XERO_CLIENT_ID'', Some (str ''demo-id'')),
                         (str ''XERO_CLIENT_SECRET'', Some (str ''demo-secret''))],
             env_vars = None\<rparr>, None)]
   \<and> params (openai_server (str ''demo-id'') (str ''demo-secret'')) =
       \<lparr>command = str ''npx'', args = [str ''-y'', str ''@xeroapi/xero-mcp-server@latest''],
        env = Some [(str ''XERO_CLIENT_ID'', Some (str ''demo-id'')),
                    (str ''XERO_CLIENT_SECRET'', Some (str ''demo-secret''))],
        env_vars = None\<rparr>"
proof -
  let ?W = "(typed (str ''1'') quiet_adk)\<lparr>which := (\<lambda>k. Some (str ''/usr/bin/npx''))\<rparr>"
  let ?A = "(load_dotenv Map.empty ?W)\<lparr>sigint := Armed\<rparr>"
  let ?W3 = "(emit (Prompt (nl @ str ''Enter your choice (1-6): ''))
                 (prints ((CHECK_MARK @ str '' Google ADK is installed'') # adk_menu) ?A))
                \<lparr>cursor := Suc (cursor ?A)\<rparr>"
  let ?launch = "(\<lparr>command = str ''npx'', args = [str ''@xeroapi/xero-mcp-server@latest''], env = None,
             env_vars = Some [(str ''XERO_CLIENT_ID'', Some (str ''demo-id'')),
                              (str ''XERO_CLIENT_SECRET'', Some (str ''demo-secret''))]\<rparr>,
            Some [str ''list-contacts'', str ''create-contact'', str ''list-invoices'',
                  str ''create-invoice'', str ''get-timesheet'', str ''list-accounts'',
                  str ''list-items'', str ''list-tax-rates'', str ''list-tracking-categories'',
                  str ''update-contact'', str ''update-invoice'', str ''create-payment'',
                  str ''list-payments'', str ''list-organisation-details''])"
  have main: "adk_main 0 ?A = run_selected demo_basic_operations ?W3"
    using adk_main_selected [where w = ?A and l = "str ''1''" and n = 0 and demo = demo_basic_operations]
    by (simp add: quiet_adk_def adk_demos_def isspace_def)
  have "initialize_fails (sdk ?W3) (clock ?W3) = None" "sigint ?W3 \<noteq> Cancel_pending"
    by (simp_all add: quiet_adk_def)
  from adk_demos_run(1) [OF this] obtain r w' where
    demo: "demo_basic_operations ?W3 = Some (r, w')"
    and launched: "launches (out w') = launches (out ?W3) @ [adk_launch ?W3]"
    by blast
  have "adk_launch ?W3 = ?launch"
    by (simp add: adk_launch_def create_xero_mcp_toolset_def TS_MCP_SERVER_COMMAND_def getenv_def)
  moreover have "launches (out ?W3) = []"
    by simp
  ultimately have l: "launches (out w') = [?launch]"
    using launched by simp
  from run_selected_out [where demo = demo_basic_operations and w = ?W3, OF demo] obtain r' ts where
    "run_selected demo_basic_operations ?W3 = Some (r', prints ts w')"
    by blast
  with main have "adk_main 0 ?A = Some (r', prints ts w')"
    by simp
  from asyncio_run_Some [where main = "adk_main 0" and w = "load_dotenv Map.empty ?W", OF this] obtain r'' where
    "adk_script Map.empty 0 ?W = Some (r'', (prints ts w')\<lparr>sigint := sigint (load_dotenv Map.empty ?W)\<rparr>)"
    unfolding adk_script_def by blast
  with l have one: "map_option (\<lambda>p. launches (out (snd p))) (adk_script Map.empty 0 ?W) = Some [?launch]"
    by simp
  have two: "connection_params (xero_mcp_toolset (typed (str ''1'') quiet_adk)) =
       \<lparr>command = str ''npx'', args = [str ''@xeroapi/xero-mcp-server@latest''], env = None,
        env_vars = Some [(str ''XERO_CLIENT_ID'', Some (str ''demo-id'')),
                         (str ''XERO_CLIENT_SECRET'', Some (str ''demo-secret''))]\<rparr>"
    by (simp add: xero_mcp_toolset_def my_env_vars_def TS_MCP_SERVER_COMMAND_def getenv_def)
  let ?U = "typed (str ''1'') failing_langchain"
  let ?U1 = "(emit (Prompt (nl @ str ''Enter your choice (1-6): ''))
               (prints langchain_menu (load_dotenv Map.empty ?U)))
                \<lparr>cursor := Suc (cursor (load_dotenv Map.empty ?U))\<rparr>"
  have lmain: "langchain_script Map.empty 0 ?U =
      asyncio_run (\<lambda>w. Some (demo_invoice_specialist_agent w)) ?U1"
    unfolding langchain_script_def
    using langchain_main_selected [where w = "load_dotenv Map.empty ?U" and l = "str ''1''" and n = 0
        and demo = "\<lambda>w. Some (demo_invoice_specialist_agent w)"]
    by (simp add: isspace_def langchain_demos_one)
  have "launches (out (snd (demo_invoice_specialist_agent (?U1\<lparr>sigint := Armed\<rparr>)))) =
      [(stdio_params.truncate (xero_connection ?U1), None)]"
    by (simp add: launches_langchain_loops)
  moreover have "stdio_params.truncate (xero_connection ?U1) =
      \<lparr>command = str ''npx'', args = [str ''-y'', str ''@xeroapi/xero-mcp-server@latest''],
       env = Some [(str ''XERO_CLIENT_ID'', Some (str ''demo-id'')),
                   (str ''XERO_CLIENT_SECRET'', Some (str ''demo-secret''))],
       env_vars = None\<rparr>"
    by (simp add: xero_connection_def stdio_params.truncate_def getenv_def)
  ultimately have three: "map_option (\<lambda>p. launches (out (snd p))) (langchain_script Map.empty 0 ?U) =
     Some [(\<lparr>command = str ''npx'', args = [str ''-y'', str ''@xeroapi/xero-mcp-server@latest''],
             env = Some [(str ''XERO_CLIENT_ID'', Some (str ''demo-id'')),
                         (str ''XERO_CLIENT_SECRET'', Some (str ''demo-secret''))],
             env_vars = None\<rparr>, None)]"
    unfolding lmain by (simp add: asyncio_run_def split_beta)
  have four: "params (openai_server (str ''demo-id'') (str ''demo-secret'')) =
       \<lparr>command = str ''npx'', args = [str ''-y'', str ''@xeroapi/xero-mcp-server@latest''],
        env = Some [(str ''XERO_CLIENT_ID'', Some (str ''demo-id'')),
                    (str ''XERO_CLIENT_SECRET'', Some (str ''demo-secret''))],
        env_vars = None\<rparr>"
    by (simp add: openai_server_def)
  from one two three four show ?thesis
    by - (intro conjI, assumption+)
qed


end
